theory Spec2Isabelle
  imports Complex_Main "HOL-Library.AList" "HOL-Library.Multiset"
begin

section \<open>Numbers, errors, arrays and dictionaries\<close>

text \<open>
  The engine (\<^verbatim>\<open>backend/app/engine.py\<close>) computes on numpy arrays of float64. The
  embedding idealises float64 as \<^typ>\<open>real\<close>: rounding, overflow and inputs that are
  \<^verbatim>\<open>nan\<close> or \<^verbatim>\<open>inf\<close> are outside the model. The one place where the code itself
  manufactures \<^verbatim>\<open>nan\<close> from finite input (\<^verbatim>\<open>np.nanstd(..., ddof=1)\<close> on fewer than two
  rows) is an explicit outcome \<open>NotANumber\<close> of the model: the program raises nothing there
  and goes on with \<^verbatim>\<open>nan\<close>, which no real number stands for. What the standardization
  functions do with such a \<^verbatim>\<open>nan\<close> is modelled separately, on values that are a real number
  or \<^verbatim>\<open>nan\<close>.

  Every \<^verbatim>\<open>raise ComputeError(...)\<close> of the source is a constructor of \<open>compute_error\<close>
  (the source distinguishes them by message only); the exceptions that numpy and Python
  raise on the way (\<^verbatim>\<open>ValueError\<close>, \<^verbatim>\<open>IndexError\<close>, \<^verbatim>\<open>KeyError\<close>, \<^verbatim>\<open>LinAlgError\<close>) are
  constructors of \<open>error\<close>.
\<close>

datatype compute_error =
    MinMaxDegenerateColumn
  | ZScoreDegenerateColumn
  | EntropyAllZeroDiversity
  | PcaInsufficientSamples
  | PcaZeroVariance
  | PcaInvalidWeights
  | AhpNonSquareMatrix
  | AhpTooFewIndicators
  | AhpZeroWeightVector
  | AhpMatrixMissing
  | UnknownMethod string
  | UnknownStandardizationKind

datatype error =
    ComputeError compute_error
  | ValueError
  | IndexError
  | KeyError string
  | LinAlgError
  | NotANumber

text \<open>Sequencing of fallible steps: the first exception ends the run.\<close>

definition bindE :: "error + 'a \<Rightarrow> ('a \<Rightarrow> error + 'b) \<Rightarrow> error + 'b" where
  "bindE r f = (case r of Inl e \<Rightarrow> Inl e | Inr v \<Rightarrow> f v)"

fun mapE :: "('a \<Rightarrow> error + 'b) \<Rightarrow> 'a list \<Rightarrow> error + 'b list" where
  "mapE f [] = Inr []"
| "mapE f (x # xs) =
     (case f x of
        Inl e \<Rightarrow> Inl e
      | Inr y \<Rightarrow> (case mapE f xs of Inl e \<Rightarrow> Inl e | Inr ys \<Rightarrow> Inr (y # ys)))"

text \<open>
  A two-dimensional \<^verbatim>\<open>ndarray\<close> keeps its shape: the column count is stored, so that the
  array of shape \<open>(0, p)\<close> is told from the one of shape \<open>(0, 0)\<close>. A well-formed matrix has
  rows of that length. A one-dimensional array is a list.
\<close>

record matrix =
  ncols :: nat
  rows :: "real list list"

definition nrows :: "matrix \<Rightarrow> nat" where
  "nrows m = length (rows m)"

definition wf_matrix :: "matrix \<Rightarrow> bool" where
  "wf_matrix m = list_all (\<lambda>r. length r = ncols m) (rows m)"

definition col :: "matrix \<Rightarrow> nat \<Rightarrow> real list" where
  "col m j = map (\<lambda>r. r ! j) (rows m)"

definition cols :: "matrix \<Rightarrow> real list list" where
  "cols m = map (col m) [0..<ncols m]"

text \<open>
  numpy broadcasting of a binary operation, for the two shapes the engine uses: two vectors,
  and a matrix with a vector along its rows. Shapes that do not broadcast raise
  \<^verbatim>\<open>ValueError\<close>.
\<close>

definition bc_vec :: "(real \<Rightarrow> real \<Rightarrow> real) \<Rightarrow> real list \<Rightarrow> real list \<Rightarrow> error + real list" where
  "bc_vec f a b =
     (if length a = length b then Inr (map2 f a b)
      else if length b = 1 then Inr (map (\<lambda>u. f u (hd b)) a)
      else if length a = 1 then Inr (map (\<lambda>v. f (hd a) v) b)
      else Inl ValueError)"

definition bc_mat :: "(real \<Rightarrow> real \<Rightarrow> real) \<Rightarrow> matrix \<Rightarrow> real list \<Rightarrow> error + matrix" where
  "bc_mat f x v =
     (if ncols x = length v then Inr \<lparr>ncols = ncols x, rows = map (\<lambda>r. map2 f r v) (rows x)\<rparr>
      else if length v = 1
        then Inr \<lparr>ncols = ncols x, rows = map (\<lambda>r. map (\<lambda>u. f u (hd v)) r) (rows x)\<rparr>
      else if ncols x = 1
        then Inr \<lparr>ncols = length v, rows = map (\<lambda>r. map (\<lambda>b. f (hd r) b) v) (rows x)\<rparr>
      else Inl ValueError)"

text \<open>\<^verbatim>\<open>np.min\<close> and \<^verbatim>\<open>np.max\<close> of a vector: \<^verbatim>\<open>ValueError\<close> on a zero-size array.\<close>

definition np_min :: "real list \<Rightarrow> error + real" where
  "np_min xs = (case xs of [] \<Rightarrow> Inl ValueError | y # ys \<Rightarrow> Inr (fold min ys y))"

definition np_max :: "real list \<Rightarrow> error + real" where
  "np_max xs = (case xs of [] \<Rightarrow> Inl ValueError | y # ys \<Rightarrow> Inr (fold max ys y))"

text \<open>\<^verbatim>\<open>z @ w\<close> for a matrix and a vector: the inner dimensions must agree.\<close>

definition dot :: "real list \<Rightarrow> real list \<Rightarrow> real" where
  "dot r w = sum_list (map2 (*) r w)"

definition matvec :: "matrix \<Rightarrow> real list \<Rightarrow> error + real list" where
  "matvec z w = (if ncols z = length w then Inr (map (\<lambda>r. dot r w) (rows z)) else Inl ValueError)"

text \<open>
  A Python \<^verbatim>\<open>dict\<close> with string keys is an association list in insertion order:
  assigning to a key that is present replaces its value in place, assigning to a new key
  appends it (\<^const>\<open>AList.update\<close>).
\<close>

type_synonym 'v dict = "(string \<times> 'v) list"

definition dict_get :: "'v dict \<Rightarrow> string \<Rightarrow> 'v \<Rightarrow> 'v" where
  "dict_get d k dflt = (case map_of d k of None \<Rightarrow> dflt | Some v \<Rightarrow> v)"

definition dict_item :: "'v dict \<Rightarrow> string \<Rightarrow> error + 'v" where
  "dict_item d k = (case map_of d k of None \<Rightarrow> Inl (KeyError k) | Some v \<Rightarrow> Inr v)"

text \<open>
  The comprehension \<^verbatim>\<open>{k: float(v[i]) for i, k in enumerate(keys)}\<close>: a repeated key keeps
  the value of its last occurrence; \<^verbatim>\<open>v[i]\<close> raises \<^verbatim>\<open>IndexError\<close> when \<open>v\<close> is shorter
  than \<open>keys\<close>.
\<close>

definition dict_of_keys :: "string list \<Rightarrow> real list \<Rightarrow> error + real dict" where
  "dict_of_keys keys v =
     (if length v < length keys then Inl IndexError
      else Inr (fold (\<lambda>(k, a) d. AList.update k a d) (zip keys v) []))"

definition dict_values_sum :: "real dict \<Rightarrow> real" where
  "dict_values_sum d = sum_list (map snd d)"

section \<open>Records of the data model\<close>

record indicator =
  key :: string
  ind_name :: string
  dimension2Key :: string
  direction :: string
  ind_unit :: "string option"

datatype standardization =
    MinMax "real dict" "real dict"
  | ZScore "real dict" "real dict"
  | OtherKind string

record scaling_params =
  scoreMin :: "real option"
  scoreMax :: "real option"
  subScoreMin :: "real dict option"
  subScoreMax :: "real dict option"

record pca_info =
  pca_k :: nat
  pca_cumulative :: real
  pca_threshold :: real

record ahp_info =
  ahp_matrix_of :: "real list list"
  lambdaMax :: real
  CI :: real
  CR :: real

record weight_model =
  model_id :: string
  model_name :: string
  createdAt :: string
  model_method :: string
  indicatorKeys :: "string list"
  weights :: "real dict"
  dimension2Weights :: "real dict"
  standardization_of :: standardization
  scaling :: "scaling_params option"
  trainedOnDatasetIds :: "string list"
  pca :: "pca_info option"
  ahp :: "ahp_info option"

section \<open>Direction normalizer\<close>

text \<open>
  \<^verbatim>\<open>_apply_direction\<close>: column \<open>j\<close> is negated when \<^verbatim>\<open>directions[j] == "negative"\<close>;
  \<^verbatim>\<open>x[:, j]\<close> raises \<^verbatim>\<open>IndexError\<close> when a negative direction sits beyond the last column.
\<close>

definition negate_col :: "nat \<Rightarrow> matrix \<Rightarrow> matrix" where
  "negate_col j x = x\<lparr>rows := map (\<lambda>r. r[j := - (r ! j)]) (rows x)\<rparr>"

fun apply_direction_from :: "nat \<Rightarrow> string list \<Rightarrow> matrix \<Rightarrow> error + matrix" where
  "apply_direction_from j [] x = Inr x"
| "apply_direction_from j (d # ds) x =
     (if d = ''negative''
      then (if j < ncols x then apply_direction_from (Suc j) ds (negate_col j x) else Inl IndexError)
      else apply_direction_from (Suc j) ds x)"

definition apply_direction :: "matrix \<Rightarrow> string list \<Rightarrow> error + matrix" where
  "apply_direction values directions = apply_direction_from 0 directions values"

section \<open>Standardization\<close>

text \<open>
  \<^verbatim>\<open>_minmax_fit\<close>: \<^verbatim>\<open>np.nanmin\<close> and \<^verbatim>\<open>np.nanmax\<close> along axis 0 raise \<^verbatim>\<open>ValueError\<close> on
  an array without rows.
\<close>

definition minmax_fit :: "matrix \<Rightarrow> error + (real list \<times> real list)" where
  "minmax_fit x =
     (if nrows x = 0 then Inl ValueError
      else Inr (map (\<lambda>c. fold min (tl c) (hd c)) (cols x),
                map (\<lambda>c. fold max (tl c) (hd c)) (cols x)))"

definition minmax_transform :: "matrix \<Rightarrow> real list \<Rightarrow> real list \<Rightarrow> error + matrix" where
  "minmax_transform x min_v max_v =
     bindE (bc_vec (-) max_v min_v) (\<lambda>denom.
       if list_ex (\<lambda>d. d = 0) denom then Inl (ComputeError MinMaxDegenerateColumn)
       else bindE (bc_mat (-) x min_v) (\<lambda>num. bc_mat (/) num denom))"

text \<open>
  \<^verbatim>\<open>_zscore_fit\<close>: column means and sample standard deviations (divisor \<open>n - 1\<close>). With
  fewer than two rows \<^verbatim>\<open>np.nanstd(..., ddof=1)\<close> is \<^verbatim>\<open>nan\<close> in every column.
\<close>

definition mean :: "real list \<Rightarrow> real" where
  "mean c = sum_list c / real (length c)"

definition std1 :: "real list \<Rightarrow> real" where
  "std1 c = sqrt (sum_list (map (\<lambda>v. (v - mean c)\<^sup>2) c) / (real (length c) - 1))"

definition zscore_fit :: "matrix \<Rightarrow> error + (real list \<times> real list)" where
  "zscore_fit x =
     (if nrows x < 2 \<and> 0 < ncols x then Inl NotANumber
      else Inr (map mean (cols x), map std1 (cols x)))"

definition zscore_transform :: "matrix \<Rightarrow> real list \<Rightarrow> real list \<Rightarrow> error + matrix" where
  "zscore_transform x mean_v std =
     (if list_ex (\<lambda>s. s = 0) std then Inl (ComputeError ZScoreDegenerateColumn)
      else bindE (bc_mat (-) x mean_v) (\<lambda>num. bc_mat (/) num std))"

section \<open>Standardization on values that may be nan\<close>

text \<open>
  The same standardization functions on float64 values that are either finite, idealised as
  a real number, or \<^verbatim>\<open>nan\<close>. Arithmetic with a \<^verbatim>\<open>nan\<close> operand gives \<^verbatim>\<open>nan\<close>, and the
  comparison \<^verbatim>\<open>nan == 0\<close> is false. Infinite values, overflow and rounding are not
  represented: a finite value divided by zero, which float64 makes \<^verbatim>\<open>inf\<close> or \<^verbatim>\<open>nan\<close>, is
  \<open>NaN\<close> here (both transforms raise before they would divide by zero). The matrix \<open>x\<close>
  itself is finite; the parameter vectors may hold \<^verbatim>\<open>nan\<close>.
\<close>

datatype fval = Fin real | NaN








text \<open>
  \<^verbatim>\<open>_zscore_fit\<close> raises nothing: \<^verbatim>\<open>np.nanmean\<close> of a column without rows is \<^verbatim>\<open>nan\<close>, and
  \<^verbatim>\<open>np.nanstd(..., ddof=1)\<close> of a column with fewer than two rows is \<^verbatim>\<open>nan\<close>.
\<close>

definition zscore_fit_nan :: "matrix \<Rightarrow> fval list \<times> fval list" where
  "zscore_fit_nan x =
     (map (\<lambda>c. if length c < 1 then NaN else Fin (mean c)) (cols x),
      map (\<lambda>c. if length c < 2 then NaN else Fin (std1 c)) (cols x))"


section \<open>Scaler\<close>

definition scale_0_100 :: "real list \<Rightarrow> real \<Rightarrow> real \<Rightarrow> real list" where
  "scale_0_100 values vmin vmax =
     (let denom = vmax - vmin
      in if denom = 0 then map (\<lambda>_. 50) values
         else map (\<lambda>v. (v - vmin) / denom * 100) values)"

section \<open>Weighting algorithms\<close>

subsection \<open>Entropy\<close>

text \<open>
  \<^verbatim>\<open>_entropy_weights\<close>, column by column: \<open>pij\<close> holds the columns of \<^verbatim>\<open>z / col_sum\<close>.
  \<^verbatim>\<open>np.isfinite(d)\<close> holds of every real number, so the clipping line is the identity here.
\<close>

definition entropy_weights :: "matrix \<Rightarrow> error + real list" where
  "entropy_weights z =
     (let n = nrows z;
          col_sum = map sum_list (cols z);
          col_sum1 = map (\<lambda>s. if s = 0 then 1 else s) col_sum;
          pij = map2 (\<lambda>c s. map (\<lambda>v. v / s) c) (cols z) col_sum1;
          logp = map (map (\<lambda>p. if p > 0 then ln p else 0)) pij;
          k = (if n > 1 then 1 / ln (real n) else 0);
          e = map2 (\<lambda>pc lc. - k * sum_list (map2 (*) pc lc)) pij logp;
          d = map (\<lambda>ej. 1 - ej) e;
          total = sum_list d
      in if total \<le> 0 then Inl (ComputeError EntropyAllZeroDiversity)
         else Inr (map (\<lambda>dj. dj / total) d))"

subsection \<open>Principal components\<close>

record PcaResult =
  res_weights :: "real list"
  res_k :: nat
  res_cumulative :: real

text \<open>
  \<^verbatim>\<open>np.cov(z, rowvar=False, ddof=1)\<close> for at least two rows: the sample covariance of the
  columns. For a single column numpy squeezes the result to a 0-dimensional array, which
  \<^verbatim>\<open>np.linalg.eigh\<close> rejects with \<^verbatim>\<open>LinAlgError\<close>.
\<close>

definition cov :: "matrix \<Rightarrow> matrix" where
  "cov z =
     (let cs = map (\<lambda>c. map (\<lambda>v. v - mean c) c) (cols z);
          fact = real (nrows z) - 1
      in \<lparr>ncols = ncols z, rows = map (\<lambda>a. map (\<lambda>b. dot a b / fact) cs) cs\<rparr>)"

text \<open>
  \<^verbatim>\<open>np.argsort\<close> (indices that sort a vector ascending; ties in index order),
  \<^verbatim>\<open>np.cumsum\<close>, \<^verbatim>\<open>np.searchsorted(a, v)\<close> (the binary search for the leftmost insertion
  point, which numpy runs whether or not \<open>a\<close> is ascending) and the column selection
  \<^verbatim>\<open>m[:, idxs]\<close>.
\<close>

definition argsort :: "real list \<Rightarrow> nat list" where
  "argsort v = sort_key (\<lambda>i. v ! i) [0..<length v]"

fun cumsum_from :: "real \<Rightarrow> real list \<Rightarrow> real list" where
  "cumsum_from acc [] = []"
| "cumsum_from acc (x # xs) = (acc + x) # cumsum_from (acc + x) xs"

definition cumsum :: "real list \<Rightarrow> real list" where
  "cumsum xs = cumsum_from 0 xs"

function bsearch_left :: "real list \<Rightarrow> real \<Rightarrow> nat \<Rightarrow> nat \<Rightarrow> nat" where
  "bsearch_left a v lo hi =
     (if lo < hi
      then (let mid = lo + (hi - lo) div 2
            in if a ! mid < v then bsearch_left a v (mid + 1) hi else bsearch_left a v lo mid)
      else lo)"
  by pat_completeness auto
termination
  by (relation "measure (\<lambda>(a, v, lo, hi). hi - lo)") auto

declare bsearch_left.simps [simp del]

definition searchsorted :: "real list \<Rightarrow> real \<Rightarrow> nat" where
  "searchsorted a v = bsearch_left a v 0 (length a)"

definition take_cols :: "matrix \<Rightarrow> nat list \<Rightarrow> matrix" where
  "take_cols m idxs = \<lparr>ncols = length idxs, rows = map (\<lambda>r. map (\<lambda>j. r ! j) idxs) (rows m)\<rparr>"

text \<open>
  \<^verbatim>\<open>_pca_weights\<close>. The symmetric eigendecomposition \<^verbatim>\<open>np.linalg.eigh\<close> is a parameter
  \<open>eigh\<close>: for a \<open>p \<times> p\<close> matrix it returns \<open>p\<close> eigenvalues and a \<open>p \<times> p\<close> matrix whose
  columns are the eigenvectors, or raises.
\<close>

type_synonym eigh_fun = "matrix \<Rightarrow> error + (real list \<times> matrix)"

definition pca_weights :: "eigh_fun \<Rightarrow> real \<Rightarrow> matrix \<Rightarrow> error + PcaResult" where
  "pca_weights eigh cum_var_threshold z =
     (if nrows z < 2 then Inl (ComputeError PcaInsufficientSamples)
      else if ncols z = 1 then Inl LinAlgError
      else bindE (eigh (cov z)) (\<lambda>(eigvals0, eigvecs0).
        let order = rev (argsort eigvals0);
            eigvals1 = map (\<lambda>i. eigvals0 ! i) order;
            eigvecs = take_cols eigvecs0 order;
            eigvals = map (\<lambda>v. if v < 0 then 0 else v) eigvals1;
            total = sum_list eigvals
        in if total \<le> 0 then Inl (ComputeError PcaZeroVariance)
           else
             let cum = map (\<lambda>s. s / total) (cumsum eigvals);
                 k0 = searchsorted cum cum_var_threshold + 1;
                 k = max 1 (min k0 (ncols z));
                 cumulative = cum ! (k - 1);
                 w_raw = fold (\<lambda>l acc. map2 (+) acc (map (\<lambda>v. v\<^sup>2 * (eigvals ! l)\<^sup>2) (col eigvecs l)))
                              [0..<k] (replicate (ncols z) 0);
                 s = sum_list w_raw
             in if s \<le> 0 then Inl (ComputeError PcaInvalidWeights)
                else Inr \<lparr>res_weights = map (\<lambda>v. v / s) w_raw, res_k = k,
                          res_cumulative = cumulative\<rparr>))"

subsection \<open>Analytic hierarchy process\<close>

text \<open>
  \<^verbatim>\<open>_ahp_weights\<close>. The general eigendecomposition \<^verbatim>\<open>np.linalg.eig\<close> is a parameter
  \<open>eig\<close>: for an \<open>n \<times> n\<close> matrix it returns \<open>n\<close> complex eigenvalues and the \<open>n\<close> rows of
  the matrix whose columns are the eigenvectors, or raises. \<^verbatim>\<open>np.argmax\<close> is the first
  index of a largest entry.
\<close>

type_synonym eig_fun = "matrix \<Rightarrow> error + (complex list \<times> complex list list)"

definition argmax :: "real list \<Rightarrow> nat" where
  "argmax xs = length (takeWhile (\<lambda>v. v \<noteq> fold max (tl xs) (hd xs)) xs)"

definition ri_table :: "nat \<Rightarrow> real" where
  "ri_table n =
     (if n = 1 then 0 else if n = 2 then 0 else if n = 3 then 0.58 else if n = 4 then 0.9
      else if n = 5 then 1.12 else if n = 6 then 1.24 else if n = 7 then 1.32
      else if n = 8 then 1.41 else if n = 9 then 1.45 else if n = 10 then 1.49
      else if n = 11 then 1.51 else if n = 12 then 1.48 else if n = 13 then 1.56
      else if n = 14 then 1.57 else if n = 15 then 1.59 else 1.59)"

definition ahp_weights :: "eig_fun \<Rightarrow> matrix \<Rightarrow> error + (real list \<times> real \<times> real \<times> real)" where
  "ahp_weights eig m =
     (if nrows m \<noteq> ncols m then Inl (ComputeError AhpNonSquareMatrix)
      else
        let n = nrows m
        in if n < 1 then Inl (ComputeError AhpTooFewIndicators)
           else bindE (eig m) (\<lambda>(eigvals, eigvecs).
             let idx = argmax (map Re eigvals);
                 lambda_max = Re (eigvals ! idx);
                 vec0 = map (\<lambda>r. Re (r ! idx)) eigvecs;
                 vec = map (\<lambda>v. if v < 0 then - v else v) vec0
             in if sum_list vec = 0 then Inl (ComputeError AhpZeroWeightVector)
                else
                  let w = map (\<lambda>v. v / sum_list vec) vec;
                      ci = (if n > 1 then (lambda_max - real n) / (real n - 1) else 0);
                      ri = ri_table n;
                      cr = (if ri = 0 then 0 else ci / ri)
                  in Inr (w, lambda_max, ci, cr)))"

section \<open>Dimension aggregator and scores\<close>

definition dim_of :: "indicator \<Rightarrow> string" where
  "dim_of ind = (if dimension2Key ind = [] then ''default'' else dimension2Key ind)"

definition build_dimension2_weights :: "indicator list \<Rightarrow> real dict \<Rightarrow> real dict" where
  "build_dimension2_weights indicators ws =
     fold (\<lambda>ind dim.
             let k = key ind; g = dim_of ind
             in AList.update g (dict_get dim g 0 + dict_get ws k 0) dim)
          indicators []"

text \<open>
  The three local dictionaries of \<^verbatim>\<open>compute_scores\<close>: \<^verbatim>\<open>key_to_dim\<close>, \<^verbatim>\<open>dims\<close> (the column
  indices of each group, in order of first appearance) and \<^verbatim>\<open>sub_scores\<close> (groups whose
  weight sum is not positive are skipped).
\<close>

definition key_to_dim_of :: "indicator list \<Rightarrow> string dict" where
  "key_to_dim_of indicators = fold (\<lambda>i d. AList.update (key i) (dim_of i) d) indicators []"

definition dims_of :: "string dict \<Rightarrow> string list \<Rightarrow> nat list dict" where
  "dims_of key_to_dim indicator_keys =
     fold (\<lambda>(idx, k) d.
             let g = dict_get key_to_dim k ''default''
             in AList.update g (dict_get d g [] @ [idx]) d)
          (zip [0..<length indicator_keys] indicator_keys) []"

definition sub_score_step :: "matrix \<Rightarrow> real list \<Rightarrow> string \<times> nat list \<Rightarrow> real list dict \<Rightarrow> real list dict" where
  "sub_score_step z w = (\<lambda>(g, idxs) sub.
     let wi = map (\<lambda>j. w ! j) idxs;
         wg = sum_list wi
     in if wg \<le> 0 then sub
        else AList.update g (map (\<lambda>r. dot r (map (\<lambda>v. v / wg) wi)) (rows (take_cols z idxs))) sub)"

definition sub_scores_of :: "matrix \<Rightarrow> real list \<Rightarrow> nat list dict \<Rightarrow> real list dict" where
  "sub_scores_of z w dims = fold (sub_score_step z w) dims []"

definition compute_scores ::
  "matrix \<Rightarrow> string list \<Rightarrow> indicator list \<Rightarrow> real dict \<Rightarrow> error + (real list \<times> real list dict)" where
  "compute_scores z indicator_keys indicators ws =
     bindE (mapE (dict_item ws) indicator_keys) (\<lambda>w.
     bindE (matvec z w) (\<lambda>score_raw.
       let key_to_dim = key_to_dim_of indicators;
           dims = dims_of key_to_dim indicator_keys;
           sub_scores = sub_scores_of z w dims
       in Inr (score_raw, sub_scores)))"

section \<open>Model trainer\<close>

text \<open>
  \<^verbatim>\<open>np.array(ahp_matrix, dtype=float)\<close> on a list of lists: rows of different lengths raise
  \<^verbatim>\<open>ValueError\<close>. The empty list gives a one-dimensional array, on which
  \<^verbatim>\<open>matrix.shape[1]\<close> in \<^verbatim>\<open>_ahp_weights\<close> raises \<^verbatim>\<open>IndexError\<close>.
\<close>

definition np_array2 :: "real list list \<Rightarrow> error + matrix" where
  "np_array2 m =
     (case m of
        [] \<Rightarrow> Inl IndexError
      | r # rs \<Rightarrow> if list_all (\<lambda>r'. length r' = length r) rs
                  then Inr \<lparr>ncols = length r, rows = m\<rparr> else Inl ValueError)"

text \<open>
  The three branches of \<^verbatim>\<open>train_weight_model\<close> on \<^verbatim>\<open>method\<close>: each yields the standardized
  matrix \<open>z\<close>, the weight vector \<open>w_vec\<close>, the standardization record and the diagnostics.
\<close>

type_synonym fitted = "matrix \<times> real list \<times> standardization \<times> pca_info option \<times> ahp_info option"

definition train_entropy :: "string list \<Rightarrow> matrix \<Rightarrow> error + fitted" where
  "train_entropy indicator_keys x =
     bindE (minmax_fit x) (\<lambda>(min_v, max_v).
     bindE (minmax_transform x min_v max_v) (\<lambda>z.
     bindE (entropy_weights z) (\<lambda>w_vec.
     bindE (dict_of_keys indicator_keys min_v) (\<lambda>dmin.
     bindE (dict_of_keys indicator_keys max_v) (\<lambda>dmax.
       Inr (z, w_vec, MinMax dmin dmax, None, None))))))"

definition train_pca :: "eigh_fun \<Rightarrow> real \<Rightarrow> string list \<Rightarrow> matrix \<Rightarrow> error + fitted" where
  "train_pca eigh pca_cum_var_threshold indicator_keys x =
     bindE (zscore_fit x) (\<lambda>(mean_v, std).
     bindE (zscore_transform x mean_v std) (\<lambda>z.
     bindE (pca_weights eigh pca_cum_var_threshold z) (\<lambda>pca_res.
     bindE (dict_of_keys indicator_keys mean_v) (\<lambda>dmean.
     bindE (dict_of_keys indicator_keys std) (\<lambda>dstd.
       Inr (z, res_weights pca_res, ZScore dmean dstd,
            Some \<lparr>pca_k = res_k pca_res, pca_cumulative = res_cumulative pca_res,
                  pca_threshold = pca_cum_var_threshold\<rparr>,
            None))))))"

definition train_ahp :: "eig_fun \<Rightarrow> real list list option \<Rightarrow> string list \<Rightarrow> matrix \<Rightarrow> error + fitted" where
  "train_ahp eig ahp_matrix indicator_keys x =
     (case ahp_matrix of
        None \<Rightarrow> Inl (ComputeError AhpMatrixMissing)
      | Some am \<Rightarrow>
          bindE (zscore_fit x) (\<lambda>(mean_v, std).
          bindE (zscore_transform x mean_v std) (\<lambda>z.
          bindE (np_array2 am) (\<lambda>m.
          bindE (ahp_weights eig m) (\<lambda>(w_vec, lambda_max, ci, cr).
          bindE (dict_of_keys indicator_keys mean_v) (\<lambda>dmean.
          bindE (dict_of_keys indicator_keys std) (\<lambda>dstd.
            Inr (z, w_vec, ZScore dmean dstd, None,
                 Some \<lparr>ahp_matrix_of = am, lambdaMax = lambda_max, CI = ci, CR = cr\<rparr>))))))))"

text \<open>
  \<^verbatim>\<open>train_weight_model\<close>. The fresh identifier (\<^verbatim>\<open>uuid.uuid4().hex\<close>) and the creation
  time (\<^verbatim>\<open>now_iso()\<close>) come from the environment and are parameters, as are the two
  eigendecompositions of numpy. \<open>train_weight_model_locals\<close> is the body of the function:
  beside the record it keeps the locals \<^verbatim>\<open>z\<close>, \<^verbatim>\<open>score_raw\<close> and \<^verbatim>\<open>sub_scores\<close>, the
  training-time scores that the record does not store.
\<close>

definition train_weight_model_locals ::
  "eigh_fun \<Rightarrow> eig_fun \<Rightarrow> string \<Rightarrow> string \<Rightarrow> string \<Rightarrow> string \<Rightarrow> string list \<Rightarrow> indicator list
     \<Rightarrow> matrix \<Rightarrow> string list \<Rightarrow> string list \<Rightarrow> real list list option \<Rightarrow> real
     \<Rightarrow> error + (weight_model \<times> matrix \<times> real list \<times> real list dict)" where
  "train_weight_model_locals eigh eig new_id now meth name indicator_keys indicators x_train
       directions trained_on_dataset_ids ahp_matrix pca_cum_var_threshold =
     bindE (apply_direction x_train directions) (\<lambda>x.
     bindE (if meth = ''entropy'' then train_entropy indicator_keys x
            else if meth = ''pca'' then train_pca eigh pca_cum_var_threshold indicator_keys x
            else if meth = ''ahp'' then train_ahp eig ahp_matrix indicator_keys x
            else Inl (ComputeError (UnknownMethod meth)))
       (\<lambda>(z, w_vec, standardization, pca_info, ahp_info).
     bindE (dict_of_keys indicator_keys w_vec) (\<lambda>ws.
       let dim_weights = build_dimension2_weights indicators ws
       in
     bindE (compute_scores z indicator_keys indicators ws) (\<lambda>(score_raw, sub_scores).
     bindE (np_min score_raw) (\<lambda>score_min.
     bindE (np_max score_raw) (\<lambda>score_max.
     bindE (mapE (\<lambda>(g, v). bindE (np_min v) (\<lambda>m. Inr (g, m))) sub_scores) (\<lambda>sub_min.
     bindE (mapE (\<lambda>(g, v). bindE (np_max v) (\<lambda>m. Inr (g, m))) sub_scores) (\<lambda>sub_max.
       Inr (\<lparr>model_id = new_id, model_name = name, createdAt = now, model_method = meth,
             indicatorKeys = indicator_keys, weights = ws, dimension2Weights = dim_weights,
             standardization_of = standardization,
             scaling = Some \<lparr>scoreMin = Some score_min, scoreMax = Some score_max,
                              subScoreMin = Some sub_min, subScoreMax = Some sub_max\<rparr>,
             trainedOnDatasetIds = trained_on_dataset_ids,
             pca = pca_info, ahp = ahp_info\<rparr>,
            z, score_raw, sub_scores)))))))))"

definition train_weight_model ::
  "eigh_fun \<Rightarrow> eig_fun \<Rightarrow> string \<Rightarrow> string \<Rightarrow> string \<Rightarrow> string \<Rightarrow> string list \<Rightarrow> indicator list
     \<Rightarrow> matrix \<Rightarrow> string list \<Rightarrow> string list \<Rightarrow> real list list option \<Rightarrow> real
     \<Rightarrow> error + weight_model" where
  "train_weight_model eigh eig new_id now meth name indicator_keys indicators x_train directions
       trained_on_dataset_ids ahp_matrix pca_cum_var_threshold =
     bindE (train_weight_model_locals eigh eig new_id now meth name indicator_keys indicators x_train
              directions trained_on_dataset_ids ahp_matrix pca_cum_var_threshold)
       (\<lambda>(model, z, score_raw, sub_scores). Inr model)"

section \<open>Model applier\<close>

text \<open>
  \<^verbatim>\<open>apply_weight_model\<close>. \<open>apply_weight_model_locals\<close> is the body of the function with
  its local \<^verbatim>\<open>index_0_100\<close> kept as a fifth component; the function returns the first four.
  The defaults of \<^verbatim>\<open>scaling.get(..., float(np.min(...)))\<close> are evaluated before the lookup,
  so \<^verbatim>\<open>np.min\<close> of an empty score vector raises whether or not the bound is stored.
\<close>

definition stored_params :: "standardization \<Rightarrow> string list \<Rightarrow> matrix \<Rightarrow> error + matrix" where
  "stored_params std indicator_keys x2 =
     (case std of
        MinMax dmin dmax \<Rightarrow>
          bindE (mapE (dict_item dmin) indicator_keys) (\<lambda>min_v.
          bindE (mapE (dict_item dmax) indicator_keys) (\<lambda>max_v.
            minmax_transform x2 min_v max_v))
      | ZScore dmean dstd \<Rightarrow>
          bindE (mapE (dict_item dmean) indicator_keys) (\<lambda>mean_v.
          bindE (mapE (dict_item dstd) indicator_keys) (\<lambda>s.
            zscore_transform x2 mean_v s))
      | OtherKind _ \<Rightarrow> Inl (ComputeError UnknownStandardizationKind))"

definition or_empty :: "'v dict option \<Rightarrow> 'v dict" where
  "or_empty d = (case d of None \<Rightarrow> [] | Some m \<Rightarrow> m)"

definition apply_weight_model_locals ::
  "weight_model \<Rightarrow> indicator list \<Rightarrow> matrix \<Rightarrow> string list
     \<Rightarrow> error + (matrix \<times> real list \<times> real list dict \<times> real list dict \<times> real list)" where
  "apply_weight_model_locals model indicators x directions =
     (let indicator_keys = indicatorKeys model;
          ws = weights model
      in
     bindE (apply_direction x directions) (\<lambda>x2.
     bindE (stored_params (standardization_of model) indicator_keys x2) (\<lambda>z.
     bindE (compute_scores z indicator_keys indicators ws) (\<lambda>(score_raw, sub_scores).
       let sc = (case scaling model of
                   None \<Rightarrow> \<lparr>scoreMin = None, scoreMax = None, subScoreMin = None, subScoreMax = None\<rparr>
                 | Some s \<Rightarrow> s)
       in
     bindE (np_min score_raw) (\<lambda>own_min.
       let score_min = (case scoreMin sc of None \<Rightarrow> own_min | Some v \<Rightarrow> v)
       in
     bindE (np_max score_raw) (\<lambda>own_max.
       let score_max = (case scoreMax sc of None \<Rightarrow> own_max | Some v \<Rightarrow> v);
           index_0_100 = scale_0_100 score_raw score_min score_max;
           sub_min = or_empty (subScoreMin sc);
           sub_max = or_empty (subScoreMax sc)
       in
     bindE (mapE (\<lambda>(g, v).
              bindE (np_min v) (\<lambda>vmin0.
              bindE (np_max v) (\<lambda>vmax0.
                Inr (g, scale_0_100 v (dict_get sub_min g vmin0) (dict_get sub_max g vmax0)))))
            sub_scores) (\<lambda>sub_index_0_100.
       Inr (z, score_raw, sub_scores, sub_index_0_100, index_0_100))))))))"

definition apply_weight_model ::
  "weight_model \<Rightarrow> indicator list \<Rightarrow> matrix \<Rightarrow> string list
     \<Rightarrow> error + (matrix \<times> real list \<times> real list dict \<times> real list dict)" where
  "apply_weight_model model indicators x directions =
     bindE (apply_weight_model_locals model indicators x directions)
       (\<lambda>(z, score_raw, sub_scores, sub_index_0_100, index_0_100).
          Inr (z, score_raw, sub_scores, sub_index_0_100))"

section \<open>Vocabulary of the statements\<close>

text \<open>
  The bound that \<^verbatim>\<open>apply_weight_model\<close> uses: the stored one when the record has it, the
  fallback otherwise. \<open>model_scaling\<close> is \<^verbatim>\<open>model.get("scaling") or {}\<close>.
\<close>

definition stored_or :: "real option \<Rightarrow> real \<Rightarrow> real" where
  "stored_or stored own = (case stored of None \<Rightarrow> own | Some v \<Rightarrow> v)"

definition model_scaling :: "weight_model \<Rightarrow> scaling_params" where
  "model_scaling model =
     (case scaling model of
        None \<Rightarrow> \<lparr>scoreMin = None, scoreMax = None, subScoreMin = None, subScoreMax = None\<rparr>
      | Some s \<Rightarrow> s)"

text \<open>
  The vocabulary of the PCA statements: the eigenvalues sorted descending with the negative
  ones clipped to \<open>0\<close>, the cumulative explained-variance ratio
  \<open>cum\<^sub>l = (\<Sum>\<^sub>i\<^sub>\<le>\<^sub>l \<lambda>\<^sub>i) / \<Sum> \<lambda>\<close>, and the value of \<^verbatim>\<open>w_raw\<close> after the loop of
  \<^verbatim>\<open>_pca_weights\<close> over the first \<open>k\<close> components.
\<close>

definition clipped_desc :: "real list \<Rightarrow> real list" where
  "clipped_desc vals = map (\<lambda>v. max 0 v) (rev (sort vals))"

definition cum_ratio :: "real list \<Rightarrow> nat \<Rightarrow> real" where
  "cum_ratio lam l = sum_list (take l lam) / sum_list lam"

definition pca_raw :: "matrix \<Rightarrow> real list \<Rightarrow> real list \<Rightarrow> nat \<Rightarrow> nat \<Rightarrow> real list" where
  "pca_raw eigvecs0 vals lam k p =
     fold (\<lambda>l acc. map2 (+) acc
                      (map (\<lambda>v. v\<^sup>2 * (lam ! l)\<^sup>2) (col (take_cols eigvecs0 (rev (argsort vals))) l)))
          [0..<k] (replicate p 0)"

text \<open>
  The vocabulary of the entropy statements: \<open>p ln p\<close> with the convention \<open>0 ln 0 = 0\<close>, and
  the diversity \<open>d\<^sub>j = 1 - e\<^sub>j\<close> that \<^verbatim>\<open>_entropy_weights\<close> computes for a column of a matrix
  with \<open>n\<close> rows.
\<close>

definition plogp :: "real \<Rightarrow> real" where
  "plogp p = p * (if 0 < p then ln p else 0)"

definition entropy_d :: "nat \<Rightarrow> real list \<Rightarrow> real" where
  "entropy_d n c =
     (let s = sum_list c;
          s1 = (if s = 0 then 1 else s);
          k = (if n > 1 then 1 / ln (real n) else 0)
      in 1 - (- k * sum_list (map (\<lambda>v. plogp (v / s1)) c)))"

text \<open>
  The vocabulary of the trainer statements: the branch of \<^verbatim>\<open>train_weight_model\<close> taken for
  a method, and the record it assembles from the weights \<open>ws\<close>, the raw scores \<open>sr\<close> and
  the sub-scores \<open>ss\<close> of the training matrix.
\<close>

definition train_branch ::
  "eigh_fun \<Rightarrow> eig_fun \<Rightarrow> string \<Rightarrow> real list list option \<Rightarrow> real \<Rightarrow> string list \<Rightarrow> matrix \<Rightarrow> error + fitted" where
  "train_branch eigh eig meth ahp_matrix thr indicator_keys x =
     (if meth = ''entropy'' then train_entropy indicator_keys x
      else if meth = ''pca'' then train_pca eigh thr indicator_keys x
      else if meth = ''ahp'' then train_ahp eig ahp_matrix indicator_keys x
      else Inl (ComputeError (UnknownMethod meth)))"

definition trained_record ::
  "string \<Rightarrow> string \<Rightarrow> string \<Rightarrow> string \<Rightarrow> string list \<Rightarrow> indicator list \<Rightarrow> string list
     \<Rightarrow> real dict \<Rightarrow> standardization \<Rightarrow> pca_info option \<Rightarrow> ahp_info option
     \<Rightarrow> real list \<Rightarrow> real list dict \<Rightarrow> weight_model" where
  "trained_record new_id now meth name indicator_keys indicators trained_on ws std pinfo ainfo sr ss =
     \<lparr>model_id = new_id, model_name = name, createdAt = now, model_method = meth,
      indicatorKeys = indicator_keys, weights = ws,
      dimension2Weights = build_dimension2_weights indicators ws,
      standardization_of = std,
      scaling = Some \<lparr>scoreMin = Some (Min (set sr)), scoreMax = Some (Max (set sr)),
                       subScoreMin = Some (map (\<lambda>(g, v). (g, Min (set v))) ss),
                       subScoreMax = Some (map (\<lambda>(g, v). (g, Max (set v))) ss)\<rparr>,
      trainedOnDatasetIds = trained_on, pca = pinfo, ahp = ainfo\<rparr>"


section \<open>Example data\<close>

definition ex_indicators :: "indicator list" where
  "ex_indicators =
     [\<lparr>key = ''a'', ind_name = ''A'', dimension2Key = ''g1'', direction = ''positive'', ind_unit = None\<rparr>,
      \<lparr>key = ''b'', ind_name = ''B'', dimension2Key = [], direction = ''positive'', ind_unit = None\<rparr>]"

text \<open>A stored model whose scaling lacks the upper bound of the group \<open>default\<close>.\<close>

definition ex_model :: weight_model where
  "ex_model =
     \<lparr>model_id = ''m'', model_name = ''n'', createdAt = ''t'', model_method = ''entropy'',
      indicatorKeys = [''a'', ''b''], weights = [(''a'', 1/2), (''b'', 1/2)],
      dimension2Weights = [(''g1'', 1/2), (''default'', 1/2)],
      standardization_of = MinMax [(''a'', 10), (''b'', 1)] [(''a'', 30), (''b'', 3)],
      scaling = Some \<lparr>scoreMin = Some 0, scoreMax = Some 1,
                       subScoreMin = Some [(''g1'', 0), (''default'', 0)],
                       subScoreMax = Some [(''g1'', 1)]\<rparr>,
      trainedOnDatasetIds = [], pca = None, ahp = None\<rparr>"

definition ex_new :: matrix where
  "ex_new = \<lparr>ncols = 2, rows = [[10, 1], [20, 2], [40, 5]]\<rparr>"

text \<open>
  Two perfectly correlated standardized columns, and the eigendecomposition of their
  covariance matrix (eigenvalues ascending, eigenvectors in the columns).
\<close>

definition ex_z :: matrix where
  "ex_z = \<lparr>ncols = 2, rows = [[-1, -1], [0, 0], [1, 1]]\<rparr>"

definition ex_eigh :: eigh_fun where
  "ex_eigh c =
     (if c = \<lparr>ncols = 2, rows = [[1, 1], [1, 1]]\<rparr>
      then Inr ([0, 2], \<lparr>ncols = 2, rows = [[- 1 / sqrt 2, 1 / sqrt 2], [1 / sqrt 2, 1 / sqrt 2]]\<rparr>)
      else Inl LinAlgError)"

text \<open>
  A perfectly consistent comparison matrix of order 3 and its eigendecomposition: the
  eigenvalues \<open>3, 0, 0\<close> and unit eigenvectors in the columns, the principal one with
  negative sign.
\<close>

definition ex_ahp :: matrix where
  "ex_ahp = \<lparr>ncols = 3, rows = [[1, 2, 4], [1 / 2, 1, 2], [1 / 4, 1 / 2, 1]]\<rparr>"

definition ex_eig :: eig_fun where
  "ex_eig m =
     (if m = ex_ahp
      then Inr ([3, 0, 0],
                [[of_real (- 4 / sqrt 21), of_real (- 2 / sqrt 5), of_real (- 4 / sqrt 17)],
                 [of_real (- 2 / sqrt 21), of_real (1 / sqrt 5), 0],
                 [of_real (- 1 / sqrt 21), 0, of_real (1 / sqrt 17)]])
      else Inl LinAlgError)"

text \<open>
  The training matrix of the end-to-end example, three entities and two indicators, and its
  min-max standardization.
\<close>

definition ex_train :: matrix where
  "ex_train = \<lparr>ncols = 2, rows = [[10, 1], [20, 2], [30, 3]]\<rparr>"

definition ex_scaled :: matrix where
  "ex_scaled = \<lparr>ncols = 2, rows = [[0, 0], [1 / 2, 1 / 2], [1, 1]]\<rparr>"

text \<open>
  The records that training returns on the examples: the entropy model of the end-to-end
  example; the same training with the key \<open>a\<close> given twice; models trained by PCA and by
  AHP; and AHP with the comparison matrix of order 3 given for two indicator keys only.
\<close>

definition ex_entropy_model :: weight_model where
  "ex_entropy_model =
     \<lparr>model_id = ''id'', model_name = ''n'', createdAt = ''t'', model_method = ''entropy'',
      indicatorKeys = [''a'', ''b''], weights = [(''a'', 1 / 2), (''b'', 1 / 2)],
      dimension2Weights = [(''g1'', 1 / 2), (''default'', 1 / 2)],
      standardization_of = MinMax [(''a'', 10), (''b'', 1)] [(''a'', 30), (''b'', 3)],
      scaling = Some \<lparr>scoreMin = Some 0, scoreMax = Some 1,
                       subScoreMin = Some [(''g1'', 0), (''default'', 0)],
                       subScoreMax = Some [(''g1'', 1), (''default'', 1)]\<rparr>,
      trainedOnDatasetIds = [], pca = None, ahp = None\<rparr>"

definition ex_dup_indicators :: "indicator list" where
  "ex_dup_indicators =
     [\<lparr>key = ''a'', ind_name = ''A'', dimension2Key = ''g1'', direction = ''positive'', ind_unit = None\<rparr>,
      \<lparr>key = ''a'', ind_name = ''A'', dimension2Key = ''g1'', direction = ''positive'', ind_unit = None\<rparr>]"

definition ex_dup_model :: weight_model where
  "ex_dup_model =
     \<lparr>model_id = ''id'', model_name = ''n'', createdAt = ''t'', model_method = ''entropy'',
      indicatorKeys = [''a'', ''a''], weights = [(''a'', 1 / 2)],
      dimension2Weights = [(''g1'', 1)],
      standardization_of = MinMax [(''a'', 1)] [(''a'', 3)],
      scaling = Some \<lparr>scoreMin = Some 0, scoreMax = Some 1,
                       subScoreMin = Some [(''g1'', 0)],
                       subScoreMax = Some [(''g1'', 1)]\<rparr>,
      trainedOnDatasetIds = [], pca = None, ahp = None\<rparr>"

definition ex_train3 :: matrix where
  "ex_train3 = \<lparr>ncols = 3, rows = [[10, 1, 3], [20, 2, 2], [30, 3, 1]]\<rparr>"

definition ex_indicators3 :: "indicator list" where
  "ex_indicators3 = ex_indicators @
     [\<lparr>key = ''c'', ind_name = ''C'', dimension2Key = ''g1'', direction = ''positive'', ind_unit = None\<rparr>]"

definition ex_pca_model :: weight_model where
  "ex_pca_model =
     \<lparr>model_id = ''id'', model_name = ''n'', createdAt = ''t'', model_method = ''pca'',
      indicatorKeys = [''a'', ''b''], weights = [(''a'', 1 / 2), (''b'', 1 / 2)],
      dimension2Weights = [(''g1'', 1 / 2), (''default'', 1 / 2)],
      standardization_of = ZScore [(''a'', 20), (''b'', 2)] [(''a'', 10), (''b'', 1)],
      scaling = Some \<lparr>scoreMin = Some (- 1), scoreMax = Some 1,
                       subScoreMin = Some [(''g1'', - 1), (''default'', - 1)],
                       subScoreMax = Some [(''g1'', 1), (''default'', 1)]\<rparr>,
      trainedOnDatasetIds = [],
      pca = Some \<lparr>pca_k = 1, pca_cumulative = 1, pca_threshold = 85 / 100\<rparr>, ahp = None\<rparr>"

definition ex_ahp_model :: weight_model where
  "ex_ahp_model =
     \<lparr>model_id = ''id'', model_name = ''n'', createdAt = ''t'', model_method = ''ahp'',
      indicatorKeys = [''a'', ''b'', ''c''],
      weights = [(''a'', 4 / 7), (''b'', 2 / 7), (''c'', 1 / 7)],
      dimension2Weights = [(''g1'', 5 / 7), (''default'', 2 / 7)],
      standardization_of = ZScore [(''a'', 20), (''b'', 2), (''c'', 2)] [(''a'', 10), (''b'', 1), (''c'', 1)],
      scaling = Some \<lparr>scoreMin = Some (- 5 / 7), scoreMax = Some (5 / 7),
                       subScoreMin = Some [(''g1'', - 3 / 5), (''default'', - 1)],
                       subScoreMax = Some [(''g1'', 3 / 5), (''default'', 1)]\<rparr>,
      trainedOnDatasetIds = [], pca = None,
      ahp = Some \<lparr>ahp_matrix_of = [[1, 2, 4], [1 / 2, 1, 2], [1 / 4, 1 / 2, 1]],
                   lambdaMax = 3, CI = 0, CR = 0\<rparr>\<rparr>"

definition ex_ahp_short_model :: weight_model where
  "ex_ahp_short_model =
     \<lparr>model_id = ''id'', model_name = ''n'', createdAt = ''t'', model_method = ''ahp'',
      indicatorKeys = [''a'', ''b''],
      weights = [(''a'', 4 / 7), (''b'', 2 / 7)],
      dimension2Weights = [(''g1'', 4 / 7), (''default'', 2 / 7)],
      standardization_of = ZScore [(''a'', 20), (''b'', 2)] [(''a'', 10), (''b'', 1)],
      scaling = Some \<lparr>scoreMin = Some (- 6 / 7), scoreMax = Some (6 / 7),
                       subScoreMin = Some [(''g1'', - 1), (''default'', - 1)],
                       subScoreMax = Some [(''g1'', 1), (''default'', 1)]\<rparr>,
      trainedOnDatasetIds = [], pca = None,
      ahp = Some \<lparr>ahp_matrix_of = [[1, 2, 4], [1 / 2, 1, 2], [1 / 4, 1 / 2, 1]],
                   lambdaMax = 3, CI = 0, CR = 0\<rparr>\<rparr>"

text \<open>An indicator list that holds the key \<open>a\<close> twice.\<close>

definition ex_rep_indicators :: "indicator list" where
  "ex_rep_indicators = ex_indicators @
     [\<lparr>key = ''a'', ind_name = ''A'', dimension2Key = ''g1'', direction = ''positive'', ind_unit = None\<rparr>]"

section \<open>Basic facts about the building blocks\<close>

lemma bindE_simps [simp]:
  "bindE (Inl e) f = Inl e" "bindE (Inr v) f = f v"
  by (simp_all add: bindE_def)

lemma bindE_eq_Inr: "bindE r f = Inr y \<longleftrightarrow> (\<exists>v. r = Inr v \<and> f v = Inr y)"
  by (cases r) simp_all

lemma bindE_eq_Inl: "bindE r f = Inl e \<longleftrightarrow> r = Inl e \<or> (\<exists>v. r = Inr v \<and> f v = Inl e)"
  by (cases r) simp_all

lemma np_min_eq_Inr: "np_min v = Inr a \<longleftrightarrow> v \<noteq> [] \<and> a = Min (set v)"
  using Min.set_eq_fold[symmetric] by (cases v) (auto simp: np_min_def)

lemma np_max_eq_Inr: "np_max v = Inr a \<longleftrightarrow> v \<noteq> [] \<and> a = Max (set v)"
  using Max.set_eq_fold[symmetric] by (cases v) (auto simp: np_max_def)

lemma np_min_eq_Inl: "np_min v = Inl e \<longleftrightarrow> v = [] \<and> e = ValueError"
  by (cases v) (auto simp: np_min_def)

lemma np_max_eq_Inl: "np_max v = Inl e \<longleftrightarrow> v = [] \<and> e = ValueError"
  by (cases v) (auto simp: np_max_def)

lemma map2_nth_upt:
  "length r = n \<Longrightarrow> length v = n \<Longrightarrow> map2 f r v = map (\<lambda>j. f (r ! j) (v ! j)) [0..<n]"
  by (rule nth_equalityI) simp_all

lemma bc_mat_same:
  assumes "wf_matrix x" "length v = ncols x"
  shows "bc_mat f x v =
           Inr \<lparr>ncols = ncols x, rows = map (\<lambda>r. map (\<lambda>j. f (r ! j) (v ! j)) [0..<ncols x]) (rows x)\<rparr>"
  using assms by (simp add: bc_mat_def wf_matrix_def list_all_iff map2_nth_upt cong: map_cong)

lemma list_ex_zero_nth: "list_ex (\<lambda>d. d = (0::real)) ds \<longleftrightarrow> (\<exists>j<length ds. ds ! j = 0)"
  by (auto simp: list_ex_iff in_set_conv_nth)


lemma upt_0_2: "[0..<2] = [0, 1]"
  by (simp add: upt_rec)

lemma upt_0_3: "[0..<3] = [0, 1, 2]"
  by (simp add: upt_rec)

lemma minmax_transform_wf:
  assumes "wf_matrix x" "length a = ncols x" "length b = ncols x"
  shows "minmax_transform x a b =
           (if \<exists>j<ncols x. b ! j = a ! j then Inl (ComputeError MinMaxDegenerateColumn)
            else Inr \<lparr>ncols = ncols x,
                      rows = map (\<lambda>r. map (\<lambda>j. (r ! j - a ! j) / (b ! j - a ! j)) [0..<ncols x])
                                 (rows x)\<rparr>)"
proof -
  let ?num = "\<lparr>ncols = ncols x, rows = map (\<lambda>r. map (\<lambda>j. r ! j - a ! j) [0..<ncols x]) (rows x)\<rparr>"
  have den: "bc_vec (-) b a = Inr (map (\<lambda>j. b ! j - a ! j) [0..<ncols x])"
    using assms by (simp add: bc_vec_def map2_nth_upt)
  have num: "bc_mat (-) x a = Inr ?num"
    using assms by (simp add: bc_mat_same)
  have wfn: "wf_matrix ?num"
    by (simp add: wf_matrix_def list_all_iff)
  show ?thesis
    unfolding minmax_transform_def den num
    by (auto simp: list_ex_zero_nth bc_mat_same[OF wfn] cong: map_cong)
qed


section \<open>Facts about the standardization on values that may be nan\<close>











lemma zscore_fit_nan_finite:
  assumes "zscore_fit x = Inr (ms, ss)"
  shows "zscore_fit_nan x = (map Fin ms, map Fin ss)"
  using assms
  by (auto simp: zscore_fit_def zscore_fit_nan_def cols_def col_def nrows_def split: if_splits)

lemma zscore_fit_nan_few_rows:
  "zscore_fit x = Inl e \<longleftrightarrow> e = NotANumber \<and> NaN \<in> set (snd (zscore_fit_nan x))"
  by (auto simp: zscore_fit_def zscore_fit_nan_def cols_def col_def nrows_def split: if_splits)

section \<open>Standardization transforms (C3)\<close>




section \<open>The 0 to 100 scaler (C6)\<close>

text \<open>
  C6. When \<open>vmax \<noteq> vmin\<close>, \<^verbatim>\<open>scale_0_100(values, vmin, vmax)\<close> is the affine map
  \<open>(v - vmin) / (vmax - vmin) * 100\<close> of every entry, hence \<open>0\<close> at the entries equal to
  \<open>vmin\<close> and \<open>100\<close> at the entries equal to \<open>vmax\<close>; when \<open>vmax = vmin\<close> every entry of the
  result is \<open>50\<close>.
\<close>

theorem scale_0_100_affine_or_midpoint:
  "(vmax \<noteq> vmin \<longrightarrow>
      scale_0_100 values vmin vmax = map (\<lambda>v. (v - vmin) / (vmax - vmin) * 100) values
      \<and> (\<forall>i<length values. values ! i = vmin \<longrightarrow> scale_0_100 values vmin vmax ! i = 0)
      \<and> (\<forall>i<length values. values ! i = vmax \<longrightarrow> scale_0_100 values vmin vmax ! i = 100))
   \<and> (vmax = vmin \<longrightarrow> scale_0_100 values vmin vmax = replicate (length values) 50)"
proof (intro conjI impI allI)
  assume ne: "vmax \<noteq> vmin"
  then show eq: "scale_0_100 values vmin vmax = map (\<lambda>v. (v - vmin) / (vmax - vmin) * 100) values"
    by (simp add: scale_0_100_def Let_def)
  fix i assume i: "i < length values"
  { assume "values ! i = vmin"
    then show "scale_0_100 values vmin vmax ! i = 0"
      using i by (simp add: eq) }
  { assume "values ! i = vmax"
    then show "scale_0_100 values vmin vmax ! i = 100"
      using i ne by (simp add: eq field_simps) }
next
  assume "vmax = vmin"
  then show "scale_0_100 values vmin vmax = replicate (length values) 50"
    by (simp add: scale_0_100_def map_replicate_const)
qed

theorem scale_0_100_affine_or_midpoint_witness:
  "scale_0_100 [0, 1/2, 1] 0 1 = [0, 50, 100] \<and> scale_0_100 [3, 4] 2 2 = [50, 50]"
  using scale_0_100_affine_or_midpoint[of 1 0 "[0, 1/2, 1]"]
        scale_0_100_affine_or_midpoint[of 2 2 "[3, 4]"]
  by (simp add: numeral_2_eq_2)

section \<open>Facts about scores and the applier\<close>

lemma dict_get_stored_or: "dict_get d g own = stored_or (map_of d g) own"
  by (simp add: dict_get_def stored_or_def)

lemma sub_index_mapE:
  "mapE (\<lambda>(g, v). bindE (np_min v) (\<lambda>a. bindE (np_max v) (\<lambda>b. Inr (g, F g v a b)))) ss =
     (if list_ex (\<lambda>(g, v). v = []) ss then Inl ValueError
      else Inr (map (\<lambda>(g, v). (g, F g v (Min (set v)) (Max (set v)))) ss))"
proof (induction ss)
  case Nil
  then show ?case by simp
next
  case (Cons gv ss)
  obtain g v where gv: "gv = (g, v)" by (cases gv)
  show ?case
  proof (cases "v = []")
    case True
    then show ?thesis by (simp add: gv np_min_def)
  next
    case False
    then have "np_min v = Inr (Min (set v))" "np_max v = Inr (Max (set v))"
      by (simp_all add: np_min_eq_Inr np_max_eq_Inr)
    then show ?thesis using Cons False by (simp add: gv)
  qed
qed


lemma apply_tail:
  fixes z :: matrix and score_raw :: "real list" and sub_scores :: "real list dict"
  shows
    "bindE (np_min score_raw) (\<lambda>own_min.
     bindE (np_max score_raw) (\<lambda>own_max.
     bindE (mapE (\<lambda>(g, v).
              bindE (np_min v) (\<lambda>vmin0.
              bindE (np_max v) (\<lambda>vmax0.
                Inr (g, scale_0_100 v (dict_get smin g vmin0) (dict_get smax g vmax0)))))
            sub_scores) (\<lambda>sub_index_0_100.
       Inr (z, score_raw, sub_scores, sub_index_0_100,
            scale_0_100 score_raw (case lo of None \<Rightarrow> own_min | Some v \<Rightarrow> v)
                                  (case hi of None \<Rightarrow> own_max | Some v \<Rightarrow> v))))) =
     (if score_raw = [] \<or> list_ex (\<lambda>(g, v). v = []) sub_scores then Inl ValueError
       else Inr (z, score_raw, sub_scores,
                 map (\<lambda>(g, v). (g, scale_0_100 v
                        (stored_or (map_of smin g) (Min (set v)))
                        (stored_or (map_of smax g) (Max (set v)))))
                     sub_scores,
                 scale_0_100 score_raw
                   (stored_or lo (Min (set score_raw)))
                   (stored_or hi (Max (set score_raw)))))"
proof (cases "score_raw = []")
  case True
  then show ?thesis by (simp add: np_min_def)
next
  case False
  then have "np_min score_raw = Inr (Min (set score_raw))" "np_max score_raw = Inr (Max (set score_raw))"
    by (simp_all add: np_min_eq_Inr np_max_eq_Inr)
  then show ?thesis using False
    by (simp add: sub_index_mapE dict_get_stored_or stored_or_def[symmetric])
qed

lemma apply_weight_model_locals_unfold:
  "apply_weight_model_locals model indicators x directions =
     bindE (apply_direction x directions) (\<lambda>x2.
     bindE (stored_params (standardization_of model) (indicatorKeys model) x2) (\<lambda>z.
     bindE (compute_scores z (indicatorKeys model) indicators (weights model)) (\<lambda>(score_raw, sub_scores).
       if score_raw = [] \<or> list_ex (\<lambda>(g, v). v = []) sub_scores then Inl ValueError
       else Inr (z, score_raw, sub_scores,
                 map (\<lambda>(g, v). (g, scale_0_100 v
                        (stored_or (map_of (or_empty (subScoreMin (model_scaling model))) g) (Min (set v)))
                        (stored_or (map_of (or_empty (subScoreMax (model_scaling model))) g) (Max (set v)))))
                     sub_scores,
                 scale_0_100 score_raw
                   (stored_or (scoreMin (model_scaling model)) (Min (set score_raw)))
                   (stored_or (scoreMax (model_scaling model)) (Max (set score_raw)))))))"
  unfolding apply_weight_model_locals_def Let_def model_scaling_def[symmetric] apply_tail
  by (simp add: split_def)

lemma distinct_fold_step:
  assumes "\<And>x d. distinct (map fst d) \<Longrightarrow> distinct (map fst (f x d))"
  shows "distinct (map fst d) \<Longrightarrow> distinct (map fst (fold f xs d))"
  using assms by (induction xs arbitrary: d) simp_all

lemma sub_scores_of_distinct: "distinct (map fst (sub_scores_of z w dims))"
  unfolding sub_scores_of_def
  by (rule distinct_fold_step) (auto simp: sub_score_step_def Let_def distinct_update)

lemma compute_scores_distinct:
  assumes "compute_scores z ks inds ws = Inr (score_raw, sub_scores)"
  shows "distinct (map fst sub_scores)"
  using assms by (auto simp: compute_scores_def bindE_eq_Inr Let_def sub_scores_of_distinct)

lemma set_update_subset: "set (AList.update k v al) \<subseteq> insert (k, v) (set al)"
  by (induction al) auto

lemma sub_score_fold_lengths:
  "list_all (\<lambda>(g, v). length v = nrows z) sub \<Longrightarrow>
   list_all (\<lambda>(g, v). length v = nrows z) (fold (sub_score_step z w) dims sub)"
proof (induction dims arbitrary: sub)
  case Nil
  then show ?case by simp
next
  case (Cons a dims)
  obtain g idxs where a: "a = (g, idxs)" by (cases a)
  have "list_all (\<lambda>(g, v). length v = nrows z) (sub_score_step z w a sub)"
    using Cons.prems
    by (auto simp: a sub_score_step_def Let_def take_cols_def nrows_def list_all_iff
             dest!: set_update_subset[THEN subsetD])
  then show ?case by (simp add: Cons.IH)
qed

lemma compute_scores_lengths:
  assumes "compute_scores z ks inds ws = Inr (score_raw, sub_scores)"
  shows "length score_raw = nrows z" "list_all (\<lambda>(g, v). length v = nrows z) sub_scores"
proof -
  show "length score_raw = nrows z"
    using assms by (auto simp: compute_scores_def bindE_eq_Inr Let_def matvec_def nrows_def split: if_splits)
  show "list_all (\<lambda>(g, v). length v = nrows z) sub_scores"
    using assms sub_score_fold_lengths[of z "[]"]
    by (auto simp: compute_scores_def bindE_eq_Inr Let_def sub_scores_of_def)
qed

lemma apply_weight_model_eq_Inr:
  "apply_weight_model model inds x dirs = Inr (z, sr, ss, si) \<longleftrightarrow>
     (\<exists>idx. apply_weight_model_locals model inds x dirs = Inr (z, sr, ss, si, idx))"
  by (auto simp: apply_weight_model_def bindE_eq_Inr)

lemma apply_locals_Inr_iff:
  "apply_weight_model_locals model inds x dirs = Inr (z, sr, ss, si, idx) \<longleftrightarrow>
     (\<exists>x2. apply_direction x dirs = Inr x2
        \<and> stored_params (standardization_of model) (indicatorKeys model) x2 = Inr z
        \<and> compute_scores z (indicatorKeys model) inds (weights model) = Inr (sr, ss)
        \<and> sr \<noteq> [] \<and> \<not> list_ex (\<lambda>(g, v). v = []) ss
        \<and> si = map (\<lambda>(g, v). (g, scale_0_100 v
                        (stored_or (map_of (or_empty (subScoreMin (model_scaling model))) g) (Min (set v)))
                        (stored_or (map_of (or_empty (subScoreMax (model_scaling model))) g) (Max (set v)))))
                     ss
        \<and> idx = scale_0_100 sr
                   (stored_or (scoreMin (model_scaling model)) (Min (set sr)))
                   (stored_or (scoreMax (model_scaling model)) (Max (set sr))))"
  unfolding apply_weight_model_locals_unfold
  by (auto simp: bindE_eq_Inr split: if_splits)

lemma scale_0_100_nth:
  "i < length vs \<Longrightarrow> vmin \<noteq> vmax \<Longrightarrow> scale_0_100 vs vmin vmax ! i = (vs ! i - vmin) / (vmax - vmin) * 100"
  by (simp add: scale_0_100_def Let_def)

section \<open>Applying a model whose scaling is incomplete (C9)\<close>

text \<open>
  C9. A missing scaling entry, or a missing bound inside it, never makes
  \<^verbatim>\<open>apply_weight_model\<close> fail: a run that succeeds with the record succeeds with any other
  scaling entry \<open>sc\<close> (also none) put in its place, with the same standardized matrix, raw
  scores and sub-scores. Each bound is the stored one when the record has it and the minimum
  or maximum of the scores of the new matrix otherwise: this holds of the local
  \<^verbatim>\<open>index_0_100\<close> and of every returned sub-index; with no scaling entry at all, every group
  is scaled against the minimum and maximum of its own sub-scores.
\<close>

theorem apply_missing_scaling_falls_back_to_own_bounds:
  assumes "apply_weight_model model indicators x directions = Inr (z, score_raw, sub_scores, sub_index)"
  shows "(\<exists>sub_index'. apply_weight_model (model\<lparr>scaling := sc\<rparr>) indicators x directions
                          = Inr (z, score_raw, sub_scores, sub_index'))
       \<and> apply_weight_model_locals model indicators x directions
           = Inr (z, score_raw, sub_scores, sub_index,
                  scale_0_100 score_raw
                    (stored_or (scoreMin (model_scaling model)) (Min (set score_raw)))
                    (stored_or (scoreMax (model_scaling model)) (Max (set score_raw))))
       \<and> sub_index =
           map (\<lambda>(g, v). (g, scale_0_100 v
                  (stored_or (map_of (or_empty (subScoreMin (model_scaling model))) g) (Min (set v)))
                  (stored_or (map_of (or_empty (subScoreMax (model_scaling model))) g) (Max (set v)))))
               sub_scores
       \<and> apply_weight_model (model\<lparr>scaling := None\<rparr>) indicators x directions
           = Inr (z, score_raw, sub_scores,
                  map (\<lambda>(g, v). (g, scale_0_100 v (Min (set v)) (Max (set v)))) sub_scores)"
proof -
  obtain idx where loc: "apply_weight_model_locals model indicators x directions
      = Inr (z, score_raw, sub_scores, sub_index, idx)"
    using assms by (auto simp: apply_weight_model_eq_Inr)
  have none: "model_scaling (model\<lparr>scaling := None\<rparr>)
      = \<lparr>scoreMin = None, scoreMax = None, subScoreMin = None, subScoreMax = None\<rparr>"
    by (simp add: model_scaling_def)
  have 1: "\<exists>sub_index'. apply_weight_model (model\<lparr>scaling := sc\<rparr>) indicators x directions
                          = Inr (z, score_raw, sub_scores, sub_index')"
    using loc by (auto simp: apply_weight_model_eq_Inr apply_locals_Inr_iff)
  have 2: "apply_weight_model_locals model indicators x directions
           = Inr (z, score_raw, sub_scores, sub_index,
                  scale_0_100 score_raw
                    (stored_or (scoreMin (model_scaling model)) (Min (set score_raw)))
                    (stored_or (scoreMax (model_scaling model)) (Max (set score_raw))))"
    using loc by (auto simp: apply_locals_Inr_iff)
  have 3: "sub_index =
           map (\<lambda>(g, v). (g, scale_0_100 v
                  (stored_or (map_of (or_empty (subScoreMin (model_scaling model))) g) (Min (set v)))
                  (stored_or (map_of (or_empty (subScoreMax (model_scaling model))) g) (Max (set v)))))
               sub_scores"
    using loc by (auto simp: apply_locals_Inr_iff)
  have 4: "apply_weight_model (model\<lparr>scaling := None\<rparr>) indicators x directions
           = Inr (z, score_raw, sub_scores,
                  map (\<lambda>(g, v). (g, scale_0_100 v (Min (set v)) (Max (set v)))) sub_scores)"
    using loc
    by (auto simp: apply_weight_model_eq_Inr apply_locals_Inr_iff none or_empty_def stored_or_def)
  show ?thesis using 1 2 3 4 by blast
qed

theorem apply_missing_scaling_falls_back_to_own_bounds_witness:
  "apply_weight_model ex_model ex_indicators ex_new [''positive'', ''positive''] =
     Inr (\<lparr>ncols = 2, rows = [[0, 0], [1 / 2, 1 / 2], [3 / 2, 2]]\<rparr>, [0, 1 / 2, 7 / 4],
          [(''g1'', [0, 1 / 2, 3 / 2]), (''default'', [0, 1 / 2, 2])],
          [(''g1'', [0, 50, 150]), (''default'', [0, 25, 100])])
   \<and> apply_weight_model (ex_model\<lparr>scaling := None\<rparr>) ex_indicators ex_new [''positive'', ''positive''] =
     Inr (\<lparr>ncols = 2, rows = [[0, 0], [1 / 2, 1 / 2], [3 / 2, 2]]\<rparr>, [0, 1 / 2, 7 / 4],
          [(''g1'', [0, 1 / 2, 3 / 2]), (''default'', [0, 1 / 2, 2])],
          [(''g1'', [0, 100 / 3, 100]), (''default'', [0, 25, 100])])"
proof -
  have run: "apply_weight_model ex_model ex_indicators ex_new [''positive'', ''positive''] =
     Inr (\<lparr>ncols = 2, rows = [[0, 0], [1 / 2, 1 / 2], [3 / 2, 2]]\<rparr>, [0, 1 / 2, 7 / 4],
          [(''g1'', [0, 1 / 2, 3 / 2]), (''default'', [0, 1 / 2, 2])],
          [(''g1'', [0, 50, 150]), (''default'', [0, 25, 100])])"
    by code_simp
  show ?thesis
    using run apply_missing_scaling_falls_back_to_own_bounds[OF run, of None]
    by (simp add: scale_0_100_def)
qed

section \<open>The index is not clamped (C7)\<close>

text \<open>
  C7. For \<open>vmin < vmax\<close>, \<^verbatim>\<open>scale_0_100\<close> is strictly increasing in its input, an entry
  above \<open>vmax\<close> gives an index above \<open>100\<close> and an entry below \<open>vmin\<close> an index below \<open>0\<close>;
  and \<^verbatim>\<open>apply_weight_model\<close> returns, for a group whose bounds \<open>vmin\<close> and \<open>vmax\<close> are
  stored in the model, exactly \<^verbatim>\<open>scale_0_100\<close> of the group's sub-scores against them,
  without truncation.
\<close>

theorem index_0_100_not_clamped:
  assumes "vmin < vmax"
  shows "(\<forall>i<length vs. \<forall>j<length vs. vs ! i < vs ! j \<longrightarrow>
            scale_0_100 vs vmin vmax ! i < scale_0_100 vs vmin vmax ! j)
       \<and> (\<forall>i<length vs. vmax < vs ! i \<longrightarrow> 100 < scale_0_100 vs vmin vmax ! i)
       \<and> (\<forall>i<length vs. vs ! i < vmin \<longrightarrow> scale_0_100 vs vmin vmax ! i < 0)
       \<and> (apply_weight_model model indicators x directions = Inr (z, score_raw, sub_scores, sub_index)
            \<and> scaling model = Some sc
            \<and> subScoreMin sc = Some smin \<and> map_of smin g = Some vmin
            \<and> subScoreMax sc = Some smax \<and> map_of smax g = Some vmax
            \<and> map_of sub_scores g = Some v
          \<longrightarrow> map_of sub_index g = Some (scale_0_100 v vmin vmax))"
proof (intro conjI allI impI)
  fix i j assume "i < length vs" "j < length vs" "vs ! i < vs ! j"
  then show "scale_0_100 vs vmin vmax ! i < scale_0_100 vs vmin vmax ! j"
    using assms by (simp add: scale_0_100_nth divide_strict_right_mono)
next
  fix i assume "i < length vs" "vmax < vs ! i"
  then show "100 < scale_0_100 vs vmin vmax ! i"
    using assms by (simp add: scale_0_100_nth field_simps)
next
  fix i assume "i < length vs" "vs ! i < vmin"
  then show "scale_0_100 vs vmin vmax ! i < 0"
    using assms by (simp add: scale_0_100_nth field_simps)
next
  assume a: "apply_weight_model model indicators x directions = Inr (z, score_raw, sub_scores, sub_index)
            \<and> scaling model = Some sc
            \<and> subScoreMin sc = Some smin \<and> map_of smin g = Some vmin
            \<and> subScoreMax sc = Some smax \<and> map_of smax g = Some vmax
            \<and> map_of sub_scores g = Some v"
  then have si: "sub_index =
           map (\<lambda>(g, v). (g, scale_0_100 v
                  (stored_or (map_of (or_empty (subScoreMin (model_scaling model))) g) (Min (set v)))
                  (stored_or (map_of (or_empty (subScoreMax (model_scaling model))) g) (Max (set v)))))
               sub_scores"
    by (auto simp: apply_weight_model_eq_Inr apply_locals_Inr_iff)
  have "map_of sub_index g = map_option (\<lambda>v. scale_0_100 v
                  (stored_or (map_of (or_empty (subScoreMin (model_scaling model))) g) (Min (set v)))
                  (stored_or (map_of (or_empty (subScoreMax (model_scaling model))) g) (Max (set v)))) (map_of sub_scores g)"
    unfolding si by (induction sub_scores) auto
  then show "map_of sub_index g = Some (scale_0_100 v vmin vmax)"
    using a by (simp add: model_scaling_def or_empty_def stored_or_def)
qed

theorem index_0_100_not_clamped_witness:
  "(0::real) < 1
   \<and> apply_weight_model ex_model ex_indicators ex_new [''positive'', ''positive''] =
     Inr (\<lparr>ncols = 2, rows = [[0, 0], [1 / 2, 1 / 2], [3 / 2, 2]]\<rparr>, [0, 1 / 2, 7 / 4],
          [(''g1'', [0, 1 / 2, 3 / 2]), (''default'', [0, 1 / 2, 2])],
          [(''g1'', [0, 50, 150]), (''default'', [0, 25, 100])])
   \<and> scale_0_100 [0, 1 / 2, 3 / 2] 0 1 = [0, 50, 150]
   \<and> scale_0_100 [- 1 / 2] 0 1 ! 0 < 0"
proof -
  have run: "apply_weight_model ex_model ex_indicators ex_new [''positive'', ''positive''] =
     Inr (\<lparr>ncols = 2, rows = [[0, 0], [1 / 2, 1 / 2], [3 / 2, 2]]\<rparr>, [0, 1 / 2, 7 / 4],
          [(''g1'', [0, 1 / 2, 3 / 2]), (''default'', [0, 1 / 2, 2])],
          [(''g1'', [0, 50, 150]), (''default'', [0, 25, 100])])"
    by code_simp
  have pos: "(0::real) < 1" by simp
  have sc: "scaling ex_model = Some \<lparr>scoreMin = Some 0, scoreMax = Some 1,
                       subScoreMin = Some [(''g1'', 0), (''default'', 0)],
                       subScoreMax = Some [(''g1'', 1)]\<rparr>"
    by (simp add: ex_model_def)
  show ?thesis
    using run pos sc
      index_0_100_not_clamped[OF pos, of "[- 1 / 2]" ex_model ex_indicators ex_new
        "[''positive'', ''positive'']" "\<lparr>ncols = 2, rows = [[0, 0], [1 / 2, 1 / 2], [3 / 2, 2]]\<rparr>"
        "[0, 1 / 2, 7 / 4]" "[(''g1'', [0, 1 / 2, 3 / 2]), (''default'', [0, 1 / 2, 2])]"
        "[(''g1'', [0, 50, 150]), (''default'', [0, 25, 100])]"
        "\<lparr>scoreMin = Some 0, scoreMax = Some 1,
                       subScoreMin = Some [(''g1'', 0), (''default'', 0)],
                       subScoreMax = Some [(''g1'', 1)]\<rparr>"
        "[(''g1'', 0), (''default'', 0)]" "''g1''" "[(''g1'', 1)]" "[0, 1 / 2, 3 / 2]"]
    by simp
qed

section \<open>Facts about sorting, cumulative sums and the binary search\<close>

lemma bsearch_left_spec:
  assumes "sorted a" "lo \<le> hi" "hi \<le> length a"
    "\<forall>i<lo. a ! i < v" "\<forall>i. hi \<le> i \<and> i < length a \<longrightarrow> v \<le> a ! i"
  shows "lo \<le> bsearch_left a v lo hi \<and> bsearch_left a v lo hi \<le> hi
       \<and> (\<forall>i<bsearch_left a v lo hi. a ! i < v)
       \<and> (\<forall>i. bsearch_left a v lo hi \<le> i \<and> i < length a \<longrightarrow> v \<le> a ! i)"
  using assms
proof (induction a v lo hi rule: bsearch_left.induct)
  case (1 a v lo hi)
  show ?case
  proof (cases "lo < hi")
    case False
    then show ?thesis using "1.prems" by (simp add: bsearch_left.simps)
  next
    case True
    define mid where "mid = lo + (hi - lo) div 2"
    have mid: "lo \<le> mid" "mid < hi" using True by (simp_all add: mid_def)
    show ?thesis
    proof (cases "a ! mid < v")
      case lt: True
      have below: "\<forall>i<mid + 1. a ! i < v"
      proof (intro allI impI)
        fix i assume "i < mid + 1"
        then have "i \<le> mid" by simp
        then have "a ! i \<le> a ! mid"
          using "1.prems"(1,3) mid by (simp add: sorted_nth_mono)
        then show "a ! i < v" using lt by simp
      qed
      have eq: "bsearch_left a v lo hi = bsearch_left a v (mid + 1) hi"
        using True lt by (subst bsearch_left.simps) (simp add: mid_def Let_def)
      have "mid + 1 \<le> bsearch_left a v (mid + 1) hi \<and> bsearch_left a v (mid + 1) hi \<le> hi
       \<and> (\<forall>i<bsearch_left a v (mid + 1) hi. a ! i < v)
       \<and> (\<forall>i. bsearch_left a v (mid + 1) hi \<le> i \<and> i < length a \<longrightarrow> v \<le> a ! i)"
        using "1.IH"(1)[OF True mid_def lt "1.prems"(1) _ "1.prems"(3) below "1.prems"(5)] mid
        by simp
      then show ?thesis using eq mid by auto
    next
      case ge: False
      have above: "\<forall>i. mid \<le> i \<and> i < length a \<longrightarrow> v \<le> a ! i"
      proof (intro allI impI)
        fix i assume "mid \<le> i \<and> i < length a"
        then have "a ! mid \<le> a ! i"
          using "1.prems"(1) by (simp add: sorted_nth_mono)
        then show "v \<le> a ! i" using ge by simp
      qed
      have eq: "bsearch_left a v lo hi = bsearch_left a v lo mid"
        using True ge by (subst bsearch_left.simps) (simp add: mid_def Let_def)
      have "lo \<le> bsearch_left a v lo mid \<and> bsearch_left a v lo mid \<le> mid
       \<and> (\<forall>i<bsearch_left a v lo mid. a ! i < v)
       \<and> (\<forall>i. bsearch_left a v lo mid \<le> i \<and> i < length a \<longrightarrow> v \<le> a ! i)"
        using "1.IH"(2)[OF True mid_def ge "1.prems"(1) mid(1) _ "1.prems"(4) above] mid "1.prems"(3)
        by simp
      then show ?thesis using eq mid by auto
    qed
  qed
qed

lemma searchsorted_spec:
  assumes "sorted a"
  shows "searchsorted a v \<le> length a
       \<and> (\<forall>i<searchsorted a v. a ! i < v)
       \<and> (\<forall>i. searchsorted a v \<le> i \<and> i < length a \<longrightarrow> v \<le> a ! i)"
  using bsearch_left_spec[OF assms, of 0 "length a" v] by (simp add: searchsorted_def)

lemma map_sort_key: "map f (sort_key f xs) = sort (map f xs)"
  by (rule properties_for_sort[symmetric]) simp_all

lemma argsort_sorts: "map (\<lambda>i. v ! i) (argsort v) = sort v"
  by (simp add: argsort_def map_sort_key map_nth)

lemma length_argsort [simp]: "length (argsort v) = length v"
  by (simp add: argsort_def)

lemma pca_eigvals_clipped_desc:
  "map (\<lambda>v. if v < 0 then 0 else v) (map (\<lambda>i. vals ! i) (rev (argsort vals))) = clipped_desc vals"
proof -
  have "map (\<lambda>i. vals ! i) (rev (argsort vals)) = rev (sort vals)"
    using argsort_sorts[of vals] by (simp add: rev_map[symmetric])
  moreover have "(\<lambda>v::real. if v < 0 then 0 else v) = (\<lambda>v. max 0 v)"
    by (auto simp: max_def)
  ultimately show ?thesis by (simp add: clipped_desc_def)
qed

lemma length_cumsum_from [simp]: "length (cumsum_from acc xs) = length xs"
  by (induction xs arbitrary: acc) simp_all

lemma cumsum_from_nth:
  "i < length xs \<Longrightarrow> cumsum_from acc xs ! i = acc + sum_list (take (Suc i) xs)"
proof (induction xs arbitrary: acc i)
  case Nil
  then show ?case by simp
next
  case (Cons x xs)
  then show ?case by (cases i) (simp_all add: add.assoc)
qed

lemma length_cumsum [simp]: "length (cumsum xs) = length xs"
  by (simp add: cumsum_def)

lemma cumsum_nth: "i < length xs \<Longrightarrow> cumsum xs ! i = sum_list (take (Suc i) xs)"
  by (simp add: cumsum_def cumsum_from_nth)

lemma sum_list_take_mono:
  assumes "\<forall>x\<in>set xs. (0::real) \<le> x" "i \<le> j"
  shows "sum_list (take i xs) \<le> sum_list (take j xs)"
proof -
  have "take j xs = take i xs @ take (j - i) (drop i xs)"
    using assms(2) by (metis le_add_diff_inverse take_add)
  moreover have "0 \<le> sum_list (take (j - i) (drop i xs))"
    using assms(1) by (intro sum_list_nonneg) (auto dest: in_set_takeD in_set_dropD)
  ultimately show ?thesis by simp
qed

lemma sorted_cum:
  assumes "\<forall>x\<in>set lam. (0::real) \<le> x" "0 < tot"
  shows "sorted (map (\<lambda>s. s / tot) (cumsum lam))"
proof (rule sorted_iff_nth_mono[THEN iffD2], intro allI impI)
  fix i j assume ij: "i \<le> j" "j < length (map (\<lambda>s. s / tot) (cumsum lam))"
  then have "sum_list (take (Suc i) lam) \<le> sum_list (take (Suc j) lam)"
    using assms(1) by (intro sum_list_take_mono) simp_all
  then show "map (\<lambda>s. s / tot) (cumsum lam) ! i \<le> map (\<lambda>s. s / tot) (cumsum lam) ! j"
    using ij assms(2) by (simp add: cumsum_nth divide_right_mono)
qed

lemma clipped_desc_nonneg: "\<forall>x\<in>set (clipped_desc vals). 0 \<le> x"
  by (simp add: clipped_desc_def)

lemma length_clipped_desc [simp]: "length (clipped_desc vals) = length vals"
  by (simp add: clipped_desc_def)

lemma pca_weights_unfold:
  "pca_weights eigh thr z =
     (if nrows z < 2 then Inl (ComputeError PcaInsufficientSamples)
      else if ncols z = 1 then Inl LinAlgError
      else bindE (eigh (cov z)) (\<lambda>(vals, vecs).
        if sum_list (clipped_desc vals) \<le> 0 then Inl (ComputeError PcaZeroVariance)
        else if sum_list (pca_raw vecs vals (clipped_desc vals)
                   (max 1 (min (searchsorted (map (\<lambda>s. s / sum_list (clipped_desc vals))
                                                 (cumsum (clipped_desc vals))) thr + 1) (ncols z)))
                   (ncols z)) \<le> 0
        then Inl (ComputeError PcaInvalidWeights)
        else Inr \<lparr>res_weights =
                    map (\<lambda>v. v / sum_list (pca_raw vecs vals (clipped_desc vals)
                      (max 1 (min (searchsorted (map (\<lambda>s. s / sum_list (clipped_desc vals))
                                                 (cumsum (clipped_desc vals))) thr + 1) (ncols z)))
                      (ncols z)))
                    (pca_raw vecs vals (clipped_desc vals)
                      (max 1 (min (searchsorted (map (\<lambda>s. s / sum_list (clipped_desc vals))
                                                 (cumsum (clipped_desc vals))) thr + 1) (ncols z)))
                      (ncols z)),
                  res_k = max 1 (min (searchsorted (map (\<lambda>s. s / sum_list (clipped_desc vals))
                                                 (cumsum (clipped_desc vals))) thr + 1) (ncols z)),
                  res_cumulative = map (\<lambda>s. s / sum_list (clipped_desc vals)) (cumsum (clipped_desc vals))
                     ! (max 1 (min (searchsorted (map (\<lambda>s. s / sum_list (clipped_desc vals))
                                                 (cumsum (clipped_desc vals))) thr + 1) (ncols z)) - 1)\<rparr>))"
  by (simp only: pca_weights_def Let_def pca_eigvals_clipped_desc pca_raw_def)

lemma pca_weights_Inr:
  assumes "pca_weights eigh thr z = Inr res"
  obtains vals vecs where
    "eigh (cov z) = Inr (vals, vecs)" "2 \<le> nrows z" "ncols z \<noteq> 1"
    "0 < sum_list (clipped_desc vals)"
    "res_k res = max 1 (min (searchsorted (map (\<lambda>s. s / sum_list (clipped_desc vals)) (cumsum (clipped_desc vals))) thr + 1) (ncols z))"
    "res_cumulative res = map (\<lambda>s. s / sum_list (clipped_desc vals)) (cumsum (clipped_desc vals)) ! (res_k res - 1)"
    "0 < sum_list (pca_raw vecs vals (clipped_desc vals) (res_k res) (ncols z))"
    "res_weights res = map (\<lambda>v. v / sum_list (pca_raw vecs vals (clipped_desc vals) (res_k res) (ncols z)))
                          (pca_raw vecs vals (clipped_desc vals) (res_k res) (ncols z))"
proof -
  from assms have n: "2 \<le> nrows z" and p: "ncols z \<noteq> 1"
    by (auto simp: pca_weights_unfold split: if_splits)
  from assms n p obtain vals vecs where e: "eigh (cov z) = Inr (vals, vecs)"
    by (auto simp: pca_weights_unfold bindE_eq_Inr)
  from assms n p have r: "(if sum_list (clipped_desc vals) \<le> 0 then Inl (ComputeError PcaZeroVariance)
        else if sum_list (pca_raw vecs vals (clipped_desc vals)
                   (max 1 (min (searchsorted (map (\<lambda>s. s / sum_list (clipped_desc vals))
                                                 (cumsum (clipped_desc vals))) thr + 1) (ncols z)))
                   (ncols z)) \<le> 0
        then Inl (ComputeError PcaInvalidWeights)
        else Inr \<lparr>res_weights =
                    map (\<lambda>v. v / sum_list (pca_raw vecs vals (clipped_desc vals)
                      (max 1 (min (searchsorted (map (\<lambda>s. s / sum_list (clipped_desc vals))
                                                 (cumsum (clipped_desc vals))) thr + 1) (ncols z)))
                      (ncols z)))
                    (pca_raw vecs vals (clipped_desc vals)
                      (max 1 (min (searchsorted (map (\<lambda>s. s / sum_list (clipped_desc vals))
                                                 (cumsum (clipped_desc vals))) thr + 1) (ncols z)))
                      (ncols z)),
                  res_k = max 1 (min (searchsorted (map (\<lambda>s. s / sum_list (clipped_desc vals))
                                                 (cumsum (clipped_desc vals))) thr + 1) (ncols z)),
                  res_cumulative = map (\<lambda>s. s / sum_list (clipped_desc vals)) (cumsum (clipped_desc vals))
                     ! (max 1 (min (searchsorted (map (\<lambda>s. s / sum_list (clipped_desc vals))
                                                 (cumsum (clipped_desc vals))) thr + 1) (ncols z)) - 1)\<rparr>) = Inr res"
    unfolding pca_weights_unfold e by (simp del: One_nat_def)
  show ?thesis
    apply (rule that[OF e n p])
    using r by (auto split: if_splits simp del: One_nat_def)
qed

section \<open>The number of principal components (C4)\<close>

text \<open>
  C4. When \<^verbatim>\<open>_pca_weights\<close> returns a result (so there are at least two rows and the clipped
  eigenvalues \<open>\<lambda>\<close>, sorted descending, have a positive sum), the recorded \<open>k\<close> lies in
  \<open>[1, p]\<close>, no \<open>l < k\<close> has \<open>cum\<^sub>l \<ge> threshold\<close>, and either \<open>cum\<^sub>k \<ge> threshold\<close> or no
  \<open>cum\<^sub>l\<close> with \<open>l \<le> p\<close> reaches the threshold and \<open>k = p\<close>; the recorded cumulative
  diagnostic is \<open>cum\<^sub>k\<close>. Here \<^verbatim>\<open>np.linalg.eigh\<close> returned the \<open>p\<close> eigenvalues \<open>vals\<close>.
\<close>

theorem pca_component_count_is_least:
  assumes run: "pca_weights eigh threshold z = Inr res"
      and eigh: "eigh (cov z) = Inr (vals, vecs)"
      and shape: "length vals = ncols z"
  shows "2 \<le> nrows z \<and> 0 < sum_list (clipped_desc vals)
       \<and> 1 \<le> res_k res \<and> res_k res \<le> ncols z
       \<and> (\<forall>l. 1 \<le> l \<and> l < res_k res \<longrightarrow> cum_ratio (clipped_desc vals) l < threshold)
       \<and> (threshold \<le> cum_ratio (clipped_desc vals) (res_k res)
            \<or> (res_k res = ncols z
                \<and> (\<forall>l. 1 \<le> l \<and> l \<le> ncols z \<longrightarrow> cum_ratio (clipped_desc vals) l < threshold)))
       \<and> res_cumulative res = cum_ratio (clipped_desc vals) (res_k res)"
proof -
  define lam where "lam = clipped_desc vals"
  define tot where "tot = sum_list lam"
  define cum where "cum = map (\<lambda>s. s / tot) (cumsum lam)"
  define m where "m = searchsorted cum threshold"
  obtain vals' vecs' where e': "eigh (cov z) = Inr (vals', vecs')"
    and n: "2 \<le> nrows z" and tot': "0 < sum_list (clipped_desc vals')"
    and k': "res_k res = max 1 (min (searchsorted (map (\<lambda>s. s / sum_list (clipped_desc vals')) (cumsum (clipped_desc vals'))) threshold + 1) (ncols z))"
    and c': "res_cumulative res = map (\<lambda>s. s / sum_list (clipped_desc vals')) (cumsum (clipped_desc vals')) ! (res_k res - 1)"
    using pca_weights_Inr[OF run] by metis
  have same: "vals' = vals" using e' eigh by simp
  have tot: "0 < tot" using tot' by (simp add: same tot_def lam_def)
  have k: "res_k res = max 1 (min (m + 1) (ncols z))"
    using k' by (simp add: same m_def cum_def tot_def lam_def)
  have c: "res_cumulative res = cum ! (res_k res - 1)"
    using c' by (simp add: same cum_def tot_def lam_def)
  have len: "length cum = ncols z" "length lam = ncols z"
    by (simp_all add: cum_def lam_def shape)
  have p: "1 \<le> ncols z"
  proof (rule ccontr)
    assume "\<not> 1 \<le> ncols z"
    then have "length lam = 0" using len by simp
    then have "lam = []" by simp
    then show False using tot by (simp add: tot_def)
  qed
  have cum_nth: "\<And>l. 1 \<le> l \<Longrightarrow> l \<le> ncols z \<Longrightarrow> cum ! (l - 1) = cum_ratio lam l"
    using len by (simp add: cum_def cumsum_nth cum_ratio_def tot_def)
  have srt: "sorted cum"
    unfolding cum_def using clipped_desc_nonneg tot by (intro sorted_cum) (simp_all add: lam_def)
  have m_le: "m \<le> ncols z" and below: "\<forall>i<m. cum ! i < threshold"
    and above: "\<forall>i. m \<le> i \<and> i < ncols z \<longrightarrow> threshold \<le> cum ! i"
    using searchsorted_spec[OF srt, of threshold] len by (simp_all add: m_def)
  have k_range: "1 \<le> res_k res" "res_k res \<le> ncols z"
    using k p by simp_all
  have k_le: "res_k res \<le> m + 1" using k p by simp
  have before: "\<forall>l. 1 \<le> l \<and> l < res_k res \<longrightarrow> cum_ratio lam l < threshold"
  proof (intro allI impI)
    fix l assume l: "1 \<le> l \<and> l < res_k res"
    then have "l - 1 < m" using k_le by arith
    then have "cum ! (l - 1) < threshold" using below by simp
    then show "cum_ratio lam l < threshold"
      using cum_nth[of l] l k_range by simp
  qed
  have at: "threshold \<le> cum_ratio lam (res_k res)
            \<or> (res_k res = ncols z \<and> (\<forall>l. 1 \<le> l \<and> l \<le> ncols z \<longrightarrow> cum_ratio lam l < threshold))"
  proof (cases "m < ncols z")
    case True
    then have "res_k res = m + 1" using k by simp
    moreover have "threshold \<le> cum ! m" using above True by simp
    ultimately show ?thesis using cum_nth[of "m + 1"] True by simp
  next
    case False
    then have mp: "m = ncols z" using m_le by simp
    then have "res_k res = ncols z" using k p by simp
    moreover have "\<forall>l. 1 \<le> l \<and> l \<le> ncols z \<longrightarrow> cum_ratio lam l < threshold"
    proof (intro allI impI)
      fix l assume l: "1 \<le> l \<and> l \<le> ncols z"
      then have "l - 1 < m" using mp by arith
      then have "cum ! (l - 1) < threshold" using below by blast
      then show "cum_ratio lam l < threshold" using cum_nth[of l] l by simp
    qed
    ultimately show ?thesis by simp
  qed
  have "res_cumulative res = cum_ratio lam (res_k res)"
    using c cum_nth[of "res_k res"] k_range by simp
  then show ?thesis
    using n tot k_range before at by (simp add: lam_def tot_def)
qed

lemma ex_cov: "cov ex_z = \<lparr>ncols = 2, rows = [[1, 1], [1, 1]]\<rparr>"
  by code_simp

lemma ex_eigh_cov: "ex_eigh (cov ex_z) = Inr ([0, 2], \<lparr>ncols = 2, rows = [[- 1 / sqrt 2, 1 / sqrt 2], [1 / sqrt 2, 1 / sqrt 2]]\<rparr>)"
  by (simp add: ex_cov ex_eigh_def)

lemma ex_clipped: "clipped_desc [0, 2] = [2, 0]"
  by code_simp

lemma ex_argsort: "argsort [0, 2] = [0, 1]"
  by code_simp

lemma ex_cum: "map (\<lambda>s. s / sum_list [2, 0]) (cumsum [2, 0]) = [1, 1]"
  by code_simp

lemma ex_k:
  "max 1 (min (searchsorted [1, 1] (85 / 100) + 1) (ncols ex_z)) = 1"
  "max 1 (min (searchsorted [1, 1] 2 + 1) (ncols ex_z)) = 2"
  by code_simp+

lemma replicate_2_zero: "replicate 2 (0::real) = [0, 0]"
  by (simp add: numeral_2_eq_2)

lemma upt_0_1: "[0..<1] = [0]"
  by simp

lemma ex_raw:
  "pca_raw \<lparr>ncols = 2, rows = [[- 1 / sqrt 2, 1 / sqrt 2], [1 / sqrt 2, 1 / sqrt 2]]\<rparr> [0, 2] [2, 0] 1 (ncols ex_z) = [2, 2]"
  "pca_raw \<lparr>ncols = 2, rows = [[- 1 / sqrt 2, 1 / sqrt 2], [1 / sqrt 2, 1 / sqrt 2]]\<rparr> [0, 2] [2, 0] 2 (ncols ex_z) = [2, 2]"
  unfolding pca_raw_def ex_argsort take_cols_def col_def upt_0_1 upt_0_2 ex_z_def
  by (simp_all add: replicate_2_zero power_divide)

lemma ex_pca_run:
  "pca_weights ex_eigh (85 / 100) ex_z = Inr \<lparr>res_weights = [1 / 2, 1 / 2], res_k = 1, res_cumulative = 1\<rparr>"
  "pca_weights ex_eigh 2 ex_z = Inr \<lparr>res_weights = [1 / 2, 1 / 2], res_k = 2, res_cumulative = 1\<rparr>"
  unfolding pca_weights_unfold ex_eigh_cov bindE_simps prod.case ex_clipped ex_cum ex_k ex_raw
  by (simp_all add: ex_z_def nrows_def)

theorem pca_component_count_is_least_witness:
  "pca_weights ex_eigh (85 / 100) ex_z = Inr \<lparr>res_weights = [1 / 2, 1 / 2], res_k = 1, res_cumulative = 1\<rparr>
   \<and> 85 / 100 \<le> cum_ratio (clipped_desc [0, 2]) 1
   \<and> pca_weights ex_eigh 2 ex_z = Inr \<lparr>res_weights = [1 / 2, 1 / 2], res_k = 2, res_cumulative = 1\<rparr>
   \<and> cum_ratio (clipped_desc [0, 2]) 2 = 1"
proof -
  have shape: "length [0, 2 :: real] = ncols ex_z" by (simp add: ex_z_def)
  show ?thesis
    using ex_pca_run
      pca_component_count_is_least[OF ex_pca_run(1) ex_eigh_cov shape]
      pca_component_count_is_least[OF ex_pca_run(2) ex_eigh_cov shape]
    by (simp add: ex_clipped cum_ratio_def)
qed

section \<open>Facts about the largest eigenvalue\<close>

lemma fold_max_Max: "fold max ys (y::real) = Max (set (y # ys))"
  using Max.set_eq_fold[of y ys] by simp

lemma argmax_props:
  assumes "xs \<noteq> []"
  shows "argmax xs < length xs"
    and "\<forall>i<length xs. xs ! i \<le> xs ! argmax xs"
    and "\<forall>i<argmax xs. xs ! i < xs ! argmax xs"
proof -
  define M where "M = Max (set xs)"
  have M: "fold max (tl xs) (hd xs) = M"
    using assms by (cases xs) (simp_all add: fold_max_Max M_def)
  have am: "argmax xs = length (takeWhile (\<lambda>v. v \<noteq> M) xs)"
    by (simp add: argmax_def M)
  have Min: "M \<in> set xs" using assms by (simp add: M_def)
  have "takeWhile (\<lambda>v. v \<noteq> M) xs \<noteq> xs"
    using Min by (auto simp: takeWhile_eq_all_conv)
  then have "length (takeWhile (\<lambda>v. v \<noteq> M) xs) \<noteq> length xs"
    by (metis takeWhile_eq_take take_all_iff order_refl)
  then show lt: "argmax xs < length xs"
    using length_takeWhile_le[of "\<lambda>v. v \<noteq> M" xs] by (simp add: am)
  have at: "xs ! argmax xs = M"
    using nth_length_takeWhile[of "\<lambda>v. v \<noteq> M" xs] lt by (simp add: am)
  show "\<forall>i<length xs. xs ! i \<le> xs ! argmax xs"
    by (simp add: at M_def)
  show "\<forall>i<argmax xs. xs ! i < xs ! argmax xs"
  proof (intro allI impI)
    fix i assume i: "i < argmax xs"
    then have "takeWhile (\<lambda>v. v \<noteq> M) xs ! i \<in> set (takeWhile (\<lambda>v. v \<noteq> M) xs)"
      by (simp add: am)
    then have "takeWhile (\<lambda>v. v \<noteq> M) xs ! i \<noteq> M"
      by (auto dest: set_takeWhileD)
    then have "xs ! i \<noteq> M" using i by (simp add: am takeWhile_nth)
    moreover have "xs ! i \<le> M" using i lt by (simp add: M_def)
    ultimately show "xs ! i < xs ! argmax xs" by (simp add: at)
  qed
qed

lemma abs_flip: "(\<lambda>v::real. if v < 0 then - v else v) = abs"
  by (auto simp: abs_if)

lemma sum_list_div: "sum_list (map (\<lambda>v. v / (c::real)) xs) = sum_list xs / c"
  by (induction xs) (simp_all add: add_divide_distrib)

lemma ahp_weights_unfold:
  assumes "nrows m = ncols m" "1 \<le> nrows m" "eig m = Inr (eigvals, eigvecs)"
  shows "ahp_weights eig m =
     (if sum_list (map (\<lambda>r. \<bar>Re (r ! argmax (map Re eigvals))\<bar>) eigvecs) = 0
      then Inl (ComputeError AhpZeroWeightVector)
      else Inr (map (\<lambda>v. v / sum_list (map (\<lambda>r. \<bar>Re (r ! argmax (map Re eigvals))\<bar>) eigvecs))
                    (map (\<lambda>r. \<bar>Re (r ! argmax (map Re eigvals))\<bar>) eigvecs),
                Re (eigvals ! argmax (map Re eigvals)),
                (if nrows m > 1 then (Re (eigvals ! argmax (map Re eigvals)) - real (nrows m)) / (real (nrows m) - 1) else 0),
                (if ri_table (nrows m) = 0 then 0
                 else (if nrows m > 1 then (Re (eigvals ! argmax (map Re eigvals)) - real (nrows m)) / (real (nrows m) - 1) else 0)
                      / ri_table (nrows m))))"
  using assms by (simp add: ahp_weights_def Let_def abs_flip comp_def)

section \<open>The AHP weight vector (C5)\<close>

text \<open>
  C5. A matrix that is not square raises the non-square error (and a square matrix of order
  \<open>0\<close> the separate error of \<^verbatim>\<open>_ahp_weights\<close> for fewer than one indicator). For a square
  matrix of order at least \<open>1\<close> on which \<^verbatim>\<open>np.linalg.eig\<close> returned the eigenvalues
  \<open>eigvals\<close> and the eigenvector matrix \<open>eigvecs\<close>: there is an index \<open>idx\<close> of an eigenvalue
  of largest real part such that, with \<open>vec\<close> the entrywise absolute value of the real part
  of column \<open>idx\<close> of \<open>eigvecs\<close>, the function raises the zero-weight-vector error when
  \<open>vec\<close> sums to \<open>0\<close>, and otherwise returns \<open>vec\<close> divided by its sum, which sums to \<open>1\<close>
  and has no negative entry, together with the real part of that eigenvalue. The absolute
  value is the flipped eigenvector when no entry is positive and the eigenvector itself
  when no entry is negative.
\<close>

theorem ahp_weights_principal_eigenvector:
  "(nrows m \<noteq> ncols m \<longrightarrow> ahp_weights eig m = Inl (ComputeError AhpNonSquareMatrix))
   \<and> (nrows m = 0 \<and> ncols m = 0 \<longrightarrow> ahp_weights eig m = Inl (ComputeError AhpTooFewIndicators))
   \<and> (nrows m = ncols m \<and> 1 \<le> nrows m \<and> eig m = Inr (eigvals, eigvecs) \<and> length eigvals = nrows m \<longrightarrow>
        (\<exists>idx<length eigvals.
            (\<forall>i<length eigvals. Re (eigvals ! i) \<le> Re (eigvals ! idx))
          \<and> (sum_list (map (\<lambda>r. \<bar>Re (r ! idx)\<bar>) eigvecs) = 0 \<longrightarrow>
                ahp_weights eig m = Inl (ComputeError AhpZeroWeightVector))
          \<and> (sum_list (map (\<lambda>r. \<bar>Re (r ! idx)\<bar>) eigvecs) \<noteq> 0 \<longrightarrow>
                (\<exists>w ci cr. ahp_weights eig m = Inr (w, Re (eigvals ! idx), ci, cr)
                   \<and> w = map (\<lambda>r. \<bar>Re (r ! idx)\<bar> / sum_list (map (\<lambda>r. \<bar>Re (r ! idx)\<bar>) eigvecs)) eigvecs
                   \<and> sum_list w = 1 \<and> (\<forall>v\<in>set w. 0 \<le> v)))
          \<and> ((\<forall>r\<in>set eigvecs. Re (r ! idx) \<le> 0) \<longrightarrow>
                map (\<lambda>r. \<bar>Re (r ! idx)\<bar>) eigvecs = map (\<lambda>r. - Re (r ! idx)) eigvecs)
          \<and> ((\<forall>r\<in>set eigvecs. 0 \<le> Re (r ! idx)) \<longrightarrow>
                map (\<lambda>r. \<bar>Re (r ! idx)\<bar>) eigvecs = map (\<lambda>r. Re (r ! idx)) eigvecs)))"
proof (intro conjI impI)
  assume "nrows m \<noteq> ncols m"
  then show "ahp_weights eig m = Inl (ComputeError AhpNonSquareMatrix)"
    by (simp add: ahp_weights_def)
next
  assume "nrows m = 0 \<and> ncols m = 0"
  then show "ahp_weights eig m = Inl (ComputeError AhpTooFewIndicators)"
    by (simp add: ahp_weights_def)
next
  assume a: "nrows m = ncols m \<and> 1 \<le> nrows m \<and> eig m = Inr (eigvals, eigvecs) \<and> length eigvals = nrows m"
  define idx where "idx = argmax (map Re eigvals)"
  define vec where "vec = map (\<lambda>r. \<bar>Re (r ! idx)\<bar>) eigvecs"
  have ne: "map Re eigvals \<noteq> []" using a by auto
  have idx: "idx < length eigvals"
    using argmax_props(1)[OF ne] by (simp add: idx_def)
  have mx: "\<forall>i<length eigvals. Re (eigvals ! i) \<le> Re (eigvals ! idx)"
    using argmax_props(2)[OF ne] idx by (simp add: idx_def)
  have unf: "ahp_weights eig m =
     (if sum_list vec = 0 then Inl (ComputeError AhpZeroWeightVector)
      else Inr (map (\<lambda>v. v / sum_list vec) vec, Re (eigvals ! idx),
                (if nrows m > 1 then (Re (eigvals ! idx) - real (nrows m)) / (real (nrows m) - 1) else 0),
                (if ri_table (nrows m) = 0 then 0
                 else (if nrows m > 1 then (Re (eigvals ! idx) - real (nrows m)) / (real (nrows m) - 1) else 0)
                      / ri_table (nrows m))))"
    using ahp_weights_unfold[of m eig eigvals eigvecs] a by (simp add: idx_def vec_def)
  have nonneg: "\<forall>v\<in>set vec. 0 \<le> v" by (auto simp: vec_def)
  have zero: "sum_list vec = 0 \<longrightarrow> ahp_weights eig m = Inl (ComputeError AhpZeroWeightVector)"
    by (simp add: unf)
  have pos: "sum_list vec \<noteq> 0 \<longrightarrow>
       (\<exists>w ci cr. ahp_weights eig m = Inr (w, Re (eigvals ! idx), ci, cr)
          \<and> w = map (\<lambda>r. \<bar>Re (r ! idx)\<bar> / sum_list vec) eigvecs
          \<and> sum_list w = 1 \<and> (\<forall>v\<in>set w. 0 \<le> v))"
  proof
    assume nz: "sum_list vec \<noteq> 0"
    have "0 \<le> sum_list vec" using nonneg by (simp add: sum_list_nonneg)
    then have gt: "0 < sum_list vec" using nz by simp
    have w: "map (\<lambda>v. v / sum_list vec) vec = map (\<lambda>r. \<bar>Re (r ! idx)\<bar> / sum_list vec) eigvecs"
      by (simp add: vec_def comp_def)
    have s1: "sum_list (map (\<lambda>v. v / sum_list vec) vec) = 1"
      using nz by (simp add: sum_list_div)
    have nn: "\<forall>v\<in>set (map (\<lambda>v. v / sum_list vec) vec). 0 \<le> v"
      using nonneg gt by auto
    show "\<exists>w ci cr. ahp_weights eig m = Inr (w, Re (eigvals ! idx), ci, cr)
          \<and> w = map (\<lambda>r. \<bar>Re (r ! idx)\<bar> / sum_list vec) eigvecs
          \<and> sum_list w = 1 \<and> (\<forall>v\<in>set w. 0 \<le> v)"
      using nz s1 nn unfolding unf w[symmetric] by simp
  qed
  show "\<exists>idx<length eigvals.
            (\<forall>i<length eigvals. Re (eigvals ! i) \<le> Re (eigvals ! idx))
          \<and> (sum_list (map (\<lambda>r. \<bar>Re (r ! idx)\<bar>) eigvecs) = 0 \<longrightarrow>
                ahp_weights eig m = Inl (ComputeError AhpZeroWeightVector))
          \<and> (sum_list (map (\<lambda>r. \<bar>Re (r ! idx)\<bar>) eigvecs) \<noteq> 0 \<longrightarrow>
                (\<exists>w ci cr. ahp_weights eig m = Inr (w, Re (eigvals ! idx), ci, cr)
                   \<and> w = map (\<lambda>r. \<bar>Re (r ! idx)\<bar> / sum_list (map (\<lambda>r. \<bar>Re (r ! idx)\<bar>) eigvecs)) eigvecs
                   \<and> sum_list w = 1 \<and> (\<forall>v\<in>set w. 0 \<le> v)))
          \<and> ((\<forall>r\<in>set eigvecs. Re (r ! idx) \<le> 0) \<longrightarrow>
                map (\<lambda>r. \<bar>Re (r ! idx)\<bar>) eigvecs = map (\<lambda>r. - Re (r ! idx)) eigvecs)
          \<and> ((\<forall>r\<in>set eigvecs. 0 \<le> Re (r ! idx)) \<longrightarrow>
                map (\<lambda>r. \<bar>Re (r ! idx)\<bar>) eigvecs = map (\<lambda>r. Re (r ! idx)) eigvecs)"
    apply (rule exI[of _ idx])
    using idx mx zero pos by (auto simp: vec_def)
qed

lemma ex_argmax: "argmax (map Re [3, 0, 0]) = 0"
  by (simp add: argmax_def)

lemma ex_ahp_run: "ahp_weights ex_eig ex_ahp = Inr ([4 / 7, 2 / 7, 1 / 7], 3, 0, 0)"
proof -
  have sq: "nrows ex_ahp = ncols ex_ahp" "1 \<le> nrows ex_ahp" "nrows ex_ahp = 3"
    by (simp_all add: ex_ahp_def nrows_def)
  have e: "ex_eig ex_ahp = Inr ([3, 0, 0],
                [[of_real (- 4 / sqrt 21), of_real (- 2 / sqrt 5), of_real (- 4 / sqrt 17)],
                 [of_real (- 2 / sqrt 21), of_real (1 / sqrt 5), 0],
                 [of_real (- 1 / sqrt 21), 0, of_real (1 / sqrt 17)]])"
    by (simp add: ex_eig_def)
  have s: "sum_list [4 / sqrt 21, 2 / sqrt 21, 1 / sqrt 21] = 7 / sqrt 21"
    by (simp add: field_simps)
  note u = ahp_weights_unfold[of ex_ahp ex_eig, OF sq(1,2) e]
  show ?thesis
    unfolding u ex_argmax sq(3)
    by (simp add: s ri_table_def)
qed

theorem ahp_weights_principal_eigenvector_witness:
  "ahp_weights ex_eig ex_ahp = Inr ([4 / 7, 2 / 7, 1 / 7], 3, 0, 0)
   \<and> ahp_weights ex_eig \<lparr>ncols = 3, rows = [[1, 2, 4], [1 / 2, 1, 2]]\<rparr> = Inl (ComputeError AhpNonSquareMatrix)
   \<and> ahp_weights ex_eig \<lparr>ncols = 0, rows = []\<rparr> = Inl (ComputeError AhpTooFewIndicators)"
proof -
  have e: "ex_eig ex_ahp = Inr ([3, 0, 0],
                [[of_real (- 4 / sqrt 21), of_real (- 2 / sqrt 5), of_real (- 4 / sqrt 17)],
                 [of_real (- 2 / sqrt 21), of_real (1 / sqrt 5), 0],
                 [of_real (- 1 / sqrt 21), 0, of_real (1 / sqrt 17)]])"
    by (simp add: ex_eig_def)
  have sq: "nrows ex_ahp = ncols ex_ahp \<and> 1 \<le> nrows ex_ahp \<and> length [3::complex, 0, 0] = nrows ex_ahp"
    by (simp add: ex_ahp_def nrows_def)
  show ?thesis
    using ex_ahp_run sq e
      ahp_weights_principal_eigenvector[of ex_ahp ex_eig "[3, 0, 0]"
         "[[of_real (- 4 / sqrt 21), of_real (- 2 / sqrt 5), of_real (- 4 / sqrt 17)],
                 [of_real (- 2 / sqrt 21), of_real (1 / sqrt 5), 0],
                 [of_real (- 1 / sqrt 21), 0, of_real (1 / sqrt 17)]]"]
      ahp_weights_principal_eigenvector[of "\<lparr>ncols = 3, rows = [[1, 2, 4], [1 / 2, 1, 2]]\<rparr>" ex_eig]
      ahp_weights_principal_eigenvector[of "\<lparr>ncols = 0, rows = []\<rparr>" ex_eig]
    by (simp add: nrows_def)
qed

section \<open>Facts about the entropy weights\<close>

lemma map2_map_same: "map2 f xs (map g xs) = map (\<lambda>x. f x (g x)) xs"
  by (induction xs) simp_all

lemma entropy_column:
  "1 - (- k * sum_list (map2 (*) (map (\<lambda>v. v / s1) c)
                             (map (\<lambda>p. if p > 0 then ln p else 0) (map (\<lambda>v. v / s1) c))))
     = 1 - (- k * sum_list (map (\<lambda>v. plogp (v / s1)) c))"
proof -
  have "map2 (*) (map (\<lambda>v. v / s1) c) (map (\<lambda>p. if p > 0 then ln p else 0) (map (\<lambda>v. v / s1) c))
      = map plogp (map (\<lambda>v. v / s1) c)"
    by (simp only: map2_map_same plogp_def[abs_def])
  then show ?thesis by (simp only: map_map comp_def)
qed

lemma entropy_weights_unfold:
  "entropy_weights z =
     (if sum_list (map (entropy_d (nrows z)) (cols z)) \<le> 0
      then Inl (ComputeError EntropyAllZeroDiversity)
      else Inr (map (\<lambda>dj. dj / sum_list (map (entropy_d (nrows z)) (cols z)))
                    (map (entropy_d (nrows z)) (cols z))))"
proof -
  define k where "k = (if nrows z > 1 then 1 / ln (real (nrows z)) else 0)"
  define P where "P = (\<lambda>c::real list. map (\<lambda>v. v / (if sum_list c = 0 then 1 else sum_list c)) c)"
  have pij: "map2 (\<lambda>c s. map (\<lambda>v. v / s) c) (cols z)
                (map (\<lambda>s. if s = 0 then 1 else s) (map sum_list (cols z)))
           = map P (cols z)"
    by (simp only: map_map map2_map_same comp_def P_def)
  have e: "map2 (\<lambda>pc lc. - k * sum_list (map2 (*) pc lc)) (map P (cols z))
              (map (map (\<lambda>p. if p > 0 then ln p else 0)) (map P (cols z)))
         = map (\<lambda>pc. - k * sum_list (map2 (*) pc (map (\<lambda>p. if p > 0 then ln p else 0) pc))) (map P (cols z))"
    by (simp only: map2_map_same)
  have pt: "\<And>c. 1 - (- k * sum_list (map2 (*) (P c) (map (\<lambda>p. if p > 0 then ln p else 0) (P c))))
                = entropy_d (nrows z) c"
    unfolding P_def entropy_column
    by (simp only: entropy_d_def Let_def k_def)
  have d: "map (\<lambda>ej. 1 - ej)
             (map (\<lambda>pc. - k * sum_list (map2 (*) pc (map (\<lambda>p. if p > 0 then ln p else 0) pc))) (map P (cols z)))
         = map (entropy_d (nrows z)) (cols z)"
    by (simp only: map_map comp_def pt)
  show ?thesis
    unfolding entropy_weights_def Let_def k_def[symmetric] pij e d
    by (rule refl)
qed

lemma ln_lower: "0 < (x::real) \<Longrightarrow> 1 - 1 / x \<le> ln x"
  using ln_le_minus_one[of "1 / x"] by (simp add: ln_div)

lemma plogp_lower:
  assumes "0 \<le> p" "0 < (n::real)"
  shows "p - 1 / n \<le> plogp p + p * ln n"
proof (cases "0 < p")
  case False
  then have "p = 0" using assms by simp
  then show ?thesis using assms by (simp add: plogp_def)
next
  case True
  have "1 - 1 / (n * p) \<le> ln (n * p)"
    using True assms by (intro ln_lower) simp
  then have "p * (1 - 1 / (n * p)) \<le> p * ln (n * p)"
    using True by (simp add: mult_left_mono)
  moreover have "p * (1 - 1 / (n * p)) = p - 1 / n"
    using True assms by (simp add: field_simps)
  moreover have "p * ln (n * p) = plogp p + p * ln n"
    using True assms by (simp add: plogp_def ln_mult algebra_simps)
  ultimately show ?thesis by simp
qed

lemma gibbs:
  assumes "\<forall>p\<in>set ps. 0 \<le> p" "sum_list ps = 1" "ps \<noteq> []"
  shows "- ln (real (length ps)) \<le> sum_list (map plogp ps)"
proof -
  let ?n = "real (length ps)"
  have n: "0 < ?n" using assms(3) by simp
  have "sum_list (map (\<lambda>p. p - 1 / ?n) ps) \<le> sum_list (map (\<lambda>p. plogp p + p * ln ?n) ps)"
    using assms(1) n by (intro sum_list_mono plogp_lower) auto
  moreover have "sum_list (map (\<lambda>p. p - 1 / ?n) ps) = sum_list ps - ?n * (1 / ?n)"
    by (simp add: sum_list_subtractf sum_list_triv)
  moreover have "sum_list (map (\<lambda>p. plogp p + p * ln ?n) ps) = sum_list (map plogp ps) + sum_list ps * ln ?n"
    by (simp add: sum_list_addf sum_list_mult_const)
  ultimately show ?thesis using assms(2) n by simp
qed

lemma sum_list_nonneg_zero:
  assumes "\<forall>v\<in>set c. (0::real) \<le> v" "sum_list c = 0"
  shows "\<forall>v\<in>set c. v = 0"
  using assms by (simp add: sum_list_nonneg_eq_0_iff)

lemma entropy_d_range:
  assumes "\<forall>v\<in>set c. 0 \<le> v" "length c = n"
  shows "0 \<le> entropy_d n c"
proof (cases "n > 1")
  case False
  then show ?thesis by (simp add: entropy_d_def)
next
  case n1: True
  then have lnn: "0 < ln (real n)" by simp
  have cne: "c \<noteq> []" using n1 assms(2) by auto
  show ?thesis
  proof (cases "sum_list c = 0")
    case True
    then have "\<forall>v\<in>set c. v = 0" using assms(1) by (rule sum_list_nonneg_zero[rotated])
    then have "sum_list (map plogp c) = sum_list (map (\<lambda>v. 0::real) c)"
      by (intro arg_cong[where f = sum_list] map_cong) (simp_all add: plogp_def)
    then have "sum_list (map plogp c) = 0" by simp
    then show ?thesis using True by (simp add: entropy_d_def)
  next
    case False
    have "0 \<le> sum_list c" using assms(1) by (simp add: sum_list_nonneg)
    then have s: "0 < sum_list c" using False by simp
    let ?ps = "map (\<lambda>v. v / sum_list c) c"
    have "\<forall>p\<in>set ?ps. 0 \<le> p" using assms(1) s by auto
    moreover have "sum_list ?ps = 1" using s by (simp add: sum_list_div)
    moreover have "?ps \<noteq> []" using cne by simp
    ultimately have "- ln (real (length ?ps)) \<le> sum_list (map plogp ?ps)"
      by (rule gibbs)
    then have g: "- ln (real n) \<le> sum_list (map (\<lambda>v. plogp (v / sum_list c)) c)"
      using assms(2) by (simp add: comp_def)
    have "- (sum_list (map (\<lambda>v. plogp (v / sum_list c)) c)) / ln (real n) \<le> 1"
      using g lnn by (simp add: field_simps)
    then show ?thesis using False n1 by (simp add: entropy_d_def)
  qed
qed

section \<open>Facts about dictionaries\<close>

lemma update_new_key: "k \<notin> fst ` set al \<Longrightarrow> AList.update k v al = al @ [(k, v)]"
  by (induction al) auto

lemma fold_update_distinct:
  "distinct (map fst (acc @ kvs)) \<Longrightarrow> fold (\<lambda>(k, a) d. AList.update k a d) kvs acc = acc @ kvs"
proof (induction kvs arbitrary: acc)
  case Nil
  then show ?case by simp
next
  case (Cons kv kvs)
  obtain k a where kv: "kv = (k, a)" by (cases kv)
  have new: "k \<notin> fst ` set acc" using Cons.prems by (auto simp: kv)
  have "distinct (map fst ((acc @ [(k, a)]) @ kvs))" using Cons.prems by (simp add: kv)
  then have "fold (\<lambda>(k, a) d. AList.update k a d) kvs (acc @ [(k, a)]) = (acc @ [(k, a)]) @ kvs"
    by (rule Cons.IH)
  then show ?case by (simp add: kv update_new_key[OF new])
qed

lemma dict_of_keys_distinct:
  assumes "distinct keys" "dict_of_keys keys v = Inr d"
  shows "d = zip keys v" "length keys \<le> length v"
proof -
  show len: "length keys \<le> length v"
    using assms(2) by (auto simp: dict_of_keys_def split: if_splits)
  have "map fst (zip keys v) = keys" using len by (simp add: map_fst_zip_take)
  then have "distinct (map fst ([] @ zip keys v))" using assms(1) by simp
  then have "fold (\<lambda>(k, a) d. AList.update k a d) (zip keys v) [] = [] @ zip keys v"
    by (rule fold_update_distinct)
  then show "d = zip keys v"
    using assms(2) len by (auto simp: dict_of_keys_def split: if_splits)
qed

lemma mapE_dict_item_zip:
  assumes "distinct keys" "length keys \<le> length v"
  shows "mapE (dict_item (zip keys v)) keys = Inr (take (length keys) v)"
proof -
  have "\<And>ks. set ks \<subseteq> set keys \<Longrightarrow>
          mapE (dict_item (zip keys v)) ks = Inr (map (\<lambda>k. the (map_of (zip keys v) k)) ks)"
  proof -
    fix ks show "set ks \<subseteq> set keys \<Longrightarrow>
          mapE (dict_item (zip keys v)) ks = Inr (map (\<lambda>k. the (map_of (zip keys v) k)) ks)"
    proof (induction ks)
      case Nil
      then show ?case by simp
    next
      case (Cons k ks)
      then have "k \<in> set keys" by simp
      then have "k \<in> fst ` set (zip keys v)"
        using assms(2) by (simp add: map_fst_zip_take flip: set_map)
      then obtain a where "map_of (zip keys v) k = Some a"
        by (metis domD dom_map_of_conv_image_fst)
      then show ?case using Cons by (simp add: dict_item_def)
    qed
  qed
  then have "mapE (dict_item (zip keys v)) keys = Inr (map (\<lambda>k. the (map_of (zip keys v) k)) keys)"
    by simp
  moreover have "map (\<lambda>k. the (map_of (zip keys v) k)) keys = take (length keys) v"
  proof (rule nth_equalityI)
    show "length (map (\<lambda>k. the (map_of (zip keys v) k)) keys) = length (take (length keys) v)"
      using assms(2) by simp
    fix i assume "i < length (map (\<lambda>k. the (map_of (zip keys v) k)) keys)"
    then have i: "i < length keys" by simp
    have "map_of (zip keys (take (length keys) v)) (keys ! i) = Some (take (length keys) v ! i)"
      using assms i by (intro map_of_zip_nth) simp_all
    moreover have "zip keys (take (length keys) v) = zip keys v"
      by (metis length_zip min.idem take_zip take_all order_refl zip_eq_conv min_def assms(2) length_take)
    ultimately show "map (\<lambda>k. the (map_of (zip keys v) k)) keys ! i = take (length keys) v ! i"
      using i by simp
  qed
  ultimately show ?thesis by simp
qed

lemma fold_update_values:
  "(k, a) \<in> set (fold (\<lambda>(k, a) d. AList.update k a d) kvs acc) \<Longrightarrow> (k, a) \<in> set acc \<or> (k, a) \<in> set kvs"
proof (induction kvs arbitrary: acc)
  case Nil
  then show ?case by simp
next
  case (Cons kv kvs)
  obtain k' a' where kv: "kv = (k', a')" by (cases kv)
  from Cons.prems have "(k, a) \<in> set (AList.update k' a' acc) \<or> (k, a) \<in> set kvs"
    using Cons.IH[of "AList.update k' a' acc"] by (simp add: kv)
  then show ?case using set_update_subset[of k' a' acc] by (auto simp: kv)
qed

lemma dict_of_keys_values:
  assumes "dict_of_keys keys v = Inr d" "(k, a) \<in> set d"
  shows "a \<in> set v"
proof -
  have "(k, a) \<in> set (zip keys v)"
    using assms fold_update_values[of k a "zip keys v" "[]"]
    by (auto simp: dict_of_keys_def split: if_splits)
  then show ?thesis by (rule set_zip_rightD)
qed

lemma dict_values_sum_update:
  "dict_values_sum (AList.update g (dict_get d g 0 + a) d) = dict_values_sum d + a"
proof -
  have "\<And>b. sum_list (map snd (AList.update g (dict_get d g b + a) d)) = sum_list (map snd d) + (if g \<in> fst ` set d then a else b + a)"
  proof -
    fix b show "sum_list (map snd (AList.update g (dict_get d g b + a) d)) = sum_list (map snd d) + (if g \<in> fst ` set d then a else b + a)"
    proof (induction d)
      case Nil
      then show ?case by (simp add: dict_get_def)
    next
      case (Cons kv d)
      obtain k v where kv: "kv = (k, v)" by (cases kv)
      show ?case
      proof (cases "k = g")
        case True
        then show ?thesis by (simp add: kv dict_get_def)
      next
        case False
        have "dict_get ((k, v) # d) g b = dict_get d g b"
          using False by (simp add: dict_get_def)
        then show ?thesis using False Cons by (auto simp: kv)
      qed
    qed
  qed
  from this[of 0] show ?thesis by (simp add: dict_values_sum_def)
qed

lemma build_dimension2_weights_sum_gen:
  "dict_values_sum (fold (\<lambda>ind dim.
             let k = key ind; g = dim_of ind
             in AList.update g (dict_get dim g 0 + dict_get ws k 0) dim) inds acc)
   = dict_values_sum acc + sum_list (map (\<lambda>i. dict_get ws (key i) 0) inds)"
  by (induction inds arbitrary: acc) (simp_all add: Let_def dict_values_sum_update)

lemma build_dimension2_weights_sum:
  "dict_values_sum (build_dimension2_weights inds ws) = sum_list (map (\<lambda>i. dict_get ws (key i) 0) inds)"
  using build_dimension2_weights_sum_gen[of ws inds "[]"]
  by (simp add: build_dimension2_weights_def dict_values_sum_def)

lemma sum_list_if_key:
  assumes "g k0 = (0::real)"
  shows "sum_list (map (\<lambda>i. if key i = k0 then v0 else g (key i)) inds)
       = real (count_list (map key inds) k0) * v0 + sum_list (map (\<lambda>i. g (key i)) inds)"
  using assms by (induction inds) (simp_all add: algebra_simps)

lemma sum_over_indicators:
  assumes "distinct (map fst ws)" "\<forall>k\<in>fst ` set ws. count_list (map key inds) k = 1"
  shows "sum_list (map (\<lambda>i. dict_get ws (key i) 0) inds) = dict_values_sum ws"
  using assms
proof (induction ws)
  case Nil
  then show ?case by (simp add: dict_get_def dict_values_sum_def)
next
  case (Cons kv ws)
  obtain k0 v0 where kv: "kv = (k0, v0)" by (cases kv)
  have notin: "k0 \<notin> fst ` set ws" using Cons.prems(1) by (simp add: kv)
  then have "map_of ws k0 = None"
    by (simp add: map_of_eq_None_iff)
  then have z: "dict_get ws k0 0 = 0"
    by (simp add: dict_get_def)
  have c: "count_list (map key inds) k0 = 1" using Cons.prems(2) by (simp add: kv)
  have eq: "(\<lambda>i. dict_get ((k0, v0) # ws) (key i) 0) = (\<lambda>i. if key i = k0 then v0 else dict_get ws (key i) 0)"
    by (auto simp: dict_get_def)
  have "sum_list (map (\<lambda>i. dict_get ((k0, v0) # ws) (key i) 0) inds)
      = real (count_list (map key inds) k0) * v0 + sum_list (map (\<lambda>i. dict_get ws (key i) 0) inds)"
    unfolding eq by (rule sum_list_if_key[of "\<lambda>k. dict_get ws k 0", OF z])
  also have "\<dots> = v0 + dict_values_sum ws"
    using Cons.IH Cons.prems c by (simp add: kv)
  finally show ?case by (simp add: kv dict_values_sum_def)
qed

section \<open>Facts about the weight vectors\<close>

lemma sum_list_normalised: "s \<noteq> 0 \<Longrightarrow> s = sum_list xs \<Longrightarrow> sum_list (map (\<lambda>v. v / s) xs) = (1::real)"
  by (simp add: sum_list_div)

lemma length_cols [simp]: "length (cols z) = ncols z"
  by (simp add: cols_def)

lemma entropy_weights_sum:
  assumes "entropy_weights z = Inr w"
  shows "sum_list w = 1" "length w = ncols z"
    "0 < sum_list (map (entropy_d (nrows z)) (cols z))"
    "w = map (\<lambda>dj. dj / sum_list (map (entropy_d (nrows z)) (cols z))) (map (entropy_d (nrows z)) (cols z))"
proof -
  let ?d = "map (entropy_d (nrows z)) (cols z)"
  have pos: "0 < sum_list ?d" and w: "w = map (\<lambda>dj. dj / sum_list ?d) ?d"
    using assms by (auto simp: entropy_weights_unfold split: if_splits)
  show "0 < sum_list ?d" by (rule pos)
  show "w = map (\<lambda>dj. dj / sum_list ?d) ?d" by (rule w)
  show "sum_list w = 1" unfolding w using pos by (simp only: sum_list_div) simp
  show "length w = ncols z" by (simp add: w)
qed

lemma cols_entries:
  assumes "wf_matrix z" "c \<in> set (cols z)"
  shows "length c = nrows z" "\<forall>v\<in>set c. \<exists>r\<in>set (rows z). v \<in> set r"
proof -
  obtain j where j: "j < ncols z" "c = col z j"
    using assms(2) by (auto simp: cols_def)
  show "length c = nrows z" by (simp add: j col_def nrows_def)
  show "\<forall>v\<in>set c. \<exists>r\<in>set (rows z). v \<in> set r"
  proof
    fix v assume "v \<in> set c"
    then obtain r where r: "r \<in> set (rows z)" "v = r ! j"
      by (auto simp: j col_def)
    then have "length r = ncols z" using assms(1) by (simp add: wf_matrix_def list_all_iff)
    then have "v \<in> set r" using r j by simp
    then show "\<exists>r\<in>set (rows z). v \<in> set r" using r by blast
  qed
qed

lemma entropy_weights_nonneg:
  assumes "wf_matrix z" "\<forall>r\<in>set (rows z). \<forall>v\<in>set r. 0 \<le> v" "entropy_weights z = Inr w"
  shows "\<forall>v\<in>set w. 0 \<le> v"
proof -
  have d: "\<forall>d\<in>set (map (entropy_d (nrows z)) (cols z)). 0 \<le> d"
  proof
    fix d assume "d \<in> set (map (entropy_d (nrows z)) (cols z))"
    then obtain c where c: "c \<in> set (cols z)" "d = entropy_d (nrows z) c" by auto
    have "\<forall>v\<in>set c. 0 \<le> v" using cols_entries(2)[OF assms(1) c(1)] assms(2) by blast
    then show "0 \<le> d" using cols_entries(1)[OF assms(1) c(1)] c(2) by (simp add: entropy_d_range)
  qed
  show ?thesis
    using d entropy_weights_sum(3,4)[OF assms(3)] by auto
qed

lemma fold_add_nonneg:
  assumes f: "\<And>l. \<forall>v\<in>set (f l). (0::real) \<le> v"
  shows "length acc \<le> p \<Longrightarrow> \<forall>v\<in>set acc. 0 \<le> v \<Longrightarrow>
         length (fold (\<lambda>l acc. map2 (+) acc (f l)) ls acc) \<le> p
         \<and> (\<forall>v\<in>set (fold (\<lambda>l acc. map2 (+) acc (f l)) ls acc). 0 \<le> v)"
proof (induction ls arbitrary: acc)
  case Nil
  then show ?case by simp
next
  case (Cons l ls)
  have len: "length (map2 (+) acc (f l)) \<le> p"
    using Cons.prems(1) by (simp add: min.coboundedI1)
  have nn: "\<forall>v\<in>set (map2 (+) acc (f l)). 0 \<le> v"
  proof
    fix v assume "v \<in> set (map2 (+) acc (f l))"
    then obtain a b where ab: "(a, b) \<in> set (zip acc (f l))" "v = a + b"
      by auto
    then have "a \<in> set acc" "b \<in> set (f l)"
      by (auto dest: set_zip_leftD set_zip_rightD)
    then have "0 \<le> a" "0 \<le> b" using Cons.prems(2) f by auto
    then show "0 \<le> v" using ab by simp
  qed
  show ?case using Cons.IH[OF len nn] by simp
qed

lemma pca_raw_props:
  "length (pca_raw vecs vals lam k p) \<le> p \<and> (\<forall>v\<in>set (pca_raw vecs vals lam k p). 0 \<le> v)"
  unfolding pca_raw_def
  by (rule fold_add_nonneg) simp_all

lemma pca_weights_props:
  assumes "pca_weights eigh thr z = Inr res"
  shows "sum_list (res_weights res) = 1" "\<forall>v\<in>set (res_weights res). 0 \<le> v"
        "length (res_weights res) \<le> ncols z"
proof -
  obtain vals vecs where
    s: "0 < sum_list (pca_raw vecs vals (clipped_desc vals) (res_k res) (ncols z))"
    and w: "res_weights res = map (\<lambda>v. v / sum_list (pca_raw vecs vals (clipped_desc vals) (res_k res) (ncols z)))
                          (pca_raw vecs vals (clipped_desc vals) (res_k res) (ncols z))"
    using pca_weights_Inr[OF assms] by metis
  show "sum_list (res_weights res) = 1" using s by (simp add: w sum_list_div)
  show "\<forall>v\<in>set (res_weights res). 0 \<le> v"
    using s pca_raw_props[of vecs vals "clipped_desc vals" "res_k res" "ncols z"] by (auto simp: w)
  show "length (res_weights res) \<le> ncols z"
    using pca_raw_props[of vecs vals "clipped_desc vals" "res_k res" "ncols z"] by (simp add: w)
qed

lemma ahp_weights_props:
  assumes "ahp_weights eig m = Inr (w, l, ci, cr)"
  shows "sum_list w = 1" "\<forall>v\<in>set w. 0 \<le> v"
        "\<exists>vals vecs. eig m = Inr (vals, vecs) \<and> length w = length vecs" "nrows m = ncols m"
proof -
  have sq: "nrows m = ncols m" "1 \<le> nrows m"
    using assms by (auto simp: ahp_weights_def Let_def split: if_splits)
  then show "nrows m = ncols m" by simp
  obtain vals vecs where e: "eig m = Inr (vals, vecs)"
    using assms sq by (auto simp: ahp_weights_def Let_def bindE_eq_Inr split: if_splits)
  let ?vec = "map (\<lambda>r. \<bar>Re (r ! argmax (map Re vals))\<bar>) vecs"
  note u = ahp_weights_unfold[of m eig, OF sq e]
  have nz: "sum_list ?vec \<noteq> 0" and w: "w = map (\<lambda>v. v / sum_list ?vec) ?vec"
    using assms unfolding u by (auto split: if_splits)
  have "0 \<le> sum_list ?vec" by (intro sum_list_nonneg) auto
  then have pos: "0 < sum_list ?vec" using nz by simp
  show "sum_list w = 1" unfolding w using nz by (simp only: sum_list_div) simp
  show "\<forall>v\<in>set w. 0 \<le> v" unfolding w using pos by auto
  show "\<exists>vals vecs. eig m = Inr (vals, vecs) \<and> length w = length vecs"
    using e by (simp add: w)
qed

section \<open>Facts about shapes and ranges\<close>

lemma negate_col_shape [simp]:
  "ncols (negate_col j x) = ncols x" "nrows (negate_col j x) = nrows x"
  "wf_matrix (negate_col j x) = wf_matrix x"
  by (simp_all add: negate_col_def nrows_def wf_matrix_def list_all_iff)

lemma apply_direction_from_shape:
  "apply_direction_from j ds x = Inr x' \<Longrightarrow>
     ncols x' = ncols x \<and> nrows x' = nrows x \<and> (wf_matrix x \<longrightarrow> wf_matrix x')"
proof (induction j ds x rule: apply_direction_from.induct)
  case (1 j x)
  then show ?case by simp
next
  case (2 j d ds x)
  then show ?case by (auto split: if_splits)
qed

lemma apply_direction_shape:
  "apply_direction x ds = Inr x' \<Longrightarrow>
     ncols x' = ncols x \<and> nrows x' = nrows x \<and> (wf_matrix x \<longrightarrow> wf_matrix x')"
  unfolding apply_direction_def by (rule apply_direction_from_shape)

lemma bc_mat_ncols: "length v = ncols x \<Longrightarrow> bc_mat f x v = Inr y \<Longrightarrow> ncols y = ncols x \<and> nrows y = nrows x"
  by (auto simp: bc_mat_def nrows_def)

lemma minmax_fit_props:
  assumes "minmax_fit x = Inr (a, b)"
  shows "length a = ncols x" "length b = ncols x" "0 < nrows x"
    "\<forall>j<ncols x. a ! j = Min (set (col x j)) \<and> b ! j = Max (set (col x j))"
proof -
  have n: "0 < nrows x"
    and a: "a = map (\<lambda>c. fold min (tl c) (hd c)) (cols x)"
    and b: "b = map (\<lambda>c. fold max (tl c) (hd c)) (cols x)"
    using assms by (auto simp: minmax_fit_def split: if_splits)
  show "0 < nrows x" by (rule n)
  show "length a = ncols x" "length b = ncols x" by (simp_all add: a b)
  show "\<forall>j<ncols x. a ! j = Min (set (col x j)) \<and> b ! j = Max (set (col x j))"
  proof (intro allI impI)
    fix j assume j: "j < ncols x"
    have ne: "col x j \<noteq> []" using n by (simp add: col_def nrows_def)
    then obtain y ys where c: "col x j = y # ys" by (cases "col x j") auto
    show "a ! j = Min (set (col x j)) \<and> b ! j = Max (set (col x j))"
      using j Min.set_eq_fold[of y ys] Max.set_eq_fold[of y ys]
      by (simp add: a b cols_def c)
  qed
qed

lemma minmax_transform_ncols:
  assumes "length a = ncols x" "length b = ncols x" "minmax_transform x a b = Inr z"
  shows "ncols z = ncols x" "nrows z = nrows x"
proof -
  obtain num where n: "bc_mat (-) x a = Inr num" and z: "bc_mat (/) num (map2 (-) b a) = Inr z"
    using assms by (auto simp: minmax_transform_def bc_vec_def bindE_eq_Inr split: if_splits)
  have "ncols num = ncols x \<and> nrows num = nrows x" using bc_mat_ncols[OF assms(1) n] .
  moreover have "ncols z = ncols num \<and> nrows z = nrows num"
    using bc_mat_ncols[OF _ z] assms calculation by simp
  ultimately show "ncols z = ncols x" "nrows z = nrows x" by simp_all
qed

lemma zscore_transform_ncols:
  assumes "length a = ncols x" "length b = ncols x" "zscore_transform x a b = Inr z"
  shows "ncols z = ncols x" "nrows z = nrows x"
proof -
  obtain num where n: "bc_mat (-) x a = Inr num" and z: "bc_mat (/) num b = Inr z"
    using assms by (auto simp: zscore_transform_def bindE_eq_Inr split: if_splits)
  have "ncols num = ncols x \<and> nrows num = nrows x" using bc_mat_ncols[OF assms(1) n] .
  moreover have "ncols z = ncols num \<and> nrows z = nrows num"
    using bc_mat_ncols[OF _ z] assms calculation by simp
  ultimately show "ncols z = ncols x" "nrows z = nrows x" by simp_all
qed

lemma zscore_fit_lengths:
  assumes "zscore_fit x = Inr (a, b)"
  shows "length a = ncols x" "length b = ncols x"
  using assms by (auto simp: zscore_fit_def split: if_splits)

lemma minmax_fit_transform_range:
  assumes wf: "wf_matrix x" and fit: "minmax_fit x = Inr (a, b)" and tr: "minmax_transform x a b = Inr z"
  shows "wf_matrix z" "\<forall>r\<in>set (rows z). \<forall>v\<in>set r. 0 \<le> v \<and> v \<le> 1"
proof -
  note p = minmax_fit_props[OF fit]
  have nd: "\<not> (\<exists>j<ncols x. b ! j = a ! j)"
    and z: "z = \<lparr>ncols = ncols x,
                 rows = map (\<lambda>r. map (\<lambda>j. (r ! j - a ! j) / (b ! j - a ! j)) [0..<ncols x]) (rows x)\<rparr>"
    using tr unfolding minmax_transform_wf[OF wf p(1,2)] by (auto split: if_splits)
  show "wf_matrix z" by (simp add: z wf_matrix_def list_all_iff)
  show "\<forall>r\<in>set (rows z). \<forall>v\<in>set r. 0 \<le> v \<and> v \<le> 1"
  proof (intro ballI)
    fix r' v assume "r' \<in> set (rows z)" "v \<in> set r'"
    then obtain r j where r: "r \<in> set (rows x)" and j: "j < ncols x"
      and v: "v = (r ! j - a ! j) / (b ! j - a ! j)"
      by (auto simp: z)
    have mem: "r ! j \<in> set (col x j)" using r by (auto simp: col_def)
    have fin: "finite (set (col x j))" by simp
    have lo: "a ! j \<le> r ! j" using p(4) j mem by (simp add: Min_le)
    have hi: "r ! j \<le> b ! j" using p(4) j mem by (simp add: Max_ge)
    have "a ! j \<noteq> b ! j" using nd j by auto
    then have lt: "a ! j < b ! j" using lo hi by simp
    show "0 \<le> v \<and> v \<le> 1" using lo hi lt by (simp add: v)
  qed
qed

section \<open>Facts about the trainer\<close>

lemma mapE_length: "mapE f xs = Inr ys \<Longrightarrow> length ys = length xs"
  by (induction xs arbitrary: ys) (auto split: sum.splits)

lemma compute_scores_ncols:
  assumes "compute_scores z ks inds ws = Inr (sr, ss)"
  shows "ncols z = length ks"
proof -
  obtain w where w: "mapE (dict_item ws) ks = Inr w" and m: "matvec z w = Inr sr"
    using assms by (auto simp: compute_scores_def bindE_eq_Inr Let_def)
  have "ncols z = length w" using m by (auto simp: matvec_def split: if_splits)
  then show ?thesis using mapE_length[OF w] by simp
qed

lemma mapE_np_min:
  "mapE (\<lambda>(g, v). bindE (np_min v) (\<lambda>m. Inr (g, m))) ss =
     (if list_ex (\<lambda>(g, v). v = []) ss then Inl ValueError
      else Inr (map (\<lambda>(g, v). (g, Min (set v))) ss))"
proof (induction ss)
  case Nil
  then show ?case by simp
next
  case (Cons gv ss)
  obtain g v where gv: "gv = (g, v)" by (cases gv)
  show ?case
  proof (cases "v = []")
    case True
    then show ?thesis by (simp add: gv np_min_def)
  next
    case False
    then have "np_min v = Inr (Min (set v))" by (simp add: np_min_eq_Inr)
    then show ?thesis using Cons False by (simp add: gv)
  qed
qed

lemma mapE_np_max:
  "mapE (\<lambda>(g, v). bindE (np_max v) (\<lambda>m. Inr (g, m))) ss =
     (if list_ex (\<lambda>(g, v). v = []) ss then Inl ValueError
      else Inr (map (\<lambda>(g, v). (g, Max (set v))) ss))"
proof (induction ss)
  case Nil
  then show ?case by simp
next
  case (Cons gv ss)
  obtain g v where gv: "gv = (g, v)" by (cases gv)
  show ?case
  proof (cases "v = []")
    case True
    then show ?thesis by (simp add: gv np_max_def)
  next
    case False
    then have "np_max v = Inr (Max (set v))" by (simp add: np_max_eq_Inr)
    then show ?thesis using Cons False by (simp add: gv)
  qed
qed

lemma train_tail:
  fixes sr :: "real list" and ss :: "real list dict"
  shows
  "bindE (np_min sr) (\<lambda>score_min.
   bindE (np_max sr) (\<lambda>score_max.
   bindE (mapE (\<lambda>(g, v). bindE (np_min v) (\<lambda>m. Inr (g, m))) ss) (\<lambda>sub_min.
   bindE (mapE (\<lambda>(g, v). bindE (np_max v) (\<lambda>m. Inr (g, m))) ss) (\<lambda>sub_max.
       Inr (\<lparr>model_id = new_id, model_name = name, createdAt = now, model_method = meth,
             indicatorKeys = indicator_keys, weights = ws, dimension2Weights = dw,
             standardization_of = std,
             scaling = Some \<lparr>scoreMin = Some score_min, scoreMax = Some score_max,
                              subScoreMin = Some sub_min, subScoreMax = Some sub_max\<rparr>,
             trainedOnDatasetIds = tids,
             pca = pinfo, ahp = ainfo\<rparr>,
            z, sr, ss))))) =
   (if sr = [] \<or> list_ex (\<lambda>(g, v). v = []) ss then Inl ValueError
    else Inr (\<lparr>model_id = new_id, model_name = name, createdAt = now, model_method = meth,
             indicatorKeys = indicator_keys, weights = ws, dimension2Weights = dw,
             standardization_of = std,
             scaling = Some \<lparr>scoreMin = Some (Min (set sr)), scoreMax = Some (Max (set sr)),
                       subScoreMin = Some (map (\<lambda>(g, v). (g, Min (set v))) ss),
                       subScoreMax = Some (map (\<lambda>(g, v). (g, Max (set v))) ss)\<rparr>,
             trainedOnDatasetIds = tids,
             pca = pinfo, ahp = ainfo\<rparr>,
            z, sr, ss))"
proof (cases "sr = []")
  case True
  then show ?thesis by (simp add: np_min_def)
next
  case False
  then have "np_min sr = Inr (Min (set sr))" "np_max sr = Inr (Max (set sr))"
    by (simp_all add: np_min_eq_Inr np_max_eq_Inr)
  then show ?thesis using False
    by (simp add: mapE_np_min mapE_np_max)
qed

lemma train_weight_model_locals_unfold:
  "train_weight_model_locals eigh eig new_id now meth name indicator_keys indicators x_train
       directions tids ahp_matrix thr =
     bindE (apply_direction x_train directions) (\<lambda>x.
     bindE (train_branch eigh eig meth ahp_matrix thr indicator_keys x)
       (\<lambda>(z, w_vec, std, pinfo, ainfo).
     bindE (dict_of_keys indicator_keys w_vec) (\<lambda>ws.
     bindE (compute_scores z indicator_keys indicators ws) (\<lambda>(sr, ss).
       if sr = [] \<or> list_ex (\<lambda>(g, v). v = []) ss then Inl ValueError
       else Inr (trained_record new_id now meth name indicator_keys indicators tids ws std pinfo ainfo sr ss,
                 z, sr, ss)))))"
  unfolding train_weight_model_locals_def Let_def train_tail train_branch_def[symmetric]
    trained_record_def
  by (rule refl)

lemma train_locals_Inr:
  assumes "train_weight_model_locals eigh eig new_id now meth name indicator_keys indicators x_train
       directions tids ahp_matrix thr = Inr (model, z, sr, ss)"
  obtains x w_vec std pinfo ainfo ws where
    "apply_direction x_train directions = Inr x"
    "train_branch eigh eig meth ahp_matrix thr indicator_keys x = Inr (z, w_vec, std, pinfo, ainfo)"
    "dict_of_keys indicator_keys w_vec = Inr ws"
    "compute_scores z indicator_keys indicators ws = Inr (sr, ss)"
    "sr \<noteq> []" "\<not> list_ex (\<lambda>(g, v). v = []) ss"
    "model = trained_record new_id now meth name indicator_keys indicators tids ws std pinfo ainfo sr ss"
  using assms unfolding train_weight_model_locals_unfold
  by (auto simp: bindE_eq_Inr split: if_splits)

lemma train_weight_model_eq_Inr:
  "train_weight_model eigh eig new_id now meth name indicator_keys indicators x_train
       directions tids ahp_matrix thr = Inr model \<longleftrightarrow>
   (\<exists>z sr ss. train_weight_model_locals eigh eig new_id now meth name indicator_keys indicators x_train
       directions tids ahp_matrix thr = Inr (model, z, sr, ss))"
  by (auto simp: train_weight_model_def bindE_eq_Inr)

lemma train_entropy_Inr:
  assumes "train_entropy ks x = Inr (z, w, std, pinfo, ainfo)"
  obtains a b da db where
    "minmax_fit x = Inr (a, b)" "minmax_transform x a b = Inr z" "entropy_weights z = Inr w"
    "dict_of_keys ks a = Inr da" "dict_of_keys ks b = Inr db" "std = MinMax da db"
  using assms by (auto simp: train_entropy_def bindE_eq_Inr)

lemma train_pca_Inr:
  assumes "train_pca eigh thr ks x = Inr (z, w, std, pinfo, ainfo)"
  obtains a b da db res where
    "zscore_fit x = Inr (a, b)" "zscore_transform x a b = Inr z" "pca_weights eigh thr z = Inr res"
    "w = res_weights res"
    "dict_of_keys ks a = Inr da" "dict_of_keys ks b = Inr db" "std = ZScore da db"
  using assms by (auto simp: train_pca_def bindE_eq_Inr)

lemma train_ahp_Inr:
  assumes "train_ahp eig am ks x = Inr (z, w, std, pinfo, ainfo)"
  obtains a b da db m mat l ci cr where
    "am = Some mat" "np_array2 mat = Inr m"
    "zscore_fit x = Inr (a, b)" "zscore_transform x a b = Inr z" "ahp_weights eig m = Inr (w, l, ci, cr)"
    "dict_of_keys ks a = Inr da" "dict_of_keys ks b = Inr db" "std = ZScore da db"
  using assms by (auto simp: train_ahp_def bindE_eq_Inr split: option.splits)

lemma train_branch_cases:
  assumes "train_branch eigh eig meth am thr ks x = Inr r"
  obtains (entropy) "meth = ''entropy''" "train_entropy ks x = Inr r"
        | (pca) "meth = ''pca''" "train_pca eigh thr ks x = Inr r"
        | (ahp) "meth = ''ahp''" "train_ahp eig am ks x = Inr r"
  using assms by (auto simp: train_branch_def split: if_splits)

lemma train_branch_weights:
  assumes "train_branch eigh eig meth am thr ks x = Inr (z, w, std, pinfo, ainfo)"
  shows "sum_list w = 1" "wf_matrix x \<longrightarrow> (\<forall>v\<in>set w. 0 \<le> v)" "ncols z = ncols x"
        "meth \<noteq> ''ahp'' \<longrightarrow> length w \<le> ncols x"
proof -
  from assms have "sum_list w = 1 \<and> (wf_matrix x \<longrightarrow> (\<forall>v\<in>set w. 0 \<le> v)) \<and> ncols z = ncols x
        \<and> (meth \<noteq> ''ahp'' \<longrightarrow> length w \<le> ncols x)"
  proof (cases rule: train_branch_cases)
    case entropy
    from entropy(2) obtain a b where fit: "minmax_fit x = Inr (a, b)"
      and tr: "minmax_transform x a b = Inr z" and ew: "entropy_weights z = Inr w"
      by (rule train_entropy_Inr)
    note p = minmax_fit_props[OF fit]
    have nc: "ncols z = ncols x" using minmax_transform_ncols[OF p(1,2) tr] by simp
    have "wf_matrix x \<longrightarrow> (\<forall>v\<in>set w. 0 \<le> v)"
    proof
      assume wf: "wf_matrix x"
      have "wf_matrix z" "\<forall>r\<in>set (rows z). \<forall>v\<in>set r. 0 \<le> v"
        using minmax_fit_transform_range[OF wf fit tr] by auto
      then show "\<forall>v\<in>set w. 0 \<le> v" using ew by (rule entropy_weights_nonneg)
    qed
    then show ?thesis using entropy_weights_sum(1,2)[OF ew] nc by simp
  next
    case pca
    from pca(2) obtain a b res where fit: "zscore_fit x = Inr (a, b)"
      and tr: "zscore_transform x a b = Inr z" and pw: "pca_weights eigh thr z = Inr res"
      and w: "w = res_weights res"
      by (rule train_pca_Inr)
    have nc: "ncols z = ncols x"
      using zscore_transform_ncols[OF zscore_fit_lengths[OF fit] tr] by simp
    show ?thesis using pca_weights_props[OF pw] nc by (simp add: w)
  next
    case ahp
    from ahp(2) obtain a b m l ci cr where fit: "zscore_fit x = Inr (a, b)"
      and tr: "zscore_transform x a b = Inr z" and aw: "ahp_weights eig m = Inr (w, l, ci, cr)"
      by (rule train_ahp_Inr)
    have nc: "ncols z = ncols x"
      using zscore_transform_ncols[OF zscore_fit_lengths[OF fit] tr] by simp
    show ?thesis using ahp_weights_props(1,2)[OF aw] nc ahp(1) by simp
  qed
  then show "sum_list w = 1" "wf_matrix x \<longrightarrow> (\<forall>v\<in>set w. 0 \<le> v)" "ncols z = ncols x"
        "meth \<noteq> ''ahp'' \<longrightarrow> length w \<le> ncols x"
    by simp_all
qed

section \<open>Facts about applying a model to its training matrix\<close>

lemma stored_dict_roundtrip:
  assumes "distinct ks" "dict_of_keys ks v = Inr d" "length v = length ks"
  shows "mapE (dict_item d) ks = Inr v"
proof -
  have d: "d = zip ks v" and len: "length ks \<le> length v"
    using dict_of_keys_distinct[OF assms(1,2)] by simp_all
  show ?thesis
    using mapE_dict_item_zip[OF assms(1) len] assms(3) by (simp add: d)
qed

lemma stored_params_of_branch:
  assumes br: "train_branch eigh eig meth am thr ks x = Inr (z, w, std, pinfo, ainfo)"
      and d: "distinct ks" and len: "length ks = ncols x"
  shows "stored_params std ks x = Inr z"
  using br
proof (cases rule: train_branch_cases)
  case entropy
  from entropy(2) obtain a b da db where fit: "minmax_fit x = Inr (a, b)"
    and tr: "minmax_transform x a b = Inr z"
    and da: "dict_of_keys ks a = Inr da" and db: "dict_of_keys ks b = Inr db"
    and std: "std = MinMax da db"
    by (rule train_entropy_Inr)
  note p = minmax_fit_props[OF fit]
  have "mapE (dict_item da) ks = Inr a" "mapE (dict_item db) ks = Inr b"
    using stored_dict_roundtrip[OF d da] stored_dict_roundtrip[OF d db] p len by simp_all
  then show ?thesis by (simp add: std stored_params_def tr)
next
  case pca
  from pca(2) obtain a b da db where fit: "zscore_fit x = Inr (a, b)"
    and tr: "zscore_transform x a b = Inr z"
    and da: "dict_of_keys ks a = Inr da" and db: "dict_of_keys ks b = Inr db"
    and std: "std = ZScore da db"
    by (rule train_pca_Inr)
  note p = zscore_fit_lengths[OF fit]
  have "mapE (dict_item da) ks = Inr a" "mapE (dict_item db) ks = Inr b"
    using stored_dict_roundtrip[OF d da] stored_dict_roundtrip[OF d db] p len by simp_all
  then show ?thesis by (simp add: std stored_params_def tr)
next
  case ahp
  from ahp(2) obtain a b da db where fit: "zscore_fit x = Inr (a, b)"
    and tr: "zscore_transform x a b = Inr z"
    and da: "dict_of_keys ks a = Inr da" and db: "dict_of_keys ks b = Inr db"
    and std: "std = ZScore da db"
    by (rule train_ahp_Inr)
  note p = zscore_fit_lengths[OF fit]
  have "mapE (dict_item da) ks = Inr a" "mapE (dict_item db) ks = Inr b"
    using stored_dict_roundtrip[OF d da] stored_dict_roundtrip[OF d db] p len by simp_all
  then show ?thesis by (simp add: std stored_params_def tr)
qed

lemma map_of_map_bound:
  "map_of (map (\<lambda>(g, v). (g, F v)) ss) g = map_option F (map_of ss g)"
  by (induction ss) auto

lemma own_bounds_sub_index:
  assumes "distinct (map fst ss)"
  shows "map (\<lambda>(g, v). (g, scale_0_100 v
            (stored_or (map_of (map (\<lambda>(g, v). (g, Min (set v))) ss) g) (Min (set v)))
            (stored_or (map_of (map (\<lambda>(g, v). (g, Max (set v))) ss) g) (Max (set v))))) ss
       = map (\<lambda>(g, v). (g, scale_0_100 v (Min (set v)) (Max (set v)))) ss"
proof (rule map_cong[OF refl])
  fix gv assume gv: "gv \<in> set ss"
  obtain g v where e: "gv = (g, v)" by (cases gv)
  have "map_of ss g = Some v" using assms gv by (simp add: e)
  then show "(case gv of (g, v) \<Rightarrow> (g, scale_0_100 v
            (stored_or (map_of (map (\<lambda>(g, v). (g, Min (set v))) ss) g) (Min (set v)))
            (stored_or (map_of (map (\<lambda>(g, v). (g, Max (set v))) ss) g) (Max (set v)))))
       = (case gv of (g, v) \<Rightarrow> (g, scale_0_100 v (Min (set v)) (Max (set v))))"
    by (simp add: e map_of_map_bound stored_or_def)
qed

lemma trained_record_simps [simp]:
  "indicatorKeys (trained_record nid now meth name ks inds tids ws std pinfo ainfo sr ss) = ks"
  "weights (trained_record nid now meth name ks inds tids ws std pinfo ainfo sr ss) = ws"
  "dimension2Weights (trained_record nid now meth name ks inds tids ws std pinfo ainfo sr ss)
     = build_dimension2_weights inds ws"
  "standardization_of (trained_record nid now meth name ks inds tids ws std pinfo ainfo sr ss) = std"
  "model_scaling (trained_record nid now meth name ks inds tids ws std pinfo ainfo sr ss)
     = \<lparr>scoreMin = Some (Min (set sr)), scoreMax = Some (Max (set sr)),
        subScoreMin = Some (map (\<lambda>(g, v). (g, Min (set v))) ss),
        subScoreMax = Some (map (\<lambda>(g, v). (g, Max (set v))) ss)\<rparr>"
  by (simp_all add: trained_record_def model_scaling_def)

lemma train_then_apply:
  assumes tr: "train_weight_model_locals eigh eig nid now meth name ks inds x_train dirs tids am thr
                 = Inr (model, z, sr, ss)"
      and d: "distinct ks"
  shows "apply_weight_model_locals model inds x_train dirs
           = Inr (z, sr, ss, map (\<lambda>(g, v). (g, scale_0_100 v (Min (set v)) (Max (set v)))) ss,
                  scale_0_100 sr (Min (set sr)) (Max (set sr)))"
proof -
  from tr obtain x w_vec std pinfo ainfo ws where
    dir: "apply_direction x_train dirs = Inr x"
    and br: "train_branch eigh eig meth am thr ks x = Inr (z, w_vec, std, pinfo, ainfo)"
    and ws: "dict_of_keys ks w_vec = Inr ws"
    and cs: "compute_scores z ks inds ws = Inr (sr, ss)"
    and ne: "sr \<noteq> []" "\<not> list_ex (\<lambda>(g, v). v = []) ss"
    and model: "model = trained_record nid now meth name ks inds tids ws std pinfo ainfo sr ss"
    by (rule train_locals_Inr)
  have len: "length ks = ncols x"
    using compute_scores_ncols[OF cs] train_branch_weights(3)[OF br] by simp
  have sp: "stored_params std ks x = Inr z"
    using stored_params_of_branch[OF br d len] .
  have dist: "distinct (map fst ss)" using compute_scores_distinct[OF cs] .
  show ?thesis
    unfolding apply_locals_Inr_iff model trained_record_simps
    using dir sp cs ne own_bounds_sub_index[OF dist]
    by (simp add: or_empty_def stored_or_def)
qed

section \<open>The entropy example, step by step\<close>

lemma ex_dir: "apply_direction ex_train [''positive'', ''positive''] = Inr ex_train"
  by code_simp

lemma ex_fit: "minmax_fit ex_train = Inr ([10, 1], [30, 3])"
  by code_simp

lemma ex_tr: "minmax_transform ex_train [10, 1] [30, 3] = Inr ex_scaled"
  by code_simp

lemma ex_cols: "cols ex_scaled = [[0, 1 / 2, 1], [0, 1 / 2, 1]]" "nrows ex_scaled = 3"
  by code_simp+

lemma ex_plogp: "plogp 0 = 0" "plogp (1 / 3) = - (ln 3 / 3)" "plogp (2 / 3) = 2 / 3 * (ln 2 - ln 3)"
  by (simp_all add: plogp_def ln_div)

lemma ex_d: "entropy_d 3 [0, 1 / 2, 1] = 2 / 3 * ln 2 / ln 3"
proof -
  have l3: "ln (3::real) \<noteq> 0" by simp
  have "entropy_d 3 [0, 1 / 2, 1] = 1 + (plogp 0 + plogp (1 / 3) + plogp (2 / 3)) / ln 3"
    by (simp add: entropy_d_def Let_def)
  also have "\<dots> = 2 / 3 * ln 2 / ln 3"
    unfolding ex_plogp using l3 by (simp add: field_simps)
  finally show ?thesis .
qed

lemma ex_d_pos: "0 < 2 / 3 * ln 2 / ln (3::real)"
  by simp

lemma ex_ent: "entropy_weights ex_scaled = Inr [1 / 2, 1 / 2]"
proof -
  have "ln (2::real) \<noteq> 0" "ln (3::real) \<noteq> 0" by simp_all
  then show ?thesis
    unfolding entropy_weights_unfold ex_cols
    using ex_d_pos by (simp add: ex_d field_simps)
qed

lemma ex_branch:
  "train_branch eigh eig ''entropy'' am thr [''a'', ''b''] ex_train
     = Inr (ex_scaled, [1 / 2, 1 / 2], MinMax [(''a'', 10), (''b'', 1)] [(''a'', 30), (''b'', 3)], None, None)"
proof -
  have "dict_of_keys [''a'', ''b''] [10, 1] = Inr [(''a'', 10), (''b'', 1)]"
       "dict_of_keys [''a'', ''b''] [30, 3] = Inr [(''a'', 30), (''b'', 3)]"
    by code_simp+
  then show ?thesis
    by (simp add: train_branch_def train_entropy_def ex_fit ex_tr ex_ent)
qed

lemma ex_ws: "dict_of_keys [''a'', ''b''] [1 / 2, 1 / 2] = Inr [(''a'', 1 / 2), (''b'', 1 / 2)]"
  by code_simp

lemma ex_scores:
  "compute_scores ex_scaled [''a'', ''b''] inds [(''a'', 1 / 2), (''b'', 1 / 2)]
     = Inr ([0, 1 / 2, 1],
            sub_scores_of ex_scaled [1 / 2, 1 / 2] (dims_of (key_to_dim_of inds) [''a'', ''b'']))"
proof -
  have "mapE (dict_item [(''a'', 1 / 2 :: real), (''b'', 1 / 2)]) [''a'', ''b''] = Inr [1 / 2, 1 / 2]"
    by code_simp
  moreover have "matvec ex_scaled [1 / 2, 1 / 2] = Inr [0, 1 / 2, 1]"
    by code_simp
  ultimately show ?thesis by (simp add: compute_scores_def)
qed

lemma ex_train_run:
  "train_weight_model_locals eigh eig nid now ''entropy'' name [''a'', ''b''] inds ex_train
       [''positive'', ''positive''] tids am thr
     = Inr (trained_record nid now ''entropy'' name [''a'', ''b''] inds tids
              [(''a'', 1 / 2), (''b'', 1 / 2)]
              (MinMax [(''a'', 10), (''b'', 1)] [(''a'', 30), (''b'', 3)]) None None
              [0, 1 / 2, 1]
              (sub_scores_of ex_scaled [1 / 2, 1 / 2] (dims_of (key_to_dim_of inds) [''a'', ''b''])),
            ex_scaled, [0, 1 / 2, 1],
            sub_scores_of ex_scaled [1 / 2, 1 / 2] (dims_of (key_to_dim_of inds) [''a'', ''b'']))"
proof -
  let ?ss = "sub_scores_of ex_scaled [1 / 2, 1 / 2] (dims_of (key_to_dim_of inds) [''a'', ''b''])"
  have "list_all (\<lambda>(g, v). length v = nrows ex_scaled) ?ss"
    using compute_scores_lengths(2)[OF ex_scores] .
  then have "\<not> list_ex (\<lambda>(g, v). v = []) ?ss"
    by (auto simp: list_all_iff list_ex_iff ex_cols)
  then show ?thesis
    unfolding train_weight_model_locals_unfold
    by (simp add: ex_dir ex_branch ex_ws ex_scores)
qed

section \<open>The end-to-end entropy example (C8)\<close>

text \<open>
  C8. Training an entropy model on the matrix \<open>[[10, 1], [20, 2], [30, 3]]\<close> with both
  directions positive (indicator keys \<open>a\<close> and \<open>b\<close>, any list of indicator records)
  succeeds with the weights \<open>1/2\<close> and \<open>1/2\<close> and the frozen bounds \<open>scoreMin = 0\<close> and
  \<open>scoreMax = 1\<close>; applying the model to the same matrix gives the raw scores
  \<open>0, 1/2, 1\<close>, strictly increasing with the row index, and scaling them with the frozen
  bounds gives the index values \<open>0, 50, 100\<close>.
\<close>

theorem entropy_end_to_end_example:
  "\<exists>model z ss si.
      train_weight_model_locals eigh eig nid now ''entropy'' name [''a'', ''b''] inds ex_train
          [''positive'', ''positive''] tids am thr = Inr (model, z, [0, 1 / 2, 1], ss)
    \<and> train_weight_model eigh eig nid now ''entropy'' name [''a'', ''b''] inds ex_train
          [''positive'', ''positive''] tids am thr = Inr model
    \<and> weights model = [(''a'', 1 / 2), (''b'', 1 / 2)]
    \<and> scoreMin (model_scaling model) = Some 0 \<and> scoreMax (model_scaling model) = Some 1
    \<and> apply_weight_model model inds ex_train [''positive'', ''positive''] = Inr (z, [0, 1 / 2, 1], ss, si)
    \<and> sorted_wrt (<) [0, 1 / 2, 1 :: real]
    \<and> apply_weight_model_locals model inds ex_train [''positive'', ''positive'']
          = Inr (z, [0, 1 / 2, 1], ss, si, [0, 50, 100])
    \<and> scale_0_100 [0, 1 / 2, 1] 0 1 = [0, 50, 100]"
proof -
  let ?ss = "sub_scores_of ex_scaled [1 / 2, 1 / 2] (dims_of (key_to_dim_of inds) [''a'', ''b''])"
  let ?m = "trained_record nid now ''entropy'' name [''a'', ''b''] inds tids
              [(''a'', 1 / 2), (''b'', 1 / 2)]
              (MinMax [(''a'', 10), (''b'', 1)] [(''a'', 30), (''b'', 3)]) None None
              [0, 1 / 2, 1] ?ss"
  let ?si = "map (\<lambda>(g, v). (g, scale_0_100 v (Min (set v)) (Max (set v)))) ?ss"
  have run: "train_weight_model_locals eigh eig nid now ''entropy'' name [''a'', ''b''] inds ex_train
          [''positive'', ''positive''] tids am thr = Inr (?m, ex_scaled, [0, 1 / 2, 1], ?ss)"
    by (rule ex_train_run)
  have d: "distinct [''a'', ''b'']" by simp
  have sc: "scale_0_100 [0, 1 / 2, 1] 0 1 = [0, 50, 100]"
    by (simp add: scale_0_100_def)
  have mm: "Min (set [0, 1 / 2, 1 :: real]) = 0" "Max (set [0, 1 / 2, 1 :: real]) = 1"
    by simp_all
  have ap: "apply_weight_model_locals ?m inds ex_train [''positive'', ''positive'']
          = Inr (ex_scaled, [0, 1 / 2, 1], ?ss, ?si, [0, 50, 100])"
    using train_then_apply[OF run d] unfolding mm sc .
  have ap': "apply_weight_model ?m inds ex_train [''positive'', ''positive'']
          = Inr (ex_scaled, [0, 1 / 2, 1], ?ss, ?si)"
    using ap by (auto simp: apply_weight_model_eq_Inr)
  have tw: "train_weight_model eigh eig nid now ''entropy'' name [''a'', ''b''] inds ex_train
          [''positive'', ''positive''] tids am thr = Inr ?m"
    using run by (auto simp: train_weight_model_eq_Inr)
  show ?thesis
    apply (rule exI[of _ ?m], rule exI[of _ ex_scaled], rule exI[of _ ?ss], rule exI[of _ ?si])
    using run tw ap ap' sc by (simp add: mm)
qed

section \<open>The example models, step by step\<close>

lemma ex_entropy_record:
  "trained_record ''id'' ''t'' ''entropy'' ''n'' [''a'', ''b''] ex_indicators []
              [(''a'', 1 / 2), (''b'', 1 / 2)]
              (MinMax [(''a'', 10), (''b'', 1)] [(''a'', 30), (''b'', 3)]) None None
              [0, 1 / 2, 1] [(''g1'', [0, 1 / 2, 1]), (''default'', [0, 1 / 2, 1])]
   = ex_entropy_model"
  "sub_scores_of ex_scaled [1 / 2, 1 / 2] (dims_of (key_to_dim_of ex_indicators) [''a'', ''b''])
   = [(''g1'', [0, 1 / 2, 1]), (''default'', [0, 1 / 2, 1])]"
  by code_simp+

lemma ex_entropy_run:
  "train_weight_model_locals eigh eig ''id'' ''t'' ''entropy'' ''n'' [''a'', ''b''] ex_indicators ex_train
       [''positive'', ''positive''] [] am thr
     = Inr (ex_entropy_model, ex_scaled, [0, 1 / 2, 1],
            [(''g1'', [0, 1 / 2, 1]), (''default'', [0, 1 / 2, 1])])"
  using ex_train_run[of eigh eig "''id''" "''t''" "''n''" ex_indicators "[]" am thr]
  unfolding ex_entropy_record .

lemma dup_branch:
  "train_branch eigh eig ''entropy'' am thr [''a'', ''a''] ex_train
     = Inr (ex_scaled, [1 / 2, 1 / 2], MinMax [(''a'', 1)] [(''a'', 3)], None, None)"
proof -
  have "dict_of_keys [''a'', ''a''] [10, 1] = Inr [(''a'', 1)]"
       "dict_of_keys [''a'', ''a''] [30, 3] = Inr [(''a'', 3)]"
    by code_simp+
  then show ?thesis
    by (simp add: train_branch_def train_entropy_def ex_fit ex_tr ex_ent)
qed

lemma dup_run:
  "train_weight_model_locals eigh eig ''id'' ''t'' ''entropy'' ''n'' [''a'', ''a''] ex_dup_indicators ex_train
       [''positive'', ''positive''] [] am thr
     = Inr (ex_dup_model, ex_scaled, [0, 1 / 2, 1], [(''g1'', [0, 1 / 2, 1])])"
proof -
  have ws: "dict_of_keys [''a'', ''a''] [1 / 2, 1 / 2] = Inr [(''a'', 1 / 2)]"
    by code_simp
  have cs: "compute_scores ex_scaled [''a'', ''a''] ex_dup_indicators [(''a'', 1 / 2)]
      = Inr ([0, 1 / 2, 1], [(''g1'', [0, 1 / 2, 1])])"
    by code_simp
  have rec: "trained_record ''id'' ''t'' ''entropy'' ''n'' [''a'', ''a''] ex_dup_indicators []
              [(''a'', 1 / 2)] (MinMax [(''a'', 1)] [(''a'', 3)]) None None
              [0, 1 / 2, 1] [(''g1'', [0, 1 / 2, 1])] = ex_dup_model"
    by code_simp
  show ?thesis
    unfolding train_weight_model_locals_unfold
    by (simp add: ex_dir dup_branch ws cs rec)
qed

lemma dup_apply:
  "apply_weight_model ex_dup_model ex_dup_indicators ex_train [''positive'', ''positive'']
     = Inr (\<lparr>ncols = 2, rows = [[9 / 2, 0], [19 / 2, 1 / 2], [29 / 2, 1]]\<rparr>,
            [9 / 4, 5, 31 / 4], [(''g1'', [9 / 4, 5, 31 / 4])], [(''g1'', [225, 500, 775])])"
  by code_simp

lemma sqrt_100: "sqrt 100 = 10"
proof -
  have "sqrt 100 = sqrt (10\<^sup>2)" by simp
  also have "\<dots> = 10" by (simp del: power2_eq_square)
  finally show ?thesis .
qed

lemma ex_std:
  "std1 [10, 20, 30] = 10" "std1 [1, 2, 3] = 1" "std1 [3, 2, 1] = 1"
  by (simp_all add: std1_def mean_def sqrt_100)

lemma ex_mean:
  "mean [10, 20, 30] = 20" "mean [1, 2, 3] = 2" "mean [3, 2, 1] = 2"
  by (simp_all add: mean_def)

lemma ex_zfit: "zscore_fit ex_train = Inr ([20, 2], [10, 1])"
proof -
  have "cols ex_train = [[10, 20, 30], [1, 2, 3]]" "nrows ex_train = 3" "ncols ex_train = 2"
    by code_simp+
  then show ?thesis by (simp add: zscore_fit_def ex_std ex_mean)
qed

lemma ex_zfit3: "zscore_fit ex_train3 = Inr ([20, 2, 2], [10, 1, 1])"
proof -
  have "cols ex_train3 = [[10, 20, 30], [1, 2, 3], [3, 2, 1]]" "nrows ex_train3 = 3" "ncols ex_train3 = 3"
    by code_simp+
  then show ?thesis by (simp add: zscore_fit_def ex_std ex_mean)
qed

lemma ex_ztr: "zscore_transform ex_train [20, 2] [10, 1] = Inr ex_z"
  by code_simp

lemma ex_ztr3:
  "zscore_transform ex_train3 [20, 2, 2] [10, 1, 1]
     = Inr \<lparr>ncols = 3, rows = [[- 1, - 1, 1], [0, 0, 0], [1, 1, - 1]]\<rparr>"
  by code_simp

lemma ex_np_array2: "np_array2 [[1, 2, 4], [1 / 2, 1, 2], [1 / 4, 1 / 2, 1]] = Inr ex_ahp"
  by code_simp

lemma ex_pca_train:
  "train_weight_model_locals ex_eigh eig ''id'' ''t'' ''pca'' ''n'' [''a'', ''b''] ex_indicators ex_train
       [''positive'', ''positive''] [] am (85 / 100)
     = Inr (ex_pca_model, ex_z, [- 1, 0, 1], [(''g1'', [- 1, 0, 1]), (''default'', [- 1, 0, 1])])"
proof -
  have m: "''pca'' \<noteq> ''entropy''" by simp
  have da: "dict_of_keys [''a'', ''b''] [20, 2] = Inr [(''a'', 20), (''b'', 2)]"
           "dict_of_keys [''a'', ''b''] [10, 1] = Inr [(''a'', 10), (''b'', 1)]"
           "dict_of_keys [''a'', ''b''] [1 / 2, 1 / 2] = Inr [(''a'', 1 / 2), (''b'', 1 / 2)]"
    by code_simp+
  have br: "train_branch ex_eigh eig ''pca'' am (85 / 100) [''a'', ''b''] ex_train
     = Inr (ex_z, [1 / 2, 1 / 2], ZScore [(''a'', 20), (''b'', 2)] [(''a'', 10), (''b'', 1)],
            Some \<lparr>pca_k = 1, pca_cumulative = 1, pca_threshold = 85 / 100\<rparr>, None)"
    unfolding train_branch_def train_pca_def
    by (simp only: m if_False if_True refl ex_zfit ex_ztr ex_pca_run(1) bindE_simps prod.case da PcaResult.simps)
  have cs: "compute_scores ex_z [''a'', ''b''] ex_indicators [(''a'', 1 / 2), (''b'', 1 / 2)]
      = Inr ([- 1, 0, 1], [(''g1'', [- 1, 0, 1]), (''default'', [- 1, 0, 1])])"
    by code_simp
  have rec: "trained_record ''id'' ''t'' ''pca'' ''n'' [''a'', ''b''] ex_indicators []
              [(''a'', 1 / 2), (''b'', 1 / 2)] (ZScore [(''a'', 20), (''b'', 2)] [(''a'', 10), (''b'', 1)])
              (Some \<lparr>pca_k = 1, pca_cumulative = 1, pca_threshold = 85 / 100\<rparr>) None
              [- 1, 0, 1] [(''g1'', [- 1, 0, 1]), (''default'', [- 1, 0, 1])] = ex_pca_model"
    by code_simp
  show ?thesis
    unfolding train_weight_model_locals_unfold ex_dir bindE_simps br prod.case da cs rec
    by simp
qed

lemma ex_dir3: "apply_direction ex_train3 [''positive'', ''positive'', ''positive''] = Inr ex_train3"
  by code_simp

lemma ex_ahp_train:
  "train_weight_model_locals eigh ex_eig ''id'' ''t'' ''ahp'' ''n'' [''a'', ''b'', ''c''] ex_indicators3 ex_train3
       [''positive'', ''positive'', ''positive''] []
       (Some [[1, 2, 4], [1 / 2, 1, 2], [1 / 4, 1 / 2, 1]]) thr
     = Inr (ex_ahp_model, \<lparr>ncols = 3, rows = [[- 1, - 1, 1], [0, 0, 0], [1, 1, - 1]]\<rparr>,
            [- 5 / 7, 0, 5 / 7], [(''g1'', [- 3 / 5, 0, 3 / 5]), (''default'', [- 1, 0, 1])])"
proof -
  have m: "''ahp'' \<noteq> ''entropy''" "''ahp'' \<noteq> ''pca''" by simp_all
  have da: "dict_of_keys [''a'', ''b'', ''c''] [20, 2, 2] = Inr [(''a'', 20), (''b'', 2), (''c'', 2)]"
           "dict_of_keys [''a'', ''b'', ''c''] [10, 1, 1] = Inr [(''a'', 10), (''b'', 1), (''c'', 1)]"
           "dict_of_keys [''a'', ''b'', ''c''] [4 / 7, 2 / 7, 1 / 7] = Inr [(''a'', 4 / 7), (''b'', 2 / 7), (''c'', 1 / 7)]"
    by code_simp+
  have br: "train_branch eigh ex_eig ''ahp'' (Some [[1, 2, 4], [1 / 2, 1, 2], [1 / 4, 1 / 2, 1]]) thr
              [''a'', ''b'', ''c''] ex_train3
     = Inr (\<lparr>ncols = 3, rows = [[- 1, - 1, 1], [0, 0, 0], [1, 1, - 1]]\<rparr>, [4 / 7, 2 / 7, 1 / 7],
            ZScore [(''a'', 20), (''b'', 2), (''c'', 2)] [(''a'', 10), (''b'', 1), (''c'', 1)], None,
            Some \<lparr>ahp_matrix_of = [[1, 2, 4], [1 / 2, 1, 2], [1 / 4, 1 / 2, 1]],
                   lambdaMax = 3, CI = 0, CR = 0\<rparr>)"
    unfolding train_branch_def train_ahp_def
    by (simp only: m if_False if_True refl option.case ex_zfit3 ex_ztr3 ex_np_array2 ex_ahp_run
          bindE_simps prod.case da)
  have cs: "compute_scores \<lparr>ncols = 3, rows = [[- 1, - 1, 1], [0, 0, 0], [1, 1, - 1]]\<rparr>
              [''a'', ''b'', ''c''] ex_indicators3 [(''a'', 4 / 7), (''b'', 2 / 7), (''c'', 1 / 7)]
      = Inr ([- 5 / 7, 0, 5 / 7], [(''g1'', [- 3 / 5, 0, 3 / 5]), (''default'', [- 1, 0, 1])])"
    by code_simp
  have rec: "trained_record ''id'' ''t'' ''ahp'' ''n'' [''a'', ''b'', ''c''] ex_indicators3 []
              [(''a'', 4 / 7), (''b'', 2 / 7), (''c'', 1 / 7)]
              (ZScore [(''a'', 20), (''b'', 2), (''c'', 2)] [(''a'', 10), (''b'', 1), (''c'', 1)])
              None (Some \<lparr>ahp_matrix_of = [[1, 2, 4], [1 / 2, 1, 2], [1 / 4, 1 / 2, 1]],
                   lambdaMax = 3, CI = 0, CR = 0\<rparr>)
              [- 5 / 7, 0, 5 / 7] [(''g1'', [- 3 / 5, 0, 3 / 5]), (''default'', [- 1, 0, 1])] = ex_ahp_model"
  proof -
    have "build_dimension2_weights ex_indicators3 [(''a'', 4 / 7), (''b'', 2 / 7), (''c'', 1 / 7)]
            = [(''g1'', 5 / 7), (''default'', 2 / 7)]"
      by code_simp
    then show ?thesis by (simp add: trained_record_def ex_ahp_model_def)
  qed
  show ?thesis
    unfolding train_weight_model_locals_unfold ex_dir3 bindE_simps br prod.case da cs rec
    by simp
qed

lemma ex_ahp_short_train:
  "train_weight_model_locals eigh ex_eig ''id'' ''t'' ''ahp'' ''n'' [''a'', ''b''] ex_indicators ex_train
       [''positive'', ''positive''] []
       (Some [[1, 2, 4], [1 / 2, 1, 2], [1 / 4, 1 / 2, 1]]) thr
     = Inr (ex_ahp_short_model, ex_z, [- 6 / 7, 0, 6 / 7], [(''g1'', [- 1, 0, 1]), (''default'', [- 1, 0, 1])])"
proof -
  have m: "''ahp'' \<noteq> ''entropy''" "''ahp'' \<noteq> ''pca''" by simp_all
  have da: "dict_of_keys [''a'', ''b''] [20, 2] = Inr [(''a'', 20), (''b'', 2)]"
           "dict_of_keys [''a'', ''b''] [10, 1] = Inr [(''a'', 10), (''b'', 1)]"
           "dict_of_keys [''a'', ''b''] [4 / 7, 2 / 7, 1 / 7] = Inr [(''a'', 4 / 7), (''b'', 2 / 7)]"
    by code_simp+
  have br: "train_branch eigh ex_eig ''ahp'' (Some [[1, 2, 4], [1 / 2, 1, 2], [1 / 4, 1 / 2, 1]]) thr
              [''a'', ''b''] ex_train
     = Inr (ex_z, [4 / 7, 2 / 7, 1 / 7],
            ZScore [(''a'', 20), (''b'', 2)] [(''a'', 10), (''b'', 1)], None,
            Some \<lparr>ahp_matrix_of = [[1, 2, 4], [1 / 2, 1, 2], [1 / 4, 1 / 2, 1]],
                   lambdaMax = 3, CI = 0, CR = 0\<rparr>)"
    unfolding train_branch_def train_ahp_def
    by (simp only: m if_False if_True refl option.case ex_zfit ex_ztr ex_np_array2 ex_ahp_run
          bindE_simps prod.case da)
  have cs: "compute_scores ex_z [''a'', ''b''] ex_indicators [(''a'', 4 / 7), (''b'', 2 / 7)]
      = Inr ([- 6 / 7, 0, 6 / 7], [(''g1'', [- 1, 0, 1]), (''default'', [- 1, 0, 1])])"
    by code_simp
  have rec: "trained_record ''id'' ''t'' ''ahp'' ''n'' [''a'', ''b''] ex_indicators []
              [(''a'', 4 / 7), (''b'', 2 / 7)]
              (ZScore [(''a'', 20), (''b'', 2)] [(''a'', 10), (''b'', 1)])
              None (Some \<lparr>ahp_matrix_of = [[1, 2, 4], [1 / 2, 1, 2], [1 / 4, 1 / 2, 1]],
                   lambdaMax = 3, CI = 0, CR = 0\<rparr>)
              [- 6 / 7, 0, 6 / 7] [(''g1'', [- 1, 0, 1]), (''default'', [- 1, 0, 1])] = ex_ahp_short_model"
  proof -
    have "build_dimension2_weights ex_indicators [(''a'', 4 / 7), (''b'', 2 / 7)]
            = [(''g1'', 4 / 7), (''default'', 2 / 7)]"
      by code_simp
    then show ?thesis by (simp add: trained_record_def ex_ahp_short_model_def)
  qed
  show ?thesis
    unfolding train_weight_model_locals_unfold ex_dir bindE_simps br prod.case da cs rec
    by simp
qed

lemma np_array2_nrows: "np_array2 mat = Inr m \<Longrightarrow> nrows m = length mat"
  by (auto simp: np_array2_def nrows_def split: list.splits if_splits)

lemma train_branch_length:
  assumes br: "train_branch eigh eig meth am thr ks x = Inr (z, w, std, pinfo, ainfo)"
      and ws: "dict_of_keys ks w = Inr d"
      and nc: "length ks = ncols x"
      and ahp: "meth = ''ahp'' \<longrightarrow> (\<exists>mat. am = Some mat \<and> length mat = length ks)
                  \<and> (\<forall>m vals vecs. eig m = Inr (vals, vecs) \<longrightarrow> length vecs = nrows m)"
  shows "length w = length ks"
proof (cases "meth = ''ahp''")
  case False
  have "length ks \<le> length w" using ws by (auto simp: dict_of_keys_def split: if_splits)
  moreover have "length w \<le> ncols x" using train_branch_weights(4)[OF br] False by simp
  ultimately show ?thesis using nc by simp
next
  case True
  have "train_ahp eig am ks x = Inr (z, w, std, pinfo, ainfo)"
    using br True by (simp add: train_branch_def)
  then obtain mat m l ci cr where am: "am = Some mat" and np: "np_array2 mat = Inr m"
    and aw: "ahp_weights eig m = Inr (w, l, ci, cr)"
    by (rule train_ahp_Inr)
  obtain vals vecs where e: "eig m = Inr (vals, vecs)" and lw: "length w = length vecs"
    using ahp_weights_props(3)[OF aw] by blast
  have "length vecs = nrows m" using ahp True e by blast
  moreover have "nrows m = length mat" using np by (rule np_array2_nrows)
  moreover have "length mat = length ks" using ahp True am by auto
  ultimately show ?thesis using lw by simp
qed

lemma ex_rep_run:
  "train_weight_model_locals eigh eig ''id'' ''t'' ''entropy'' ''n'' [''a'', ''b''] ex_rep_indicators ex_train
       [''positive'', ''positive''] [] am thr
     = Inr (ex_entropy_model\<lparr>dimension2Weights := [(''g1'', 1), (''default'', 1 / 2)]\<rparr>,
            ex_scaled, [0, 1 / 2, 1], [(''g1'', [0, 1 / 2, 1]), (''default'', [0, 1 / 2, 1])])"
proof -
  have ss: "sub_scores_of ex_scaled [1 / 2, 1 / 2] (dims_of (key_to_dim_of ex_rep_indicators) [''a'', ''b''])
              = [(''g1'', [0, 1 / 2, 1]), (''default'', [0, 1 / 2, 1])]"
    by code_simp
  have dw: "build_dimension2_weights ex_rep_indicators [(''a'', 1 / 2), (''b'', 1 / 2)]
              = [(''g1'', 1), (''default'', 1 / 2)]"
    by code_simp
  have rec: "trained_record ''id'' ''t'' ''entropy'' ''n'' [''a'', ''b''] ex_rep_indicators []
              [(''a'', 1 / 2), (''b'', 1 / 2)]
              (MinMax [(''a'', 10), (''b'', 1)] [(''a'', 30), (''b'', 3)]) None None
              [0, 1 / 2, 1] [(''g1'', [0, 1 / 2, 1]), (''default'', [0, 1 / 2, 1])]
            = ex_entropy_model\<lparr>dimension2Weights := [(''g1'', 1), (''default'', 1 / 2)]\<rparr>"
    by (simp add: trained_record_def ex_entropy_model_def dw)
  show ?thesis
    using ex_train_run[of eigh eig "''id''" "''t''" "''n''" ex_rep_indicators "[]" am thr]
    unfolding ss rec .
qed

lemma ex_eig_contract: "\<forall>m vals vecs. ex_eig m = Inr (vals, vecs) \<longrightarrow> length vecs = nrows m"
  by (auto simp: ex_eig_def ex_ahp_def nrows_def split: if_splits)

section \<open>Training and applying on the same matrix (C1)\<close>

text \<open>
  C1, amended. When \<^verbatim>\<open>train_weight_model\<close> succeeds and the indicator keys are pairwise
  distinct, \<^verbatim>\<open>apply_weight_model\<close> with the resulting record, on the same matrix, directions
  and indicator list, returns the standardized matrix, the raw scores and the per-group
  sub-scores that training computed, and every index is scaled against the bounds of the
  training scores.
\<close>

theorem train_apply_round_trip:
  assumes "train_weight_model_locals eigh eig nid now meth name ks inds x_train dirs tids am thr
             = Inr (model, z, sr, ss)"
      and "distinct ks"
  shows "apply_weight_model model inds x_train dirs
           = Inr (z, sr, ss, map (\<lambda>(g, v). (g, scale_0_100 v (Min (set v)) (Max (set v)))) ss)
       \<and> apply_weight_model_locals model inds x_train dirs
           = Inr (z, sr, ss, map (\<lambda>(g, v). (g, scale_0_100 v (Min (set v)) (Max (set v)))) ss,
                  scale_0_100 sr (Min (set sr)) (Max (set sr)))"
  using train_then_apply[OF assms] by (auto simp: apply_weight_model_eq_Inr)

theorem train_apply_round_trip_witness:
  "train_weight_model_locals ex_eigh ex_eig ''id'' ''t'' ''entropy'' ''n'' [''a'', ''b''] ex_indicators
       ex_train [''positive'', ''positive''] [] None (85 / 100)
     = Inr (ex_entropy_model, \<lparr>ncols = 2, rows = [[0, 0], [1 / 2, 1 / 2], [1, 1]]\<rparr>, [0, 1 / 2, 1],
            [(''g1'', [0, 1 / 2, 1]), (''default'', [0, 1 / 2, 1])])
   \<and> distinct [''a'', ''b'']
   \<and> apply_weight_model ex_entropy_model ex_indicators ex_train [''positive'', ''positive'']
     = Inr (\<lparr>ncols = 2, rows = [[0, 0], [1 / 2, 1 / 2], [1, 1]]\<rparr>, [0, 1 / 2, 1],
            [(''g1'', [0, 1 / 2, 1]), (''default'', [0, 1 / 2, 1])],
            [(''g1'', [0, 50, 100]), (''default'', [0, 50, 100])])"
proof -
  have d: "distinct [''a'', ''b'']" by simp
  note run = ex_entropy_run[of ex_eigh ex_eig None "85 / 100"]
  show ?thesis
    using run d train_apply_round_trip[OF run d]
    by (simp add: ex_scaled_def scale_0_100_def)
qed

text \<open>
  Without the distinct keys the round trip fails: with the key \<open>a\<close> given for both columns
  the stored minimum and maximum of \<open>a\<close> are those of the last column, and applying the
  model to its training matrix standardizes the first column with them.
\<close>

theorem train_apply_round_trip_counterexample:
  "train_weight_model_locals ex_eigh ex_eig ''id'' ''t'' ''entropy'' ''n'' [''a'', ''a''] ex_dup_indicators
       ex_train [''positive'', ''positive''] [] None (85 / 100)
     = Inr (ex_dup_model, \<lparr>ncols = 2, rows = [[0, 0], [1 / 2, 1 / 2], [1, 1]]\<rparr>, [0, 1 / 2, 1],
            [(''g1'', [0, 1 / 2, 1])])
   \<and> apply_weight_model ex_dup_model ex_dup_indicators ex_train [''positive'', ''positive'']
     = Inr (\<lparr>ncols = 2, rows = [[9 / 2, 0], [19 / 2, 1 / 2], [29 / 2, 1]]\<rparr>,
            [9 / 4, 5, 31 / 4], [(''g1'', [9 / 4, 5, 31 / 4])], [(''g1'', [225, 500, 775])])
   \<and> [9 / 4, 5, 31 / 4] \<noteq> [0, 1 / 2, 1 :: real]"
  using dup_run[of ex_eigh ex_eig None "85 / 100"] dup_apply
  by (simp add: ex_scaled_def)

section \<open>The weights sum to one (C2)\<close>

text \<open>
  C2, amended. When \<^verbatim>\<open>train_weight_model\<close> succeeds, the indicator keys are pairwise
  distinct and, for the method \<open>ahp\<close>, the comparison matrix has one row for each indicator
  key (\<^verbatim>\<open>np.linalg.eig\<close> returning one eigenvector row for each row of its matrix), the
  values of the weights map sum to \<open>1\<close>; if moreover every indicator key is the key of
  exactly one record of the indicator list, the values of \<^verbatim>\<open>dimension2Weights\<close> sum to \<open>1\<close>.
\<close>

theorem trained_weights_sum_to_one:
  assumes tr: "train_weight_model eigh eig nid now meth name ks inds x_train dirs tids am thr = Inr model"
      and d: "distinct ks"
      and ahp: "meth = ''ahp'' \<longrightarrow> (\<exists>mat. am = Some mat \<and> length mat = length ks)
                  \<and> (\<forall>m vals vecs. eig m = Inr (vals, vecs) \<longrightarrow> length vecs = nrows m)"
  shows "dict_values_sum (weights model) = 1
       \<and> ((\<forall>k\<in>set ks. count_list (map key inds) k = 1) \<longrightarrow>
            dict_values_sum (dimension2Weights model) = 1)"
proof -
  from tr obtain z sr ss where loc:
    "train_weight_model_locals eigh eig nid now meth name ks inds x_train dirs tids am thr
       = Inr (model, z, sr, ss)"
    by (auto simp: train_weight_model_eq_Inr)
  from loc obtain x w_vec std pinfo ainfo ws where
    br: "train_branch eigh eig meth am thr ks x = Inr (z, w_vec, std, pinfo, ainfo)"
    and ws: "dict_of_keys ks w_vec = Inr ws"
    and cs: "compute_scores z ks inds ws = Inr (sr, ss)"
    and model: "model = trained_record nid now meth name ks inds tids ws std pinfo ainfo sr ss"
    by (rule train_locals_Inr)
  have nc: "length ks = ncols x"
    using compute_scores_ncols[OF cs] train_branch_weights(3)[OF br] by simp
  have len: "length w_vec = length ks"
    using train_branch_length[OF br ws nc ahp] .
  have zip: "ws = zip ks w_vec" using dict_of_keys_distinct(1)[OF d ws] .
  have fst: "map fst ws = ks" and snd: "map snd ws = w_vec"
    using len by (simp_all add: zip)
  have sum: "dict_values_sum ws = 1"
    using train_branch_weights(1)[OF br] by (simp add: dict_values_sum_def snd)
  have dims: "(\<forall>k\<in>set ks. count_list (map key inds) k = 1) \<longrightarrow>
            dict_values_sum (build_dimension2_weights inds ws) = 1"
  proof
    assume c: "\<forall>k\<in>set ks. count_list (map key inds) k = 1"
    have "fst ` set ws = set ks" using fst by (metis set_map)
    then have "\<forall>k\<in>fst ` set ws. count_list (map key inds) k = 1" using c by simp
    moreover have "distinct (map fst ws)" using d fst by simp
    ultimately have "sum_list (map (\<lambda>i. dict_get ws (key i) 0) inds) = dict_values_sum ws"
      by (intro sum_over_indicators)
    then show "dict_values_sum (build_dimension2_weights inds ws) = 1"
      using sum by (simp add: build_dimension2_weights_sum)
  qed
  show ?thesis using sum dims by (simp add: model)
qed

theorem trained_weights_sum_to_one_witness:
  "train_weight_model ex_eigh ex_eig ''id'' ''t'' ''ahp'' ''n'' [''a'', ''b'', ''c''] ex_indicators3
       ex_train3 [''positive'', ''positive'', ''positive''] []
       (Some [[1, 2, 4], [1 / 2, 1, 2], [1 / 4, 1 / 2, 1]]) (85 / 100) = Inr ex_ahp_model
   \<and> distinct [''a'', ''b'', ''c'']
   \<and> length [[1, 2, 4], [1 / 2, 1, 2], [1 / 4, 1 / 2, 1 :: real]] = length [''a'', ''b'', ''c'']
   \<and> list_all (\<lambda>k. count_list (map key ex_indicators3) k = 1) [''a'', ''b'', ''c'']
   \<and> dict_values_sum (weights ex_ahp_model) = 1
   \<and> dict_values_sum (dimension2Weights ex_ahp_model) = 1
   \<and> train_weight_model ex_eigh ex_eig ''id'' ''t'' ''entropy'' ''n'' [''a'', ''b''] ex_indicators
       ex_train [''positive'', ''positive''] [] None (85 / 100) = Inr ex_entropy_model
   \<and> dict_values_sum (weights ex_entropy_model) = 1
   \<and> dict_values_sum (dimension2Weights ex_entropy_model) = 1
   \<and> train_weight_model ex_eigh ex_eig ''id'' ''t'' ''pca'' ''n'' [''a'', ''b''] ex_indicators
       ex_train [''positive'', ''positive''] [] None (85 / 100) = Inr ex_pca_model
   \<and> dict_values_sum (weights ex_pca_model) = 1
   \<and> dict_values_sum (dimension2Weights ex_pca_model) = 1"
proof -
  have a: "train_weight_model ex_eigh ex_eig ''id'' ''t'' ''ahp'' ''n'' [''a'', ''b'', ''c''] ex_indicators3
       ex_train3 [''positive'', ''positive'', ''positive''] []
       (Some [[1, 2, 4], [1 / 2, 1, 2], [1 / 4, 1 / 2, 1]]) (85 / 100) = Inr ex_ahp_model"
    unfolding train_weight_model_eq_Inr using ex_ahp_train by blast
  have e: "train_weight_model ex_eigh ex_eig ''id'' ''t'' ''entropy'' ''n'' [''a'', ''b''] ex_indicators
       ex_train [''positive'', ''positive''] [] None (85 / 100) = Inr ex_entropy_model"
    unfolding train_weight_model_eq_Inr using ex_entropy_run by blast
  have p: "train_weight_model ex_eigh ex_eig ''id'' ''t'' ''pca'' ''n'' [''a'', ''b''] ex_indicators
       ex_train [''positive'', ''positive''] [] None (85 / 100) = Inr ex_pca_model"
    unfolding train_weight_model_eq_Inr using ex_pca_train by blast
  have d3: "distinct [''a'', ''b'', ''c'']" and d2: "distinct [''a'', ''b'']" by simp_all
  have h3: "''ahp'' = ''ahp'' \<longrightarrow>
      (\<exists>mat. Some [[1, 2, 4], [1 / 2, 1, 2], [1 / 4, 1 / 2, 1 :: real]] = Some mat
             \<and> length mat = length [''a'', ''b'', ''c''])
      \<and> (\<forall>m vals vecs. ex_eig m = Inr (vals, vecs) \<longrightarrow> length vecs = nrows m)"
    using ex_eig_contract by simp
  have h2: "''entropy'' = ''ahp'' \<longrightarrow>
      (\<exists>mat. (None :: real list list option) = Some mat \<and> length mat = length [''a'', ''b''])
      \<and> (\<forall>m vals vecs. ex_eig m = Inr (vals, vecs) \<longrightarrow> length vecs = nrows m)"
    "''pca'' = ''ahp'' \<longrightarrow>
      (\<exists>mat. (None :: real list list option) = Some mat \<and> length mat = length [''a'', ''b''])
      \<and> (\<forall>m vals vecs. ex_eig m = Inr (vals, vecs) \<longrightarrow> length vecs = nrows m)"
    by simp_all
  have c3: "list_all (\<lambda>k. count_list (map key ex_indicators3) k = 1) [''a'', ''b'', ''c'']"
    and c2: "list_all (\<lambda>k. count_list (map key ex_indicators) k = 1) [''a'', ''b'']"
    by (simp_all add: ex_indicators3_def ex_indicators_def)
  show ?thesis
    using a e p d3 c3 c2
      trained_weights_sum_to_one[OF a d3 h3]
      trained_weights_sum_to_one[OF e d2 h2(1)]
      trained_weights_sum_to_one[OF p d2 h2(2)]
    by (simp add: list_all_iff)
qed

text \<open>
  Each added condition is needed: a repeated indicator key leaves one weight in the map
  (sum \<open>1/2\<close>); a comparison matrix of order 3 for two keys leaves the first two of three
  weights (sum \<open>6/7\<close>); an indicator list that holds a key twice counts its weight twice
  in \<^verbatim>\<open>dimension2Weights\<close> (sum \<open>3/2\<close>).
\<close>

theorem trained_weights_sum_to_one_counterexample:
  "train_weight_model ex_eigh ex_eig ''id'' ''t'' ''entropy'' ''n'' [''a'', ''a''] ex_dup_indicators
       ex_train [''positive'', ''positive''] [] None (85 / 100) = Inr ex_dup_model
   \<and> dict_values_sum (weights ex_dup_model) = 1 / 2
   \<and> train_weight_model ex_eigh ex_eig ''id'' ''t'' ''ahp'' ''n'' [''a'', ''b''] ex_indicators
       ex_train [''positive'', ''positive''] []
       (Some [[1, 2, 4], [1 / 2, 1, 2], [1 / 4, 1 / 2, 1]]) (85 / 100) = Inr ex_ahp_short_model
   \<and> dict_values_sum (weights ex_ahp_short_model) = 6 / 7
   \<and> train_weight_model ex_eigh ex_eig ''id'' ''t'' ''entropy'' ''n'' [''a'', ''b''] ex_rep_indicators
       ex_train [''positive'', ''positive''] [] None (85 / 100)
       = Inr (ex_entropy_model\<lparr>dimension2Weights := [(''g1'', 1), (''default'', 1 / 2)]\<rparr>)
   \<and> dict_values_sum [(''g1'', 1), (''default'', 1 / 2)] = 3 / 2"
proof -
  have 1: "train_weight_model ex_eigh ex_eig ''id'' ''t'' ''entropy'' ''n'' [''a'', ''a''] ex_dup_indicators
       ex_train [''positive'', ''positive''] [] None (85 / 100) = Inr ex_dup_model"
    unfolding train_weight_model_eq_Inr using dup_run by blast
  have 2: "train_weight_model ex_eigh ex_eig ''id'' ''t'' ''ahp'' ''n'' [''a'', ''b''] ex_indicators
       ex_train [''positive'', ''positive''] []
       (Some [[1, 2, 4], [1 / 2, 1, 2], [1 / 4, 1 / 2, 1]]) (85 / 100) = Inr ex_ahp_short_model"
    unfolding train_weight_model_eq_Inr using ex_ahp_short_train by blast
  have 3: "train_weight_model ex_eigh ex_eig ''id'' ''t'' ''entropy'' ''n'' [''a'', ''b''] ex_rep_indicators
       ex_train [''positive'', ''positive''] [] None (85 / 100)
       = Inr (ex_entropy_model\<lparr>dimension2Weights := [(''g1'', 1), (''default'', 1 / 2)]\<rparr>)"
    unfolding train_weight_model_eq_Inr using ex_rep_run by blast
  have 4: "dict_values_sum (weights ex_dup_model) = 1 / 2"
    "dict_values_sum (weights ex_ahp_short_model) = 6 / 7"
    "dict_values_sum [(''g1'', 1), (''default'', 1 / 2)] = 3 / 2"
    by (simp_all add: dict_values_sum_def ex_dup_model_def ex_ahp_short_model_def)
  show ?thesis using 1 2 3 4 by simp
qed

section \<open>Facts about signs\<close>

lemma plogp_nonpos: "0 \<le> p \<Longrightarrow> p \<le> 1 \<Longrightarrow> plogp p \<le> 0"
  by (auto simp: plogp_def mult_le_0_iff)

lemma member_le_sum_list_real:
  assumes "\<forall>v\<in>set c. (0::real) \<le> v" "x \<in> set c"
  shows "x \<le> sum_list c"
  using assms
proof (induction c)
  case Nil
  then show ?case by simp
next
  case (Cons a c)
  have "0 \<le> sum_list c" using Cons.prems(1) by (simp add: sum_list_nonneg)
  then show ?case using Cons by auto
qed

lemma entropy_d_le_1:
  assumes "\<forall>v\<in>set c. 0 \<le> v"
  shows "entropy_d n c \<le> 1"
proof -
  define s1 where "s1 = (if sum_list c = 0 then 1 else sum_list c)"
  define k where "k = (if n > 1 then 1 / ln (real n) else 0)"
  have k: "0 \<le> k" by (simp add: k_def)
  have s0: "0 \<le> sum_list c" using assms by (simp add: sum_list_nonneg)
  have s1: "0 < s1" using s0 by (simp add: s1_def)
  have "\<forall>v\<in>set c. plogp (v / s1) \<le> 0"
  proof
    fix v assume v: "v \<in> set c"
    have "v \<le> s1"
    proof (cases "sum_list c = 0")
      case True
      then have "v = 0" using sum_list_nonneg_zero[OF assms True] v by simp
      then show ?thesis using s1 by simp
    next
      case False
      then show ?thesis using member_le_sum_list_real[OF assms v] by (simp add: s1_def)
    qed
    then have "v / s1 \<le> 1" using s1 by simp
    moreover have "0 \<le> v / s1" using assms v s1 by simp
    ultimately show "plogp (v / s1) \<le> 0" by (intro plogp_nonpos)
  qed
  then have "sum_list (map (\<lambda>v. plogp (v / s1)) c) \<le> 0"
    by (intro sum_list_nonpos) auto
  then have "k * sum_list (map (\<lambda>v. plogp (v / s1)) c) \<le> 0"
    using k by (simp add: mult_le_0_iff)
  moreover have "entropy_d n c = 1 + k * sum_list (map (\<lambda>v. plogp (v / s1)) c)"
    by (simp add: entropy_d_def Let_def s1_def k_def)
  ultimately show ?thesis by simp
qed

lemma dict_get_nonneg:
  assumes "\<forall>(k, v)\<in>set d. (0::real) \<le> v"
  shows "0 \<le> dict_get d k 0"
proof (cases "map_of d k")
  case None
  then show ?thesis by (simp add: dict_get_def)
next
  case (Some v)
  then have "(k, v) \<in> set d" by (rule map_of_SomeD)
  then show ?thesis using assms Some by (auto simp: dict_get_def)
qed

lemma build_dimension2_weights_nonneg:
  assumes ws: "\<forall>(k, v)\<in>set ws. (0::real) \<le> v"
  shows "\<forall>(g, v)\<in>set (build_dimension2_weights inds ws). 0 \<le> v"
proof -
  have "\<And>acc. \<forall>(g, v)\<in>set acc. 0 \<le> v \<Longrightarrow>
          \<forall>(g, v)\<in>set (fold (\<lambda>ind dim.
             let k = key ind; g = dim_of ind
             in AList.update g (dict_get dim g 0 + dict_get ws k 0) dim) inds acc). 0 \<le> v"
  proof (induction inds)
    case Nil
    then show ?case by simp
  next
    case (Cons i inds)
    let ?acc = "AList.update (dim_of i) (dict_get acc (dim_of i) 0 + dict_get ws (key i) 0) acc"
    have "0 \<le> dict_get acc (dim_of i) 0 + dict_get ws (key i) 0"
      using dict_get_nonneg[OF Cons.prems] dict_get_nonneg[OF ws] by (simp add: add_nonneg_nonneg)
    then have "\<forall>(g, v)\<in>set ?acc. 0 \<le> v"
      using Cons.prems set_update_subset[of "dim_of i" _ acc] by fastforce
    then show ?case using Cons.IH[of ?acc] by (simp add: Let_def)
  qed
  from this[of "[]"] show ?thesis by (simp add: build_dimension2_weights_def)
qed

section \<open>No weight is negative (C10)\<close>

text \<open>
  C10. Every weight vector that a weighting algorithm returns is entrywise non-negative:
  for \<^verbatim>\<open>_entropy_weights\<close> on a standardized matrix without negative entries (what min-max
  standardization produces) every diversity \<open>d\<^sub>j\<close> lies in \<open>[0, 1]\<close> and no weight is
  negative; the weights of \<^verbatim>\<open>_pca_weights\<close> and of \<^verbatim>\<open>_ahp_weights\<close> are never negative.
  Consequently, for every successful call of \<^verbatim>\<open>train_weight_model\<close>, with any of the three
  methods, every value of the weights map and of \<^verbatim>\<open>dimension2Weights\<close> is non-negative.
\<close>

theorem weights_entrywise_nonneg:
  "(wf_matrix z \<and> (\<forall>r\<in>set (rows z). \<forall>v\<in>set r. 0 \<le> v) \<and> entropy_weights z = Inr w \<longrightarrow>
       (\<forall>c\<in>set (cols z). 0 \<le> entropy_d (nrows z) c \<and> entropy_d (nrows z) c \<le> 1)
       \<and> (\<forall>v\<in>set w. 0 \<le> v))
   \<and> (pca_weights eigh thr z' = Inr res \<longrightarrow> (\<forall>v\<in>set (res_weights res). 0 \<le> v))
   \<and> (ahp_weights eig m = Inr (w', l, ci, cr) \<longrightarrow> (\<forall>v\<in>set w'. 0 \<le> v))
   \<and> (wf_matrix x_train
        \<and> train_weight_model eigh eig nid now meth name ks inds x_train dirs tids am thr = Inr model \<longrightarrow>
       (\<forall>(k, v)\<in>set (weights model). 0 \<le> v) \<and> (\<forall>(g, v)\<in>set (dimension2Weights model). 0 \<le> v))"
proof (intro conjI impI)
  assume a: "wf_matrix z \<and> (\<forall>r\<in>set (rows z). \<forall>v\<in>set r. 0 \<le> v) \<and> entropy_weights z = Inr w"
  show "\<forall>c\<in>set (cols z). 0 \<le> entropy_d (nrows z) c \<and> entropy_d (nrows z) c \<le> 1"
  proof
    fix c assume c: "c \<in> set (cols z)"
    have nn: "\<forall>v\<in>set c. 0 \<le> v" using cols_entries(2)[OF _ c] a by blast
    have "length c = nrows z" using cols_entries(1)[OF _ c] a by blast
    then show "0 \<le> entropy_d (nrows z) c \<and> entropy_d (nrows z) c \<le> 1"
      using entropy_d_range[OF nn] entropy_d_le_1[OF nn] by simp
  qed
  show "\<forall>v\<in>set w. 0 \<le> v"
    using a entropy_weights_nonneg by blast
next
  assume "pca_weights eigh thr z' = Inr res"
  then show "\<forall>v\<in>set (res_weights res). 0 \<le> v" by (rule pca_weights_props(2))
next
  assume "ahp_weights eig m = Inr (w', l, ci, cr)"
  then show "\<forall>v\<in>set w'. 0 \<le> v" by (rule ahp_weights_props(2))
next
  assume a: "wf_matrix x_train
        \<and> train_weight_model eigh eig nid now meth name ks inds x_train dirs tids am thr = Inr model"
  then obtain z sr ss where loc:
    "train_weight_model_locals eigh eig nid now meth name ks inds x_train dirs tids am thr
       = Inr (model, z, sr, ss)"
    by (auto simp: train_weight_model_eq_Inr)
  from loc obtain x w_vec std pinfo ainfo ws where
    dir: "apply_direction x_train dirs = Inr x"
    and br: "train_branch eigh eig meth am thr ks x = Inr (z, w_vec, std, pinfo, ainfo)"
    and ws: "dict_of_keys ks w_vec = Inr ws"
    and model: "model = trained_record nid now meth name ks inds tids ws std pinfo ainfo sr ss"
    by (rule train_locals_Inr)
  have "wf_matrix x" using apply_direction_shape[OF dir] a by simp
  then have nn: "\<forall>v\<in>set w_vec. 0 \<le> v" using train_branch_weights(2)[OF br] by simp
  have wsn: "\<forall>(k, v)\<in>set ws. 0 \<le> v"
    using dict_of_keys_values[OF ws] nn by auto
  show "\<forall>(k, v)\<in>set (weights model). 0 \<le> v"
    using wsn by (simp add: model)
  show "\<forall>(g, v)\<in>set (dimension2Weights model). 0 \<le> v"
    using build_dimension2_weights_nonneg[OF wsn] by (simp add: model)
qed

theorem weights_entrywise_nonneg_witness:
  "wf_matrix ex_scaled \<and> list_all (list_all (\<lambda>v. 0 \<le> v)) (rows ex_scaled)
   \<and> entropy_weights ex_scaled = Inr [1 / 2, 1 / 2]
   \<and> cols ex_scaled = [[0, 1 / 2, 1], [0, 1 / 2, 1]]
   \<and> 0 \<le> entropy_d 3 [0, 1 / 2, 1] \<and> entropy_d 3 [0, 1 / 2, 1] \<le> 1
   \<and> pca_weights ex_eigh (85 / 100) ex_z
       = Inr \<lparr>res_weights = [1 / 2, 1 / 2], res_k = 1, res_cumulative = 1\<rparr>
   \<and> ahp_weights ex_eig ex_ahp = Inr ([4 / 7, 2 / 7, 1 / 7], 3, 0, 0)
   \<and> wf_matrix ex_train
   \<and> train_weight_model ex_eigh ex_eig ''id'' ''t'' ''entropy'' ''n'' [''a'', ''b''] ex_indicators
       ex_train [''positive'', ''positive''] [] None (85 / 100) = Inr ex_entropy_model
   \<and> list_all (\<lambda>(k, v). 0 \<le> v) (weights ex_entropy_model)
   \<and> list_all (\<lambda>(g, v). 0 \<le> v) (dimension2Weights ex_entropy_model)"
proof -
  have wf: "wf_matrix ex_scaled" "wf_matrix ex_train"
    by (simp_all add: wf_matrix_def ex_scaled_def ex_train_def)
  have nn: "\<forall>r\<in>set (rows ex_scaled). \<forall>v\<in>set r. 0 \<le> v"
    by (simp add: ex_scaled_def)
  have e: "train_weight_model ex_eigh ex_eig ''id'' ''t'' ''entropy'' ''n'' [''a'', ''b''] ex_indicators
       ex_train [''positive'', ''positive''] [] None (85 / 100) = Inr ex_entropy_model"
    unfolding train_weight_model_eq_Inr using ex_entropy_run by blast
  show ?thesis
    using wf nn e ex_ent ex_cols ex_pca_run(1) ex_ahp_run
      weights_entrywise_nonneg[of ex_scaled "[1 / 2, 1 / 2]" ex_eigh "85 / 100" ex_z
        "\<lparr>res_weights = [1 / 2, 1 / 2], res_k = 1, res_cumulative = 1\<rparr>"
        ex_eig ex_ahp "[4 / 7, 2 / 7, 1 / 7]" 3 0 0 ex_train
        "''id''" "''t''" "''entropy''" "''n''" "[''a'', ''b'']" ex_indicators
        "[''positive'', ''positive'']" "[]" None ex_entropy_model]
    by (simp add: list_all_iff)
qed

end
